theory Spec2Isabelle
  imports Main
begin

section \<open>The host environment of the remediation scripts\<close>

text \<open>
  Every script of the repository is a top-to-bottom sequence of prints, subprocess calls,
  probes of the installed packages and writes of text files. The embedding makes these
  explicit:
  \<^item> a Python \<open>str\<close> is a \<open>string\<close> holding its UTF-8 bytes (the status glyphs of the
    source are the byte sequences below);
  \<^item> an exception is a value of \<open>exn\<close>; every class below derives from Python's
    \<open>Exception\<close>, so \<open>except Exception\<close> and a bare \<open>except\<close> catch all of them, while
    \<open>except subprocess.CalledProcessError\<close> and \<open>except ImportError\<close> catch one
    constructor only. Asynchronous interrupts are outside the model;
  \<^item> the \<open>world\<close> is what a script changes: the text files it reads and writes
    (\<open>files\<close>, the bytes on disk), the effects it performed on the host
    (\<open>effects\<close>, oldest first) and the lines it printed (\<open>out\<close>, oldest first, without
    the newline that \<open>print\<close> appends);
  \<^item> the \<open>env\<close> is everything the scripts do not own: how the package manager, the
    imports, the GPU runtime, the network and the file permissions answer. An answer may
    depend on all effects performed so far, never on what was printed. External
    processes and downloads are assumed to return.
\<close>

datatype exn =
    CalledProcessError string string
  | TimeoutExpired string
  | ImportError string
  | OSError string
  | ValueError string
  | TypeError string
  | AttributeError string
  | KeyError string
  | OtherException string

text \<open>\<open>str(e)\<close>; a \<open>CalledProcessError\<close> carries its captured \<open>stderr\<close> first.\<close>

fun exn_str :: "exn \<Rightarrow> string" where
  "exn_str (CalledProcessError err s) = s"
| "exn_str (TimeoutExpired s) = s"
| "exn_str (ImportError s) = s"
| "exn_str (OSError s) = s"
| "exn_str (ValueError s) = s"
| "exn_str (TypeError s) = s"
| "exn_str (AttributeError s) = s"
| "exn_str (KeyError s) = s"
| "exn_str (OtherException s) = s"

datatype effect =
    Run "string list"
  | Write string string
  | Mkdir string
  | Download string string

record world =
  files :: "string \<Rightarrow> string option"
  effects :: "effect list"
  out :: "string list"

record torch =
  torch_version :: string
  cuda_available :: bool
  cuda_version :: string
  device_name :: string
  total_memory_gb :: string

datatype torch_op = RandAdd | MatMul | Randn bool

typedecl pyfloat

datatype json =
    JNull
  | JBool bool
  | JInt int
  | JFloat pyfloat
  | JStr string
  | JList "json list"
  | JDict "(string \<times> json) list"

record env =
  sys_executable :: string
  sys_version :: string
  run_process :: "effect list \<Rightarrow> string list \<Rightarrow> exn option"
  import_torch :: "effect list \<Rightarrow> exn + torch"
  torch_ops :: "effect list \<Rightarrow> torch_op \<Rightarrow> exn option"
  import_module :: "effect list \<Rightarrow> string \<Rightarrow> exn + string"
  open_error :: "effect list \<Rightarrow> string \<Rightarrow> bool \<Rightarrow> exn option"
  locale_decode :: "string \<Rightarrow> exn + string"
  locale_encode :: "string \<Rightarrow> exn + string"
  json_loads :: "string \<Rightarrow> exn + json"
  json_dumps :: "json \<Rightarrow> string"
  py_str :: "json \<Rightarrow> string"
  vae_dir_exists :: "effect list \<Rightarrow> bool"
  vae_glob :: "effect list \<Rightarrow> string \<Rightarrow> string list"
  path_exists :: "effect list \<Rightarrow> string \<Rightarrow> bool"
  mkdir_error :: "effect list \<Rightarrow> string \<Rightarrow> exn option"
  download_error :: "effect list \<Rightarrow> string \<Rightarrow> string \<Rightarrow> exn option"
  site_packages :: "exn + string"
  openclip_list_models :: "effect list \<Rightarrow> exn + nat"

subsection \<open>Strings\<close>

definition nl :: string where
  "nl = [CHR 0x0A]"

definition ok_mark :: string where
  "ok_mark = [CHR 0xE2, CHR 0x9C, CHR 0x85]"

definition cross_mark :: string where
  "cross_mark = [CHR 0xE2, CHR 0x9D, CHR 0x8C]"

definition warn_mark :: string where
  "warn_mark = [CHR 0xE2, CHR 0x9A, CHR 0xA0, CHR 0xEF, CHR 0xB8, CHR 0x8F]"

definition cycle_mark :: string where
  "cycle_mark = [CHR 0xF0, CHR 0x9F, CHR 0x94, CHR 0x84]"

definition wrench_mark :: string where
  "wrench_mark = [CHR 0xF0, CHR 0x9F, CHR 0x94, CHR 0xA7]"

definition party_mark :: string where
  "party_mark = [CHR 0xF0, CHR 0x9F, CHR 0x8E, CHR 0x89]"

definition rule50 :: string where
  "rule50 = replicate 50 (CHR ''='')"

text \<open>A triple-quoted literal, one list element per line, each line ended by a newline.\<close>

definition text_of_lines :: "string list \<Rightarrow> string" where
  "text_of_lines ls = concat (map (\<lambda>l. l @ nl) ls)"

text \<open>\<open>sep.join(xs)\<close>.\<close>

fun join :: "string \<Rightarrow> string list \<Rightarrow> string" where
  "join sep [] = []"
| "join sep [x] = x"
| "join sep (x # y # ys) = x @ sep @ join sep (y # ys)"

text \<open>\<open>s.upper()\<close> on ASCII letters (the only ones the scripts apply it to).\<close>

definition upper_char :: "char \<Rightarrow> char" where
  "upper_char c =
     (let n = (of_char c :: nat) in if 97 \<le> n \<and> n \<le> 122 then char_of (n - 32) else c)"

definition upper :: "string \<Rightarrow> string" where
  "upper s = map upper_char s"

text \<open>\<open>str(b)\<close> of a bool, as an f-string renders it.\<close>

definition py_bool :: "bool \<Rightarrow> string" where
  "py_bool b = (if b then ''True'' else ''False'')"

text \<open>\<open>s.startswith(p)\<close> and \<open>p in s\<close>.\<close>

fun startswith :: "string \<Rightarrow> string \<Rightarrow> bool" where
  "startswith s [] = True"
| "startswith [] (p # ps) = False"
| "startswith (c # cs) (p # ps) = (c = p \<and> startswith cs ps)"

fun contains :: "string \<Rightarrow> string \<Rightarrow> bool" where
  "contains [] p = (p = [])"
| "contains (c # cs) p = (startswith (c # cs) p \<or> contains cs p)"

text \<open>
  \<open>s.replace(old, new)\<close>: every non-overlapping occurrence of \<open>old\<close>, leftmost first. With an
  empty \<open>old\<close> Python puts \<open>new\<close> before every character and at the end.
\<close>

function replace_from :: "string \<Rightarrow> string \<Rightarrow> string \<Rightarrow> string" where
  "replace_from old new [] = (if old = [] then new else [])"
| "replace_from old new (c # cs) =
     (if old = [] then new @ c # replace_from old new cs
      else if startswith (c # cs) old
      then new @ replace_from old new (drop (length old) (c # cs))
      else c # replace_from old new cs)"
  by pat_completeness auto
termination
  by (relation "measure (\<lambda>(old, new, s). length s)") auto

definition replace :: "string \<Rightarrow> string \<Rightarrow> string \<Rightarrow> string" where
  "replace s old new = replace_from old new s"

subsection \<open>Primitive effects\<close>

text \<open>\<open>print(s)\<close>.\<close>

definition print :: "string \<Rightarrow> world \<Rightarrow> world" where
  "print s w = w\<lparr>out := out w @ [s]\<rparr>"

fun prints :: "string list \<Rightarrow> world \<Rightarrow> world" where
  "prints [] w = w"
| "prints (s # ss) w = prints ss (print s w)"

text \<open>
  \<open>subprocess.run(args, check=check, capture_output=True)\<close>: the process is started (an
  effect on the host) and the environment says how the call ends. A non-zero exit status
  is the answer \<open>CalledProcessError\<close>, which is raised only under \<open>check=True\<close>.
\<close>

definition subprocess_run :: "env \<Rightarrow> bool \<Rightarrow> string list \<Rightarrow> world \<Rightarrow> (exn + unit) \<times> world" where
  "subprocess_run env check args w =
     (let w' = w\<lparr>effects := effects w @ [Run args]\<rparr> in
      case run_process env (effects w) args of
        None \<Rightarrow> (Inr (), w')
      | Some (CalledProcessError err s) \<Rightarrow>
          (if check then (Inl (CalledProcessError err s), w') else (Inr (), w'))
      | Some e \<Rightarrow> (Inl e, w'))"

text \<open>
  \<open>with open(path, 'r', encoding='utf-8') as f: f.read()\<close> and
  \<open>with open(path, 'w', encoding='utf-8') as f: f.write(s)\<close>: the text is the bytes of the
  file. Opening may be refused by the host; a file that is not there cannot be read.
  Bytes that are not UTF-8 and newline translation are outside the model.
\<close>

definition read_text :: "env \<Rightarrow> string \<Rightarrow> world \<Rightarrow> exn + string" where
  "read_text env path w =
     (case open_error env (effects w) path False of
        Some e \<Rightarrow> Inl e
      | None \<Rightarrow>
          (case files w path of
             None \<Rightarrow> Inl (OSError ''No such file or directory'')
           | Some s \<Rightarrow> Inr s))"

definition write_text :: "env \<Rightarrow> string \<Rightarrow> string \<Rightarrow> world \<Rightarrow> (exn + unit) \<times> world" where
  "write_text env path s w =
     (case open_error env (effects w) path True of
        Some e \<Rightarrow> (Inl e, w)
      | None \<Rightarrow>
          (Inr (), w\<lparr>files := (files w)(path \<mapsto> s), effects := effects w @ [Write path s]\<rparr>))"

text \<open>
  \<open>open(path, 'r')\<close> and \<open>open(path, 'w')\<close> with no \<open>encoding\<close>: the text goes through the
  codec of the host's locale (\<open>locale_decode\<close>, \<open>locale_encode\<close>; a \<open>UnicodeError\<close> is a
  \<open>ValueError\<close>). Opening for writing empties the file before \<open>write\<close> encodes the text.
  The launcher templates of the scripts and the output of \<open>json.dump\<close> (which escapes every
  character outside ASCII) are ASCII, which the locale codecs write as it is: these
  writes are \<open>write_text\<close>.
\<close>

definition read_text_locale :: "env \<Rightarrow> string \<Rightarrow> world \<Rightarrow> exn + string" where
  "read_text_locale env path w =
     (case read_text env path w of
        Inl e \<Rightarrow> Inl e
      | Inr bytes \<Rightarrow> locale_decode env bytes)"

definition write_text_locale :: "env \<Rightarrow> string \<Rightarrow> string \<Rightarrow> world \<Rightarrow> (exn + unit) \<times> world" where
  "write_text_locale env path s w =
     (case open_error env (effects w) path True of
        Some e \<Rightarrow> (Inl e, w)
      | None \<Rightarrow>
          (case locale_encode env s of
             Inl e \<Rightarrow>
               (Inl e, w\<lparr>files := (files w)(path \<mapsto> []), effects := effects w @ [Write path []]\<rparr>)
           | Inr bytes \<Rightarrow>
               (Inr (), w\<lparr>files := (files w)(path \<mapsto> bytes),
                           effects := effects w @ [Write path bytes]\<rparr>)))"

text \<open>\<open>os.path.exists(path)\<close> for the text files of the model.\<close>

definition file_exists :: "string \<Rightarrow> world \<Rightarrow> bool" where
  "file_exists path w = (files w path \<noteq> None)"

section \<open>fix_pytorch_cuda.py\<close>

definition check_current_pytorch :: "env \<Rightarrow> world \<Rightarrow> (exn + bool) \<times> world" where
  "check_current_pytorch env w =
     (case import_torch env (effects w) of
        Inr t \<Rightarrow>
          (let w1 = print (''Current PyTorch version: '' @ torch_version t) w;
               w2 = print (''CUDA available: '' @ py_bool (cuda_available t)) w1;
               w3 = (if cuda_available t
                     then prints [''CUDA version: '' @ cuda_version t,
                                  ''GPU device: '' @ device_name t] w2
                     else print (warn_mark @ ''  CPU-only version detected'') w2)
           in (Inr True, w3))
      | Inl (ImportError m) \<Rightarrow> (Inr False, print ''PyTorch is not installed'' w)
      | Inl e \<Rightarrow> (Inl e, w))"

definition uninstall_command :: "env \<Rightarrow> string \<Rightarrow> string list" where
  "uninstall_command env package =
     [sys_executable env, ''-m'', ''pip'', ''uninstall'', package, ''-y'']"

fun uninstall_loop :: "env \<Rightarrow> string list \<Rightarrow> world \<Rightarrow> (exn + unit) \<times> world" where
  "uninstall_loop env [] w = (Inr (), w)"
| "uninstall_loop env (package # rest) w =
     (let w1 = print (''Uninstalling '' @ package @ ''...'') w in
      case subprocess_run env True (uninstall_command env package) w1 of
        (Inr u, w2) \<Rightarrow>
          uninstall_loop env rest (print (ok_mark @ '' '' @ package @ '' uninstalled'') w2)
      | (Inl (CalledProcessError err s), w2) \<Rightarrow>
          uninstall_loop env rest
            (print (warn_mark @ ''  '' @ package @ '' not found or already uninstalled'') w2)
      | (Inl e, w2) \<Rightarrow> (Inl e, w2))"

definition packages_to_remove :: "string list" where
  "packages_to_remove = [''torch'', ''torchvision'', ''torchaudio'']"

definition uninstall_current_pytorch :: "env \<Rightarrow> world \<Rightarrow> (exn + unit) \<times> world" where
  "uninstall_current_pytorch env w =
     uninstall_loop env packages_to_remove
       (print (nl @ ''=== Uninstalling Current PyTorch ==='') w)"

record cuda_config =
  version :: string
  url :: string
  description :: string

definition cuda_configs :: "cuda_config list" where
  "cuda_configs =
     [\<lparr>version = ''cu121'', url = ''https://download.pytorch.org/whl/cu121'',
       description = ''CUDA 12.1 (matches your system)''\<rparr>,
      \<lparr>version = ''cu118'', url = ''https://download.pytorch.org/whl/cu118'',
       description = ''CUDA 11.8 (fallback)''\<rparr>,
      \<lparr>version = ''cu124'', url = ''https://download.pytorch.org/whl/cu124'',
       description = ''CUDA 12.4 (newer)''\<rparr>]"

definition verify_cuda :: "env \<Rightarrow> world \<Rightarrow> bool \<times> world" where
  "verify_cuda env w =
     (case import_torch env (effects w) of
        Inl e \<Rightarrow> (False, print (''CUDA verification error: '' @ exn_str e) w)
      | Inr t \<Rightarrow>
          (if cuda_available t
           then (case torch_ops env (effects w) RandAdd of
                   Some e \<Rightarrow> (False, print (''CUDA verification error: '' @ exn_str e) w)
                 | None \<Rightarrow> (True, w))
           else (False, w)))"

definition install_command :: "env \<Rightarrow> cuda_config \<Rightarrow> string list" where
  "install_command env config =
     [sys_executable env, ''-m'', ''pip'', ''install'',
      ''torch==2.6.0'', ''torchvision==0.21.0'', ''torchaudio==2.6.0'',
      ''--extra-index-url'', url config, ''--force-reinstall'']"

fun install_loop :: "env \<Rightarrow> cuda_config list \<Rightarrow> world \<Rightarrow> (exn + bool) \<times> world" where
  "install_loop env [] w = (Inr False, w)"
| "install_loop env (config # rest) w =
     (let w1 = prints [nl @ cycle_mark @ '' Trying '' @ description config @ ''...'',
                       ''Command: '' @ join '' '' (install_command env config)] w in
      case subprocess_run env True (install_command env config) w1 of
        (Inr u, w2) \<Rightarrow>
          (let w3 = print (ok_mark @ '' Installation successful!'') w2 in
           case verify_cuda env w3 of
             (True, w4) \<Rightarrow>
               (Inr True,
                print (ok_mark @ '' CUDA verification successful with ''
                         @ upper (version config) @ ''!'') w4)
           | (False, w4) \<Rightarrow>
               install_loop env rest
                 (print (warn_mark @ ''  CUDA not working with '' @ upper (version config)
                           @ '', trying next...'') w4))
      | (Inl (CalledProcessError err s), w2) \<Rightarrow>
          install_loop env rest
            (prints [cross_mark @ '' Installation failed with '' @ upper (version config),
                     ''Error: '' @ (if err \<noteq> [] then err else s)] w2)
      | (Inl e, w2) \<Rightarrow> (Inl e, w2))"

definition install_cuda_pytorch :: "env \<Rightarrow> world \<Rightarrow> (exn + bool) \<times> world" where
  "install_cuda_pytorch env w =
     install_loop env cuda_configs
       (print (nl @ ''=== Installing CUDA-enabled PyTorch 2.6.0 ==='') w)"

definition test_installation :: "env \<Rightarrow> world \<Rightarrow> bool \<times> world" where
  "test_installation env w0 =
     (let w = print (nl @ ''=== Testing Final Installation ==='') w0 in
      case import_torch env (effects w) of
        Inl e \<Rightarrow> (False, print (cross_mark @ '' Test failed: '' @ exn_str e) w)
      | Inr t \<Rightarrow>
          (let w1 = prints [ok_mark @ '' PyTorch version: '' @ torch_version t,
                            ok_mark @ '' Python version: '' @ sys_version env] w in
           if cuda_available t
           then
             (let w2 = prints [ok_mark @ '' CUDA is available!'',
                               ok_mark @ '' CUDA version: '' @ cuda_version t,
                               ok_mark @ '' GPU device: '' @ device_name t,
                               ok_mark @ '' GPU memory: '' @ total_memory_gb t @ '' GB''] w1 in
              case torch_ops env (effects w2) MatMul of
                Some e \<Rightarrow> (False, print (cross_mark @ '' Test failed: '' @ exn_str e) w2)
              | None \<Rightarrow> (True, print (ok_mark @ '' GPU tensor operations working!'') w2))
           else (False, print (cross_mark @ '' CUDA is not available'') w1)))"

definition webui_content :: string where
  "webui_content = text_of_lines
     [''@echo off'',
      ''set TORCH_COMMAND=pip install torch==2.6.0 torchvision==0.21.0 --extra-index-url https://download.pytorch.org/whl/cu121'',
      ''set COMMANDLINE_ARGS=--skip-python-version-check'',
      ''call webui.bat %*'']"

definition update_webui_config :: "env \<Rightarrow> world \<Rightarrow> world" where
  "update_webui_config env w0 =
     (let w = print (nl @ ''=== Updating WebUI Configuration ==='') w0 in
      case write_text env ''webui_env.bat'' webui_content w of
        (Inr u, w1) \<Rightarrow> print (ok_mark @ '' Updated webui_env.bat with CUDA configuration'') w1
      | (Inl e, w1) \<Rightarrow>
          print (warn_mark @ ''  Could not update webui_env.bat: '' @ exn_str e) w1)"

definition next_steps :: "string list" where
  "next_steps =
     [nl @ rule50,
      ''Next steps:'',
      ''1. Test with: python -c \"import torch; print(torch.cuda.is_available())\"'',
      ''2. Launch webui with: webui_env.bat'',
      ''3. Check GPU usage in Task Manager during generation'']"

text \<open>The part of \<open>main\<close> after the two early returns: the fix process.\<close>

definition fix_process :: "env \<Rightarrow> world \<Rightarrow> (exn + unit) \<times> world" where
  "fix_process env w0 =
     (let w = print (nl @ wrench_mark @ '' CUDA not available. Starting fix process...'') w0 in
      case uninstall_current_pytorch env w of
        (Inl e, w1) \<Rightarrow> (Inl e, w1)
      | (Inr u, w1) \<Rightarrow>
          (case install_cuda_pytorch env w1 of
             (Inl e, w2) \<Rightarrow> (Inl e, w2)
           | (Inr True, w2) \<Rightarrow>
               (let w3 = print (nl @ ok_mark @ '' CUDA PyTorch installation completed!'') w2;
                    (tested, w4) = test_installation env w3;
                    w5 = (if tested
                          then print (nl @ party_mark @ '' Success! PyTorch with CUDA is now working!'') w4
                          else print (nl @ cross_mark @ '' Installation completed but CUDA test failed'') w4);
                    w6 = update_webui_config env w5
                in (Inr (), prints next_steps w6))
           | (Inr False, w2) \<Rightarrow>
               (Inr (),
                prints next_steps
                  (prints [nl @ cross_mark @ '' CUDA installation failed'',
                           ''Possible solutions:'',
                           ''1. Check that NVIDIA drivers are properly installed'',
                           ''2. Verify CUDA 12.1 is installed on your system'',
                           ''3. Try running: nvidia-smi to check GPU status'',
                           ''4. Consider using CPU-only mode as fallback''] w2))))"

definition fix_pytorch_cuda_main :: "env \<Rightarrow> world \<Rightarrow> (exn + unit) \<times> world" where
  "fix_pytorch_cuda_main env w0 =
     (let w = prints [''PyTorch CUDA Fix for Python 3.13'', rule50,
                      ''Checking current PyTorch installation...''] w0 in
      case check_current_pytorch env w of
        (Inl e, w1) \<Rightarrow> (Inl e, w1)
      | (Inr False, w1) \<Rightarrow>
          (Inr (), print (cross_mark @ '' PyTorch not found. Please run the main fix script first.'') w1)
      | (Inr True, w1) \<Rightarrow>
          (case import_torch env (effects w1) of
             Inr t \<Rightarrow>
               (if cuda_available t
                then (let w2 = print (ok_mark @ '' CUDA is already working! No fix needed.'') w1
                      in (Inr (), snd (test_installation env w2)))
                else fix_process env w1)
           | Inl e \<Rightarrow> fix_process env w1))"

text \<open>The exit status of the process: 0 when \<open>main\<close> returns, 1 when an exception escapes it.\<close>

definition exit_code :: "(exn + unit) \<times> world \<Rightarrow> nat" where
  "exit_code r = (case fst r of Inl e \<Rightarrow> 1 | Inr u \<Rightarrow> 0)"

section \<open>Python values read from JSON\<close>

text \<open>
  \<open>json.load\<close> and \<open>json.dump\<close> belong to Python's library, not to the repository: the
  embedding takes them from the environment (\<open>json_loads\<close>, \<open>json_dumps\<close> with
  \<open>indent=4\<close>), together with \<open>str()\<close> of a loaded value that is not a \<open>str\<close>
  (\<open>py_str\<close>). A dict keeps its insertion order: assigning to a present key replaces
  the value in place, assigning to a new key appends.
\<close>

fun dict_set :: "string \<Rightarrow> 'v \<Rightarrow> (string \<times> 'v) list \<Rightarrow> (string \<times> 'v) list" where
  "dict_set k v [] = [(k, v)]"
| "dict_set k v ((k', v') # d) = (if k' = k then (k, v) # d else (k', v') # dict_set k v d)"

fun type_name :: "json \<Rightarrow> string" where
  "type_name JNull = ''NoneType''"
| "type_name (JBool b) = ''bool''"
| "type_name (JInt i) = ''int''"
| "type_name (JFloat f) = ''float''"
| "type_name (JStr s) = ''str''"
| "type_name (JList xs) = ''list''"
| "type_name (JDict d) = ''dict''"

definition quoted :: "string \<Rightarrow> string" where
  "quoted s = [CHR 0x27] @ s @ [CHR 0x27]"

text \<open>\<open>obj.get(key, default)\<close>: only a dict has the method.\<close>

fun json_get :: "json \<Rightarrow> string \<Rightarrow> json \<Rightarrow> exn + json" where
  "json_get (JDict d) k dflt = Inr (case map_of d k of Some v \<Rightarrow> v | None \<Rightarrow> dflt)"
| "json_get j k dflt =
     Inl (AttributeError (quoted (type_name j) @ '' object has no attribute '' @ quoted ''get''))"

text \<open>\<open>obj[key] = value\<close> with a \<open>str\<close> key.\<close>

fun json_setitem :: "json \<Rightarrow> string \<Rightarrow> json \<Rightarrow> exn + json" where
  "json_setitem (JDict d) k v = Inr (JDict (dict_set k v d))"
| "json_setitem (JList xs) k v = Inl (TypeError ''list indices must be integers or slices, not str'')"
| "json_setitem j k v =
     Inl (TypeError (quoted (type_name j) @ '' object does not support item assignment''))"

text \<open>A value inside an f-string.\<close>

definition fmt :: "env \<Rightarrow> json \<Rightarrow> string" where
  "fmt env j = (case j of JStr s \<Rightarrow> s | _ \<Rightarrow> py_str env j)"

text \<open>
  \<open>with open(path, 'r') as f: json.load(f)\<close>: the file is opened with no \<open>encoding\<close>, so
  the parser is given the bytes of the file as the locale's codec decodes them.
\<close>

definition json_load :: "env \<Rightarrow> string \<Rightarrow> world \<Rightarrow> exn + json" where
  "json_load env path w =
     (case read_text_locale env path w of Inl e \<Rightarrow> Inl e | Inr s \<Rightarrow> json_loads env s)"

text \<open>\<open>Path(p).name\<close> and \<open>os.path.join(a, b)\<close> for a relative \<open>b\<close>, with \<open>/\<close> as the separator.\<close>

fun path_name_from :: "string \<Rightarrow> string \<Rightarrow> string" where
  "path_name_from acc [] = acc"
| "path_name_from acc (c # cs) =
     (if c = CHR ''/'' then path_name_from [] cs else path_name_from (acc @ [c]) cs)"

definition path_name :: "string \<Rightarrow> string" where
  "path_name p = path_name_from [] p"

definition path_join :: "string \<Rightarrow> string \<Rightarrow> string" where
  "path_join a b = (if a = [] then b else if last a = CHR ''/'' then a @ b else a @ ''/'' @ b)"

section \<open>fix_grey_images.py\<close>

definition ui_config_file :: string where
  "ui_config_file = ''ui-config.json''"

definition txt2img_key :: string where
  "txt2img_key = ''txt2img/Preferred VAE/value''"

definition img2img_key :: string where
  "img2img_key = ''img2img/Preferred VAE/value''"

definition check_current_vae_config :: "env \<Rightarrow> world \<Rightarrow> bool \<times> world" where
  "check_current_vae_config env w0 =
     (let w = print ''=== Checking Current VAE Configuration ==='' w0 in
      if file_exists ui_config_file w
      then
        (case json_load env ui_config_file w of
           Inl e \<Rightarrow> (False, print (cross_mark @ '' Error reading ui-config.json: '' @ exn_str e) w)
         | Inr ui_config \<Rightarrow>
             (case json_get ui_config txt2img_key (JStr ''None'') of
                Inl e \<Rightarrow>
                  (False, print (cross_mark @ '' Error reading ui-config.json: '' @ exn_str e) w)
              | Inr txt2img_vae \<Rightarrow>
                  (case json_get ui_config img2img_key (JStr ''None'') of
                     Inl e \<Rightarrow>
                       (False,
                        print (cross_mark @ '' Error reading ui-config.json: '' @ exn_str e) w)
                   | Inr img2img_vae \<Rightarrow>
                       (let w1 = prints [''Current txt2img VAE: '' @ fmt env txt2img_vae,
                                         ''Current img2img VAE: '' @ fmt env img2img_vae] w in
                        if txt2img_vae = JStr ''None'' \<and> img2img_vae = JStr ''None''
                        then (False,
                              print (cross_mark
                                       @ '' No VAE configured - this is likely causing grey images!'') w1)
                        else (True, print (ok_mark @ '' VAE is configured'') w1)))))
      else (False, print (cross_mark @ '' ui-config.json not found'') w))"

text \<open>
  The model files under \<open>models/VAE\<close> are binary and belong to the environment: \<open>vae_glob\<close>
  answers \<open>vae_dir.glob(pattern)\<close> with the names of the files found.
\<close>

definition check_available_vaes :: "env \<Rightarrow> world \<Rightarrow> string list \<times> world" where
  "check_available_vaes env w0 =
     (let w = print (nl @ ''=== Checking Available VAE Files ==='') w0;
          vae_files =
            (if vae_dir_exists env (effects w)
             then concat (map (\<lambda>ext. vae_glob env (effects w) (''*'' @ ext))
                            [''.pt'', ''.ckpt'', ''.safetensors''])
             else [])
      in if vae_files \<noteq> []
         then (vae_files,
               prints (map (\<lambda>name. ''  - '' @ name) vae_files)
                 (print (ok_mark @ '' Found VAE files:'') w))
         else ([], print (cross_mark @ '' No VAE files found in models/VAE/'') w))"

definition vae_url :: string where
  "vae_url = ''https://huggingface.co/stabilityai/sd-vae-ft-mse-original/resolve/main/vae-ft-mse-840000-ema-pruned.safetensors''"

definition vae_filename :: string where
  "vae_filename = ''vae-ft-mse-840000-ema-pruned.safetensors''"

definition vae_path :: string where
  "vae_path = path_join ''models/VAE'' vae_filename"

text \<open>
  The streamed download (request, status check, chunked write with its progress line) is
  one effect whose outcome the environment decides. The directory is created before the
  \<open>try\<close>, so an error of \<open>mkdir\<close> escapes the function.
\<close>

definition download_recommended_vae :: "env \<Rightarrow> world \<Rightarrow> (exn + string option) \<times> world" where
  "download_recommended_vae env w0 =
     (let w = print (nl @ ''=== Downloading Recommended VAE ==='') w0;
          w1 = w\<lparr>effects := effects w @ [Mkdir ''models/VAE'']\<rparr> in
      case mkdir_error env (effects w) ''models/VAE'' of
        Some e \<Rightarrow> (Inl e, w1)
      | None \<Rightarrow>
          (if path_exists env (effects w1) vae_path
           then (Inr (Some vae_path), print (ok_mark @ '' VAE already exists: '' @ vae_filename) w1)
           else
             (let w2 = prints [''Downloading VAE: '' @ vae_filename,
                               ''This may take a few minutes...''] w1;
                  w3 = w2\<lparr>effects := effects w2 @ [Download vae_url vae_path]\<rparr> in
              case download_error env (effects w2) vae_url vae_path of
                None \<Rightarrow>
                  (Inr (Some vae_path),
                   print (nl @ ok_mark @ '' Downloaded VAE: '' @ vae_filename) w3)
              | Some e \<Rightarrow>
                  (Inr None,
                   print (nl @ cross_mark @ '' Failed to download VAE: '' @ exn_str e) w3))))"

text \<open>The first step of \<open>configure_vae_in_ui_config\<close>: the current config, or \<open>{}\<close>.\<close>

definition read_current_config :: "env \<Rightarrow> world \<Rightarrow> exn + json" where
  "read_current_config env w =
     (if file_exists ui_config_file w then json_load env ui_config_file w else Inr (JDict []))"

definition configure_vae_in_ui_config :: "env \<Rightarrow> string \<Rightarrow> world \<Rightarrow> bool \<times> world" where
  "configure_vae_in_ui_config env vae_name w0 =
     (let w = print (nl @ ''=== Configuring VAE: '' @ vae_name @ '' ==='') w0;
          failed = (\<lambda>e w'. (False, print (cross_mark @ '' Failed to configure VAE: '' @ exn_str e) w'))
      in
      case read_current_config env w of
        Inl e \<Rightarrow> failed e w
      | Inr ui_config \<Rightarrow>
          (case json_setitem ui_config txt2img_key (JStr vae_name) of
             Inl e \<Rightarrow> failed e w
           | Inr ui_config1 \<Rightarrow>
               (case json_setitem ui_config1 img2img_key (JStr vae_name) of
                  Inl e \<Rightarrow> failed e w
                | Inr ui_config2 \<Rightarrow>
                    (case write_text env ui_config_file (json_dumps env ui_config2) w of
                       (Inl e, w1) \<Rightarrow> failed e w1
                     | (Inr u, w1) \<Rightarrow>
                         (True,
                          print (ok_mark @ '' Configured VAE in ui-config.json: '' @ vae_name) w1)))))"

definition script_content :: string where
  "script_content = text_of_lines
      [''@echo off'',
       ''echo Starting WebUI with VAE fixes for grey image issue...'',
       ''echo.'',
       '''',
       ''REM VAE-specific fixes'',
       ''set COMMANDLINE_ARGS=--skip-python-version-check --skip-install'',
       ''set COMMANDLINE_ARGS=%COMMANDLINE_ARGS% --precision autocast'',
       ''set COMMANDLINE_ARGS=%COMMANDLINE_ARGS% --opt-split-attention'',
       ''set COMMANDLINE_ARGS=%COMMANDLINE_ARGS% --medvram'',
       '''',
       ''REM Force VAE to not use half precision (fixes grey images)'',
       ''set COMMANDLINE_ARGS=%COMMANDLINE_ARGS% --no-half-vae'',
       '''',
       ''REM Additional stability flags'',
       ''set COMMANDLINE_ARGS=%COMMANDLINE_ARGS% --opt-sub-quad-attention'',
       '''',
       ''echo VAE Configuration:'',
       ''echo - Forcing full precision VAE (--no-half-vae)'',
       ''echo - GPU acceleration enabled'',
       ''echo - Memory optimization enabled'',
       ''echo - This should fix grey image generation'',
       ''echo.'',
       '''',
       ''call webui.bat %*'']"

definition script_filename :: string where
  "script_filename = ''webui_vae_fixed.bat''"

definition create_vae_fix_launch_script :: "env \<Rightarrow> world \<Rightarrow> bool \<times> world" where
  "create_vae_fix_launch_script env w0 =
     (let w = print (nl @ ''=== Creating VAE-Fixed Launch Script ==='') w0 in
      case write_text env script_filename script_content w of
        (Inr u, w1) \<Rightarrow> (True, print (ok_mark @ '' Created launch script: '' @ script_filename) w1)
      | (Inl e, w1) \<Rightarrow>
          (False, print (cross_mark @ '' Failed to create launch script: '' @ exn_str e) w1))"

definition test_vae_configuration :: "env \<Rightarrow> world \<Rightarrow> bool \<times> world" where
  "test_vae_configuration env w0 =
     (let w = print (nl @ ''=== Testing VAE Configuration ==='') w0 in
      case import_torch env (effects w) of
        Inl e \<Rightarrow> (False, print (cross_mark @ '' VAE test failed: '' @ exn_str e) w)
      | Inr t \<Rightarrow>
          (let w1 = prints [''PyTorch version: '' @ torch_version t,
                            ''CUDA available: '' @ py_bool (cuda_available t)] w in
           case torch_ops env (effects w1) (Randn (cuda_available t)) of
             Some e \<Rightarrow> (False, print (cross_mark @ '' VAE test failed: '' @ exn_str e) w1)
           | None \<Rightarrow> (True, print (ok_mark @ '' Basic tensor operations working'') w1)))"

definition grey_summary :: "string \<Rightarrow> string list" where
  "grey_summary vae_name =
     [nl @ rule50,
      ''GREY IMAGE FIX SUMMARY'',
      rule50,
      ok_mark @ '' VAE configuration completed!'',
      ok_mark @ '' VAE file: '' @ vae_name,
      ok_mark @ '' Launch script created: webui_vae_fixed.bat'',
      ok_mark @ '' UI configuration updated'',
      nl @ ''Next steps:'',
      ''1. Launch WebUI: .'' @ [CHR 0x5C] @ ''webui_vae_fixed.bat'',
      ''2. Generate a test image with prompt: '' @ quoted ''a red apple'',
      ''3. Images should now show actual content instead of grey'',
      ''4. If still grey, try different VAE in Settings > Stable Diffusion'',
      nl @ ''Troubleshooting:'',
      ''- Make sure VAE is selected in WebUI Settings'',
      ''- Try --no-half-vae flag if images are still grey'',
      ''- Check that model and VAE are compatible'']"

text \<open>The part of \<open>main\<close> that runs once a VAE name is known.\<close>

definition grey_apply :: "env \<Rightarrow> bool \<Rightarrow> string \<Rightarrow> world \<Rightarrow> world" where
  "grey_apply env vae_configured vae_name w =
     (let w1 = (if \<not> vae_configured then snd (configure_vae_in_ui_config env vae_name w) else w);
          w2 = snd (create_vae_fix_launch_script env w1);
          w3 = snd (test_vae_configuration env w2)
      in prints (grey_summary vae_name) w3)"

definition fix_grey_images_main :: "env \<Rightarrow> world \<Rightarrow> (exn + unit) \<times> world" where
  "fix_grey_images_main env w0 =
     (let w = prints [''Grey Image Fix for Stable Diffusion WebUI'', rule50] w0;
          (vae_configured, w1) = check_current_vae_config env w;
          (available_vaes, w2) = check_available_vaes env w1
      in
      case available_vaes of
        [] \<Rightarrow>
          (let w3 = print (nl @ cycle_mark @ '' No VAE files found. Downloading recommended VAE...'') w2
           in case download_recommended_vae env w3 of
                (Inl e, w4) \<Rightarrow> (Inl e, w4)
              | (Inr downloaded, w4) \<Rightarrow>
                  (case downloaded of
                     Some p \<Rightarrow>
                       (if p \<noteq> []
                        then (Inr (), grey_apply env vae_configured (path_name p) w4)
                        else (Inr (),
                              print (cross_mark @ '' Failed to download VAE. Please download manually.'') w4))
                   | None \<Rightarrow>
                       (Inr (),
                        print (cross_mark @ '' Failed to download VAE. Please download manually.'') w4)))
      | vae_name # others \<Rightarrow>
          (let w3 = print (nl @ ok_mark @ '' Using existing VAE: '' @ vae_name) w2
           in (Inr (), grey_apply env vae_configured vae_name w3)))"

section \<open>diagnose_vae_issue.py\<close>

definition debug_script :: string where
  "debug_script = text_of_lines
      [''@echo off'',
       ''echo VAE Debug Launch Script'',
       ''echo ========================'',
       ''echo.'',
       '''',
       ''REM GPU environment variables'',
       ''set PYTORCH_CUDA_ALLOC_CONF=max_split_size_mb:512'',
       ''set CUDA_LAUNCH_BLOCKING=0'',
       '''',
       ''REM Maximum VAE debugging and fixes'',
       ''set COMMANDLINE_ARGS=--skip-python-version-check --skip-install'',
       '''',
       ''REM Force specific VAE'',
       ''set COMMANDLINE_ARGS=%COMMANDLINE_ARGS% --vae-path \"models/VAE/vae-ft-mse-840000-ema-pruned.safetensors\"'',
       '''',
       ''REM VAE precision fixes'',
       ''set COMMANDLINE_ARGS=%COMMANDLINE_ARGS% --no-half-vae'',
       ''set COMMANDLINE_ARGS=%COMMANDLINE_ARGS% --precision full'',
       '''',
       ''REM Disable problematic optimizations'',
       ''set COMMANDLINE_ARGS=%COMMANDLINE_ARGS% --disable-nan-check'',
       ''set COMMANDLINE_ARGS=%COMMANDLINE_ARGS% --no-half'',
       '''',
       ''REM GPU optimizations'',
       ''set COMMANDLINE_ARGS=%COMMANDLINE_ARGS% --opt-split-attention'',
       ''set COMMANDLINE_ARGS=%COMMANDLINE_ARGS% --medvram'',
       '''',
       ''REM Enable verbose logging'',
       ''set COMMANDLINE_ARGS=%COMMANDLINE_ARGS% --log-startup'',
       '''',
       ''echo VAE Debug Configuration:'',
       ''echo =========================='',
       ''echo - Forcing specific VAE path'',
       ''echo - Full precision mode (no half precision anywhere)'',
       ''echo - Disabled NaN checking'',
       ''echo - Maximum compatibility mode'',
       ''echo - Verbose logging enabled'',
       ''echo.'',
       ''echo This should definitely fix grey images!'',
       ''echo.'',
       '''',
       ''call webui.bat %*'']"

definition create_vae_debug_launch_script :: "env \<Rightarrow> world \<Rightarrow> bool \<times> world" where
  "create_vae_debug_launch_script env w0 =
     (let w = print (nl @ ''=== Creating VAE Debug Launch Script ==='') w0 in
      case write_text env ''webui_vae_debug.bat'' debug_script w of
        (Inr u, w1) \<Rightarrow>
          (True, print (ok_mark @ '' Created debug launch script: webui_vae_debug.bat'') w1)
      | (Inl e, w1) \<Rightarrow>
          (False, print (cross_mark @ '' Failed to create debug script: '' @ exn_str e) w1))"

section \<open>fix_sgm_openclip.py\<close>

text \<open>\<open>str(n)\<close> of a natural number.\<close>

function string_of_nat :: "nat \<Rightarrow> string" where
  "string_of_nat n =
     (if n < 10 then [char_of (48 + n)]
      else string_of_nat (n div 10) @ [char_of (48 + n mod 10)])"
  by pat_completeness auto
termination
  by (relation "measure (\<lambda>n. n)") auto

definition compatible_versions :: "string list" where
  "compatible_versions =
     [''open-clip-torch==2.24.0'', ''open-clip-torch==2.20.0'', ''open-clip-torch==2.16.0'']"

definition openclip_install_command :: "env \<Rightarrow> string \<Rightarrow> string list" where
  "openclip_install_command env ver =
     [sys_executable env, ''-m'', ''pip'', ''install'', ver, ''--no-deps'']"

text \<open>
  The loop of \<open>try_install_compatible_openclip\<close>. The inner \<open>try\<close> catches an
  \<open>ImportError\<close> of the import test, the outer one a \<open>CalledProcessError\<close> raised
  anywhere in the body; every other exception escapes.
\<close>

fun try_install_loop :: "env \<Rightarrow> string list \<Rightarrow> world \<Rightarrow> (exn + bool) \<times> world" where
  "try_install_loop env [] w = (Inr False, w)"
| "try_install_loop env (ver # rest) w =
     (let w1 = print (''Trying '' @ ver @ ''...'') w in
      case subprocess_run env True (openclip_install_command env ver) w1 of
        (Inl (CalledProcessError err s), w2) \<Rightarrow>
          try_install_loop env rest
            (print (cross_mark @ '' '' @ ver @ '' installation failed'') w2)
      | (Inl e, w2) \<Rightarrow> (Inl e, w2)
      | (Inr u, w2) \<Rightarrow>
          (let w3 = print (ok_mark @ '' '' @ ver @ '' installed (no deps)'') w2 in
           case import_module env (effects w3) ''open_clip'' of
             Inr v \<Rightarrow>
               (Inr True, print (ok_mark @ '' open_clip imports successfully: '' @ v) w3)
           | Inl (ImportError m) \<Rightarrow>
               try_install_loop env rest
                 (print (warn_mark @ ''  '' @ ver @ '' installed but import failed: '' @ m) w3)
           | Inl (CalledProcessError err s) \<Rightarrow>
               try_install_loop env rest
                 (print (cross_mark @ '' '' @ ver @ '' installation failed'') w3)
           | Inl e \<Rightarrow> (Inl e, w3)))"

definition try_install_compatible_openclip :: "env \<Rightarrow> world \<Rightarrow> (exn + bool) \<times> world" where
  "try_install_compatible_openclip env w =
     try_install_loop env compatible_versions
       (print ''=== Attempting Compatible open_clip Installation ==='' w)"

definition mock_openclip_code :: string where
  "mock_openclip_code = text_of_lines
      ['''',
       ''\"\"\"'',
       ''Mock open_clip module for Python 3.13 compatibility'',
       '''',
       ''This provides basic functionality to satisfy imports without'',
       ''requiring sentencepiece/cmake compilation.'',
       ''\"\"\"'',
       '''',
       ''import torch'',
       ''import torch.nn as nn'',
       ''from typing import Optional, List, Union'',
       ''import warnings'',
       '''',
       ''# Mock version info'',
       ''__version__ = \"2.24.0-mock\"'',
       '''',
       ''class MockCLIPModel(nn.Module):'',
       ''    \"\"\"Mock CLIP model that provides basic functionality\"\"\"'',
       ''    '',
       ''    def __init__(self):'',
       ''        super().__init__()'',
       ''        self.visual = MockVisualEncoder()'',
       ''        self.text = MockTextEncoder()'',
       ''        self.logit_scale = nn.Parameter(torch.ones([]) * 2.6592)'',
       ''    '',
       ''    def encode_image(self, image):'',
       ''        return self.visual(image)'',
       ''    '',
       ''    def encode_text(self, text):'',
       ''        return self.text(text)'',
       '''',
       ''class MockVisualEncoder(nn.Module):'',
       ''    \"\"\"Mock visual encoder\"\"\"'',
       ''    '',
       ''    def __init__(self):'',
       ''        super().__init__()'',
       ''        self.output_dim = 512'',
       ''    '',
       ''    def forward(self, x):'',
       ''        # Return dummy embeddings with correct shape'',
       ''        batch_size = x.shape[0] if len(x.shape) > 0 else 1'',
       ''        return torch.zeros(batch_size, self.output_dim)'',
       '''',
       ''class MockTextEncoder(nn.Module):'',
       ''    \"\"\"Mock text encoder\"\"\"'',
       ''    '',
       ''    def __init__(self):'',
       ''        super().__init__()'',
       ''        self.output_dim = 512'',
       ''    '',
       ''    def forward(self, x):'',
       ''        # Return dummy embeddings with correct shape'',
       ''        batch_size = x.shape[0] if len(x.shape) > 0 else 1'',
       ''        return torch.zeros(batch_size, self.output_dim)'',
       '''',
       ''def create_model('',
       ''    model_name: str,'',
       ''    pretrained: Optional[str] = None,'',
       ''    precision: str = \"fp32\",'',
       ''    device: Union[str, torch.device] = \"cpu\",'',
       ''    jit: bool = False,'',
       ''    force_quick_gelu: bool = False,'',
       ''    force_custom_text: bool = False,'',
       ''    force_patch_dropout: Optional[float] = None,'',
       ''    force_image_size: Optional[Union[int, List[int]]] = None,'',
       ''    pretrained_image: bool = False,'',
       ''    pretrained_hf: bool = True,'',
       ''    cache_dir: Optional[str] = None,'',
       ''    output_dict: bool = False,'',
       ''    require_pretrained: bool = False,'',
       ''):'',
       ''    \"\"\"Mock create_model function\"\"\"'',
       ''    warnings.warn(\"Using mock open_clip - CLIP functionality will be limited\", UserWarning)'',
       ''    return MockCLIPModel(), None, None'',
       '''',
       ''def get_tokenizer(model_name: str):'',
       ''    \"\"\"Mock tokenizer function\"\"\"'',
       ''    def tokenize(text, context_length=77):'',
       ''        if isinstance(text, str):'',
       ''            text = [text]'',
       ''        # Return dummy tokens'',
       ''        return torch.zeros(len(text), context_length, dtype=torch.long)'',
       ''    '',
       ''    return tokenize'',
       '''',
       ''def list_models():'',
       ''    \"\"\"Mock list_models function\"\"\"'',
       ''    return [\"ViT-B-32\", \"ViT-B-16\", \"ViT-L-14\"]'',
       '''',
       ''def available_models():'',
       ''    \"\"\"Mock available_models function\"\"\"'',
       ''    return list_models()'',
       '''',
       ''# Mock constants'',
       ''OPENAI_DATASET_MEAN = (0.48145466, 0.4578275, 0.40821073)'',
       ''OPENAI_DATASET_STD = (0.26862954, 0.26130258, 0.27577711)'',
       '''',
       ''# Export main functions'',
       ''__all__ = ['',
       ''    \"create_model\",'',
       ''    \"get_tokenizer\", '',
       ''    \"list_models\",'',
       ''    \"available_models\",'',
       ''    \"OPENAI_DATASET_MEAN\",'',
       ''    \"OPENAI_DATASET_STD\"'',
       '']'',
       '''',
       ''print(\"'' @ warn_mark @ ''  Using mock open_clip module - CLIP functionality will be limited\")'']"

definition create_mock_openclip :: "env \<Rightarrow> world \<Rightarrow> bool \<times> world" where
  "create_mock_openclip env w0 =
     (let w = print (nl @ ''=== Creating Mock open_clip Module ==='') w0;
          failed = (\<lambda>e w'. (False, print (cross_mark @ '' Could not create mock open_clip: '' @ exn_str e) w'))
      in
      case site_packages env of
        Inl e \<Rightarrow> failed e w
      | Inr sp \<Rightarrow>
          (let openclip_dir = path_join sp ''open_clip'';
               w1 = w\<lparr>effects := effects w @ [Mkdir openclip_dir]\<rparr> in
           case mkdir_error env (effects w) openclip_dir of
             Some e \<Rightarrow> failed e w1
           | None \<Rightarrow>
               (case write_text env (path_join openclip_dir ''__init__.py'') mock_openclip_code w1 of
                  (Inl e, w2) \<Rightarrow> failed e w2
                | (Inr u, w2) \<Rightarrow>
                    (let w3 = print (ok_mark @ '' Mock open_clip created at: '' @ openclip_dir) w2 in
                     case import_module env (effects w3) ''open_clip'' of
                       Inr v \<Rightarrow>
                         (True,
                          print (ok_mark @ '' Mock open_clip imports successfully: '' @ v) w3)
                     | Inl (ImportError m) \<Rightarrow>
                         (False, print (cross_mark @ '' Mock open_clip import failed: '' @ m) w3)
                     | Inl e \<Rightarrow> failed e w3))))"

definition sgm_encoder_file :: string where
  "sgm_encoder_file = ''repositories/generative-models/sgm/modules/encoders/modules.py''"

definition old_import :: string where
  "old_import = ''import open_clip''"

definition new_import :: string where
  "new_import = join nl
      [''try:'',
       ''    import open_clip'',
       ''    OPENCLIP_AVAILABLE = True'',
       ''except ImportError:'',
       ''    print(\"'' @ warn_mark @ ''  open_clip not available - CLIP functionality will be limited\")'',
       ''    OPENCLIP_AVAILABLE = False'',
       ''    # Create mock open_clip for compatibility'',
       ''    class MockOpenCLIP:'',
       ''        @staticmethod'',
       ''        def create_model(*args, **kwargs):'',
       ''            raise ImportError(\"open_clip not available\")'',
       ''        @staticmethod'',
       ''        def get_tokenizer(*args, **kwargs):'',
       ''            raise ImportError(\"open_clip not available\")'',
       ''    open_clip = MockOpenCLIP()'']"

definition patch_sgm_imports :: "env \<Rightarrow> world \<Rightarrow> bool \<times> world" where
  "patch_sgm_imports env w0 =
     (let w = print (nl @ ''=== Patching SGM Repository Imports ==='') w0;
          failed = (\<lambda>e w'. (False, print (cross_mark @ '' Error patching SGM file: '' @ exn_str e) w'))
      in
      if \<not> file_exists sgm_encoder_file w
      then (False, print (cross_mark @ '' SGM encoder file not found: '' @ sgm_encoder_file) w)
      else
        (case read_text env sgm_encoder_file w of
           Inl e \<Rightarrow> failed e w
         | Inr content \<Rightarrow>
             (let backup_file = sgm_encoder_file @ ''.backup'' in
              case write_text env backup_file content w of
                (Inl e, w1) \<Rightarrow> failed e w1
              | (Inr u, w1) \<Rightarrow>
                  (let w2 = print (ok_mark @ '' Created backup: '' @ backup_file) w1;
                       (content', w3) =
                         (if contains content old_import
                          then (replace content old_import new_import,
                                print (ok_mark @ '' Patched open_clip import in SGM'') w2)
                          else (content,
                                print (warn_mark @ ''  open_clip import not found in expected location'') w2))
                   in
                   case write_text env sgm_encoder_file content' w3 of
                     (Inl e, w4) \<Rightarrow> failed e w4
                   | (Inr u, w4) \<Rightarrow>
                       (True, print (ok_mark @ '' Patched '' @ sgm_encoder_file) w4)))))"

definition config_file :: string where
  "config_file = ''webui_compatible.bat''"

definition old_line :: string where
  "old_line =
     ''pip install pytorch_lightning torchmetrics --upgrade --quiet''"

definition new_line :: string where
  "new_line = join nl
      [''pip install pytorch_lightning torchmetrics --upgrade --quiet'',
       ''echo Attempting open_clip installation...'',
       ''pip install open-clip-torch --no-deps --quiet || echo \"open_clip installation failed - using mock version\" '']"

text \<open>
  \<open>update_webui_config_for_openclip\<close> returns \<open>True\<close>, \<open>False\<close> or, when the launcher does
  not mention the packages, nothing (\<open>None\<close>).
\<close>

definition update_webui_config_for_openclip :: "env \<Rightarrow> world \<Rightarrow> bool option \<times> world" where
  "update_webui_config_for_openclip env w0 =
     (let w = print (nl @ ''=== Updating WebUI Configuration ==='') w0;
          failed = (\<lambda>e w'. (Some False, print (cross_mark @ '' Error updating config: '' @ exn_str e) w'))
      in
      if \<not> file_exists config_file w
      then (Some False, print (cross_mark @ '' Config file not found: '' @ config_file) w)
      else
        (case read_text_locale env config_file w of
           Inl e \<Rightarrow> failed e w
         | Inr content \<Rightarrow>
             (if contains content ''pip install pytorch_lightning torchmetrics''
              then
                (case write_text_locale env config_file (replace content old_line new_line) w of
                   (Inl e, w1) \<Rightarrow> failed e w1
                 | (Inr u, w1) \<Rightarrow>
                     (Some True, print (ok_mark @ '' Updated webui_compatible.bat'') w1))
              else (None, w))))"

definition test_openclip_failed :: "exn \<Rightarrow> world \<Rightarrow> bool \<times> world" where
  "test_openclip_failed e w =
     (case e of
        ImportError m \<Rightarrow> (False, print (cross_mark @ '' open_clip import failed: '' @ m) w)
      | _ \<Rightarrow> (False, print (cross_mark @ '' open_clip test failed: '' @ exn_str e) w))"

definition test_openclip_import :: "env \<Rightarrow> world \<Rightarrow> bool \<times> world" where
  "test_openclip_import env w0 =
     (let w = print (nl @ ''=== Testing open_clip Import ==='') w0 in
      case import_module env (effects w) ''open_clip'' of
        Inl e \<Rightarrow> test_openclip_failed e w
      | Inr v \<Rightarrow>
          (let w1 = print (ok_mark @ '' open_clip available: '' @ v) w in
           case openclip_list_models env (effects w1) of
             Inl e \<Rightarrow> test_openclip_failed e w1
           | Inr n \<Rightarrow>
               (True,
                print (ok_mark @ '' Available models: '' @ string_of_nat n @ '' models'') w1)))"

definition sgm_summary :: "env \<Rightarrow> bool \<Rightarrow> string list" where
  "sgm_summary env openclip_works =
     [nl @ rule50, ''FIX SUMMARY'', rule50]
     @ (if openclip_works
        then [ok_mark @ '' open_clip is now available!'',
              nl @ ''Next steps:'',
              ''1. Try launching WebUI: .'' @ [CHR 0x5C] @ ''webui_compatible.bat'',
              ''2. SGM import error should be resolved'',
              ''3. WebUI should proceed to model loading'']
        else [warn_mark @ ''  open_clip still not available'',
              ''But SGM repository has been patched to handle this gracefully'',
              nl @ ''Next steps:'',
              ''1. Try launching WebUI: .'' @ [CHR 0x5C] @ ''webui_compatible.bat'',
              ''2. Should work with limited CLIP functionality''])
     @ [nl @ ''Python version: '' @ sys_version env,
        ''SGM repository should now handle missing open_clip gracefully'']"

text \<open>Strategy 2 of \<open>main\<close>, run only while \<open>success\<close> is still false.\<close>

definition strategy2 :: "env \<Rightarrow> bool \<Rightarrow> world \<Rightarrow> bool \<times> world" where
  "strategy2 env success w =
     (if \<not> success
      then
        (let w1 = print (nl @ cycle_mark @ '' Strategy 2: Create mock open_clip'') w;
             (created, w2) = create_mock_openclip env w1
         in if created then (True, print (ok_mark @ '' Strategy 2 successful!'') w2)
            else (success, w2))
      else (success, w))"

text \<open>Strategies 3 and 4, the final test and the summary of \<open>main\<close>.\<close>

definition sgm_finish :: "env \<Rightarrow> world \<Rightarrow> world" where
  "sgm_finish env w =
     (let w1 = print (nl @ cycle_mark @ '' Strategy 3: Patch SGM repository'') w;
          w2 = snd (patch_sgm_imports env w1);
          w3 = print (nl @ cycle_mark @ '' Strategy 4: Update WebUI configuration'') w2;
          w4 = snd (update_webui_config_for_openclip env w3);
          (openclip_works, w5) = test_openclip_import env w4
      in prints (sgm_summary env openclip_works) w5)"

definition fix_sgm_openclip_main :: "env \<Rightarrow> world \<Rightarrow> (exn + unit) \<times> world" where
  "fix_sgm_openclip_main env w0 =
     (let w = prints [''SGM open_clip Fix for Python 3.13'', rule50,
                      cycle_mark @ '' Strategy 1: Install compatible open_clip''] w0 in
      case try_install_compatible_openclip env w of
        (Inl e, w1) \<Rightarrow> (Inl e, w1)
      | (Inr installed, w1) \<Rightarrow>
          (let (success, w2) =
                 (if installed then (True, print (ok_mark @ '' Strategy 1 successful!'') w1)
                  else (False, w1));
               (success', w3) = strategy2 env success w2
           in (Inr (), sgm_finish env w3)))"

section \<open>fix_final_gpu_issues.py\<close>

text \<open>\<open>s.split()\<close>: the maximal runs of non-whitespace characters.\<close>

definition is_space :: "char \<Rightarrow> bool" where
  "is_space c =
     (let n = (of_char c :: nat) in n = 32 \<or> (9 \<le> n \<and> n \<le> 13) \<or> (28 \<le> n \<and> n \<le> 31))"

fun split_from :: "string \<Rightarrow> string \<Rightarrow> string list" where
  "split_from cur [] = (if cur = [] then [] else [cur])"
| "split_from cur (c # cs) =
     (if is_space c
      then (if cur = [] then split_from [] cs else cur # split_from [] cs)
      else split_from (cur @ [c]) cs)"

definition split_ws :: "string \<Rightarrow> string list" where
  "split_ws s = split_from [] s"

definition strategies :: "(string \<times> string) list" where
  "strategies =
     [(''Latest xFormers'', ''xformers''),
      (''Pre-release xFormers'', ''xformers --pre''),
      (''Development xFormers'', ''git+https://github.com/facebookresearch/xformers.git''),
      (''Force install latest'', ''xformers --force-reinstall --no-cache-dir''),
      (''Skip xFormers'', ''skip'')]"

definition xformers_uninstall_command :: "env \<Rightarrow> string list" where
  "xformers_uninstall_command env =
     [sys_executable env, ''-m'', ''pip'', ''uninstall'', ''xformers'', ''-y'']"

definition xformers_install_command :: "env \<Rightarrow> string \<Rightarrow> string list" where
  "xformers_install_command env install_cmd =
     (if startswith install_cmd ''git+''
      then [sys_executable env, ''-m'', ''pip'', ''install'', install_cmd]
      else [sys_executable env, ''-m'', ''pip'', ''install''] @ split_ws install_cmd)"

text \<open>
  The three handlers that close the body of the strategy loop; each of them ends with
  \<open>continue\<close>.
\<close>

definition strategy_failed :: "string \<Rightarrow> exn \<Rightarrow> world \<Rightarrow> world" where
  "strategy_failed strategy_name e w =
     (case e of
        CalledProcessError err s \<Rightarrow>
          print (''FAILED: '' @ strategy_name @ '' installation failed'') w
      | TimeoutExpired s \<Rightarrow>
          print (''FAILED: '' @ strategy_name @ '' installation timed out'') w
      | _ \<Rightarrow>
          print (''FAILED: '' @ strategy_name @ '' unexpected error: '' @ exn_str e) w)"

fun strategies_loop :: "env \<Rightarrow> (string \<times> string) list \<Rightarrow> world \<Rightarrow> bool \<times> world" where
  "strategies_loop env [] w =
     (False,
      prints [nl @ ''All xFormers installation strategies failed'',
              ''WebUI will work without xFormers but with reduced performance''] w)"
| "strategies_loop env ((strategy_name, install_cmd) # rest) w =
     (let w1 = print (nl @ ''Trying: '' @ strategy_name) w in
      if install_cmd = ''skip''
      then (False,
            prints [''Skipping xFormers - WebUI will use standard attention'',
                    ''Expected performance: 25-40 seconds per 512x512 image'',
                    ''This is still 15-25x faster than CPU-only mode''] w1)
      else
        (case subprocess_run env False (xformers_uninstall_command env) w1 of
           (Inl e, w2) \<Rightarrow> strategies_loop env rest (strategy_failed strategy_name e w2)
         | (Inr u, w2) \<Rightarrow>
             (let cmd = xformers_install_command env install_cmd;
                  w3 = print (''Running: '' @ join '' '' cmd) w2 in
              case subprocess_run env True cmd w3 of
                (Inl e, w4) \<Rightarrow> strategies_loop env rest (strategy_failed strategy_name e w4)
              | (Inr u, w4) \<Rightarrow>
                  (case import_module env (effects w4) ''xformers'' of
                     Inl (ImportError m) \<Rightarrow>
                       strategies_loop env rest
                         (print (''FAILED: xFormers import failed: '' @ m) w4)
                   | Inl e \<Rightarrow> strategies_loop env rest (strategy_failed strategy_name e w4)
                   | Inr v \<Rightarrow>
                       (let w5 = print (''SUCCESS: xFormers '' @ v @ '' installed'') w4 in
                        case import_module env (effects w5) ''xformers.ops'' of
                          Inl (ImportError m) \<Rightarrow>
                            strategies_loop env rest
                              (print (''FAILED: xFormers import failed: '' @ m) w5)
                        | Inl e \<Rightarrow>
                            strategies_loop env rest (strategy_failed strategy_name e w5)
                        | Inr v' \<Rightarrow>
                            (True,
                             print ''SUCCESS: Memory efficient attention available'' w5))))))"

definition try_xformers_alternatives :: "env \<Rightarrow> world \<Rightarrow> (exn + bool) \<times> world" where
  "try_xformers_alternatives env w0 =
     (let w = print ''=== Fixing xFormers for PyTorch 2.7.0 ==='' w0 in
      case import_torch env (effects w) of
        Inl (ImportError m) \<Rightarrow> (Inr False, print ''PyTorch not available'' w)
      | Inl e \<Rightarrow> (Inl e, w)
      | Inr t \<Rightarrow>
          (let w1 = prints [''PyTorch: '' @ torch_version t, ''CUDA: '' @ cuda_version t] w in
           if \<not> cuda_available t
           then (Inr False, print ''CUDA not available - skipping xFormers'' w1)
           else (let (r, w2) = strategies_loop env strategies w1 in (Inr r, w2))))"

section \<open>fix_gradio_compatibility.py\<close>

definition extensions_file :: string where
  "extensions_file = ''modules/gradio_extensons.py''"

definition gradio_old_line :: string where
  "gradio_old_line =
     ''original_IOComponent_init = patches.patch(__name__, obj=gr.components.IOComponent, field=\"__init__\", replacement=IOComponent_init)''"

definition new_lines :: string where
  "new_lines = join nl
      [''# Handle Gradio version compatibility - IOComponent was renamed to Component in Gradio 4.x'',
       ''try:'',
       ''    # Try Gradio 3.x API first'',
       ''    original_IOComponent_init = patches.patch(__name__, obj=gr.components.IOComponent, field=\"__init__\", replacement=IOComponent_init)'',
       ''except AttributeError:'',
       ''    # Fallback to Gradio 4.x+ API'',
       ''    try:'',
       ''        original_IOComponent_init = patches.patch(__name__, obj=gr.components.Component, field=\"__init__\", replacement=IOComponent_init)'',
       ''    except AttributeError:'',
       ''        # If both fail, create a dummy patch'',
       ''        print(\"'' @ warn_mark @ ''  Gradio component patching failed - using fallback\")'',
       ''        original_IOComponent_init = None'']"

definition patch_gradio_extensions :: "env \<Rightarrow> world \<Rightarrow> bool \<times> world" where
  "patch_gradio_extensions env w0 =
     (let w = print (nl @ ''=== Patching Gradio Extensions ==='') w0;
          failed = (\<lambda>e w'. (False,
                     print (cross_mark @ '' Error patching '' @ extensions_file @ '': '' @ exn_str e) w'))
      in
      if \<not> file_exists extensions_file w
      then (False, print (cross_mark @ '' '' @ extensions_file @ '' not found'') w)
      else
        (case read_text env extensions_file w of
           Inl e \<Rightarrow> failed e w
         | Inr content \<Rightarrow>
             (if contains content ''Handle Gradio version compatibility''
              then (True, print (ok_mark @ '' gradio_extensons.py already patched'') w)
              else if contains content ''gr.components.IOComponent''
              then
                (let w1 = print ''Patching gradio_extensons.py for Gradio compatibility...'' w;
                     backup_file = extensions_file @ ''.gradio_backup'' in
                 case write_text env backup_file content w1 of
                   (Inl e, w2) \<Rightarrow> failed e w2
                 | (Inr u, w2) \<Rightarrow>
                     (case write_text env extensions_file
                             (replace content gradio_old_line new_lines) w2 of
                        (Inl e, w3) \<Rightarrow> failed e w3
                      | (Inr u, w3) \<Rightarrow>
                          (True, print (ok_mark @ '' Patched '' @ extensions_file) w3)))
              else (True,
                    print (ok_mark @ '' gradio_extensons.py doesn'' @ [CHR 0x27]
                             @ ''t need patching'') w))))"

section \<open>fix_build_tools.py\<close>

definition launch_utils_path :: string where
  "launch_utils_path = ''modules/launch_utils.py''"

definition old_openclip :: string where
  "old_openclip =
     ''openclip_package = os.environ.get('' @ [CHR 0x27] @ ''OPENCLIP_PACKAGE'' @ [CHR 0x27] @ '', \"https://github.com/mlfoundations/open_clip/archive/bb6e834e9c70d9c27d0dc3ecedeebeaeb1ffad6b.zip\")''"

definition new_openclip :: string where
  "new_openclip =
     ''openclip_package = os.environ.get('' @ [CHR 0x27] @ ''OPENCLIP_PACKAGE'' @ [CHR 0x27] @ '', \"open-clip-torch==2.24.0\")''"

definition modify_webui_packages :: "env \<Rightarrow> world \<Rightarrow> bool \<times> world" where
  "modify_webui_packages env w0 =
     (let w = print (nl @ ''=== Modifying WebUI Package Configuration ==='') w0;
          failed = (\<lambda>e w'. (False,
                     print (cross_mark @ '' Error modifying '' @ launch_utils_path @ '': '' @ exn_str e) w'))
      in
      if \<not> file_exists launch_utils_path w
      then (False, print (cross_mark @ '' '' @ launch_utils_path @ '' not found'') w)
      else
        (case read_text env launch_utils_path w of
           Inl e \<Rightarrow> failed e w
         | Inr content \<Rightarrow>
             (case write_text env (launch_utils_path @ ''.backup'') content w of
                (Inl e, w1) \<Rightarrow> failed e w1
              | (Inr u, w1) \<Rightarrow>
                  (let w2 = print (ok_mark @ '' Created backup: '' @ launch_utils_path @ ''.backup'') w1;
                       (content', w3) =
                         (if contains content old_openclip
                          then (replace content old_openclip new_openclip,
                                print (ok_mark @ '' Modified open_clip package to use PyPI version'') w2)
                          else (content,
                                print (warn_mark
                                         @ ''  open_clip package line not found, manual modification needed'') w2))
                   in
                   case write_text env launch_utils_path content' w3 of
                     (Inl e, w4) \<Rightarrow> failed e w4
                   | (Inr u, w4) \<Rightarrow>
                       (True, print (ok_mark @ '' Modified '' @ launch_utils_path) w4)))))"

section \<open>fix_image_generation.py\<close>

text \<open>
  \<open>s.find(sub, start)\<close>: the lowest index at or after \<open>start\<close> where \<open>sub\<close> occurs, \<open>-1\<close> when
  there is none; a negative \<open>start\<close> counts from the end. Indices count the elements of the
  \<open>string\<close>; the source cuts a text only at an index that \<open>find\<close> returned for the same
  text, which is the same place whether elements are bytes or code points.
\<close>

fun find_from :: "string \<Rightarrow> string \<Rightarrow> nat \<Rightarrow> int" where
  "find_from [] sub i = (if sub = [] then int i else - 1)"
| "find_from (c # cs) sub i =
     (if startswith (c # cs) sub then int i else find_from cs sub (Suc i))"

definition py_find :: "string \<Rightarrow> string \<Rightarrow> int \<Rightarrow> int" where
  "py_find s sub start =
     (let n = int (length s);
          st = (if start < 0 then max 0 (start + n) else start)
      in if n < st then - 1 else find_from (drop (nat st) s) sub (nat st))"

definition processing_file :: string where
  "processing_file = ''modules/processing.py''"

definition old_pattern :: string where
  "old_pattern =
     ''def decode_latent_batch(model, batch, target_device=None, check_for_nans=False):''"

definition new_pattern :: string where
  "new_pattern = join nl
      [''def decode_latent_batch(model, batch, target_device=None, check_for_nans=False):'',
       ''    # CPU-only tensor processing fix for Python 3.13'',
       ''    if target_device is None:'',
       ''        target_device = torch.device('' @ [CHR 0x27] @ ''cpu'' @ [CHR 0x27] @ '')'',
       ''    '',
       ''    # Ensure tensors are on correct device and have correct dtype'',
       ''    if hasattr(batch, '' @ [CHR 0x27] @ ''to'' @ [CHR 0x27] @ ''):'',
       ''        batch = batch.to(device=target_device, dtype=torch.float32)'']"

definition tensor_fix :: string where
  "tensor_fix = text_of_lines
      ['''',
       ''# CPU-only image tensor processing fix'',
       ''def fix_tensor_for_cpu(tensor):'',
       ''    \"\"\"Fix tensor for CPU-only processing\"\"\"'',
       ''    if tensor is None:'',
       ''        return None'',
       ''    '',
       ''    # Ensure tensor is on CPU with correct dtype'',
       ''    if hasattr(tensor, '' @ [CHR 0x27] @ ''to'' @ [CHR 0x27] @ ''):'',
       ''        tensor = tensor.to(device=torch.device('' @ [CHR 0x27] @ ''cpu'' @ [CHR 0x27] @ ''), dtype=torch.float32)'',
       ''    '',
       ''    # Ensure contiguous memory layout'',
       ''    if hasattr(tensor, '' @ [CHR 0x27] @ ''contiguous'' @ [CHR 0x27] @ ''):'',
       ''        tensor = tensor.contiguous()'',
       ''    '',
       ''    return tensor'',
       '''']"

text \<open>
  The two patches of \<open>patch_webui_image_processing\<close>, each returning the new \<open>content\<close>,
  the new \<open>patches_applied\<close> and the world with its status line.
\<close>

definition decode_patch :: "string \<Rightarrow> nat \<Rightarrow> world \<Rightarrow> string \<times> nat \<times> world" where
  "decode_patch content patches_applied w =
     (if contains content ''def decode_latent_batch'' \<and> contains content old_pattern
      then (replace content old_pattern new_pattern, patches_applied + 1,
            print (ok_mark @ '' Applied decode_latent_batch patch'') w)
      else (content, patches_applied, w))"

definition tensor_patch :: "string \<Rightarrow> nat \<Rightarrow> world \<Rightarrow> string \<times> nat \<times> world" where
  "tensor_patch content patches_applied w =
     (if contains content ''images_tensor_to_samples''
         \<and> contains content ''def images_tensor_to_samples''
         \<and> \<not> contains content ''fix_tensor_for_cpu''
      then
        (let insertion_point = py_find content ''def images_tensor_to_samples'' 0 in
         (take (nat insertion_point) content @ tensor_fix @ drop (nat insertion_point) content,
          patches_applied + 1,
          print (ok_mark @ '' Added tensor processing fix function'') w))
      else (content, patches_applied, w))"

definition patch_webui_image_processing :: "env \<Rightarrow> world \<Rightarrow> bool \<times> world" where
  "patch_webui_image_processing env w0 =
     (let w = print (nl @ ''=== Patching WebUI Image Processing ==='') w0;
          failed = (\<lambda>e w'. (False,
                     print (cross_mark @ '' Error patching '' @ processing_file @ '': '' @ exn_str e) w'))
      in
      if \<not> file_exists processing_file w
      then (False, print (cross_mark @ '' '' @ processing_file @ '' not found'') w)
      else
        (case read_text env processing_file w of
           Inl e \<Rightarrow> failed e w
         | Inr content0 \<Rightarrow>
             (if contains content0 ''CPU-only tensor processing fix''
              then (True, print (ok_mark @ '' modules/processing.py already patched'') w)
              else
                (let (content1, applied1, w1) = decode_patch content0 0 w;
                     (content, patches_applied, w2) = tensor_patch content1 applied1 w1
                 in
                 if 0 < patches_applied
                 then
                   (let backup_file = processing_file @ ''.image_gen_backup'' in
                    case write_text env backup_file content w2 of
                      (Inl e, w3) \<Rightarrow> failed e w3
                    | (Inr u, w3) \<Rightarrow>
                        (case write_text env processing_file content w3 of
                           (Inl e, w4) \<Rightarrow> failed e w4
                         | (Inr u, w4) \<Rightarrow>
                             (True, print (ok_mark @ '' Applied '' @ string_of_nat patches_applied
                                             @ '' patches to '' @ processing_file) w4)))
                 else (True, print (ok_mark @ '' No patches needed for processing.py'') w2)))))"

definition images_file :: string where
  "images_file = ''modules/images.py''"

definition cpu_fix :: string where
  "cpu_fix = text_of_lines
      ['''',
       ''# CPU image processing fix for Python 3.13'',
       ''def ensure_cpu_compatible_image(image_data):'',
       ''    \"\"\"Ensure image data is compatible with CPU processing\"\"\"'',
       ''    if image_data is None:'',
       ''        return None'',
       ''    '',
       ''    # Handle torch tensors'',
       ''    if hasattr(image_data, '' @ [CHR 0x27] @ ''detach'' @ [CHR 0x27] @ ''):'',
       ''        image_data = image_data.detach().cpu()'',
       ''    '',
       ''    # Handle numpy arrays'',
       ''    if isinstance(image_data, np.ndarray):'',
       ''        # Ensure correct dtype and range'',
       ''        if image_data.dtype != np.uint8:'',
       ''            if image_data.max() <= 1.0:'',
       ''                image_data = (image_data * 255).astype(np.uint8)'',
       ''            else:'',
       ''                image_data = image_data.astype(np.uint8)'',
       ''    '',
       ''    return image_data'',
       '''']"

definition patch_webui_images_module :: "env \<Rightarrow> world \<Rightarrow> bool \<times> world" where
  "patch_webui_images_module env w0 =
     (let w = print (nl @ ''=== Patching WebUI Images Module ==='') w0;
          failed = (\<lambda>e w'. (False,
                     print (cross_mark @ '' Error patching '' @ images_file @ '': '' @ exn_str e) w'))
      in
      if \<not> file_exists images_file w
      then (False, print (cross_mark @ '' '' @ images_file @ '' not found'') w)
      else
        (case read_text env images_file w of
           Inl e \<Rightarrow> failed e w
         | Inr content \<Rightarrow>
             (if contains content ''CPU image processing fix''
              then (True, print (ok_mark @ '' modules/images.py already patched'') w)
              else
                (let import_end = py_find content (nl @ nl) (py_find content ''import'' 0) in
                 if import_end \<noteq> - 1 \<and> \<not> contains content ''ensure_cpu_compatible_image''
                 then
                   (let content' = take (nat import_end) content @ cpu_fix
                                     @ drop (nat import_end) content;
                        backup_file = images_file @ ''.cpu_fix_backup'' in
                    case write_text env backup_file content' w of
                      (Inl e, w1) \<Rightarrow> failed e w1
                    | (Inr u, w1) \<Rightarrow>
                        (case write_text env images_file content' w1 of
                           (Inl e, w2) \<Rightarrow> failed e w2
                         | (Inr u, w2) \<Rightarrow>
                             (True, print (ok_mark
                                             @ '' Added CPU image processing fix to images.py'') w2)))
                 else (True,
                       print (ok_mark @ '' images.py doesn'' @ [CHR 0x27]
                                @ ''t need patching'') w)))))"

section \<open>fix_vae_noise_issue.py\<close>

text \<open>
  The status glyphs of this file are stored garbled in the source; the bytes below are the
  UTF-8 of what the literals hold.
\<close>

definition garbled_ok_mark :: string where
  "garbled_ok_mark = [CHR 0xC3, CHR 0xA2, CHR 0xC5, CHR 0x93, CHR 0xE2, CHR 0x80, CHR 0xA6]"

definition garbled_cross_mark :: string where
  "garbled_cross_mark = [CHR 0xC3, CHR 0xA2, CHR 0xC5, CHR 0x92]"

text \<open>\<open>d[key]\<close> of a dict with \<open>str\<close> keys.\<close>

definition getitem :: "(string \<times> 'v) list \<Rightarrow> string \<Rightarrow> exn + 'v" where
  "getitem d k = (case map_of d k of None \<Rightarrow> Inl (KeyError (quoted k)) | Some v \<Rightarrow> Inr v)"

text \<open>
  The dict \<open>scripts\<close> of \<open>create_precision_test_scripts\<close>, in insertion order: the name of a
  launcher and its configuration, itself a dict with the keys \<open>description\<close> and \<open>args\<close>.
\<close>

definition scripts :: "(string \<times> (string \<times> string) list) list" where
  "scripts =
       [(''webui_vae_test_fp32.bat'',
         [(''description'', ''Full FP32 precision test''),
          (''args'', ''--precision full --no-half --no-half-vae --disable-nan-check'')]),
        (''webui_vae_test_autocast.bat'',
         [(''description'', ''Autocast precision test''),
          (''args'', ''--precision autocast --no-half-vae --disable-nan-check'')]),
        (''webui_vae_test_anime.bat'',
         [(''description'', ''Anime VAE test''),
          (''args'', ''--precision autocast --no-half-vae --vae-path \"models/VAE/kl-f8-anime2.ckpt\"'')]),
        (''webui_vae_test_ckpt.bat'',
         [(''description'', ''CKPT VAE format test''),
          (''args'', ''--precision autocast --no-half-vae --vae-path \"models/VAE/vae-ft-mse-840000-ema-pruned.ckpt\"'')])]"

text \<open>
  \<open>base_script.format(description=desc, args=args)\<close> for the template \<open>base_script\<close> of
  the source, whose only replacement fields are \<open>{description}\<close> and \<open>{args}\<close>, each used
  twice; the template holds no other brace.
\<close>

definition base_script_format :: "string \<Rightarrow> string \<Rightarrow> string" where
  "base_script_format desc args = text_of_lines
      [''@echo off'',
       ''echo '' @ desc,
       ''echo ========================'',
       ''echo.'',
       '''',
       ''REM GPU environment variables'',
       ''set PYTORCH_CUDA_ALLOC_CONF=max_split_size_mb:512'',
       ''set CUDA_LAUNCH_BLOCKING=0'',
       '''',
       ''REM Base arguments'',
       ''set COMMANDLINE_ARGS=--skip-python-version-check --skip-install'',
       ''set COMMANDLINE_ARGS=%COMMANDLINE_ARGS% --opt-split-attention --medvram'',
       '''',
       ''REM Precision-specific arguments'',
       ''set COMMANDLINE_ARGS=%COMMANDLINE_ARGS% '' @ args,
       '''',
       ''echo Configuration: '' @ desc,
       ''echo Arguments: '' @ args,
       ''echo.'',
       ''echo Expected: Should fix noise/static issues'',
       ''echo.'',
       '''',
       ''call webui.bat %*'']"

text \<open>
  One turn of the loop of \<open>create_precision_test_scripts\<close>: the \<open>try\<close> block renders and
  writes one launcher, \<open>except Exception\<close> reports the failure. The result tells whether the
  name is appended to \<open>created_scripts\<close>.
\<close>

definition create_script :: "env \<Rightarrow> string \<Rightarrow> (string \<times> string) list \<Rightarrow> world \<Rightarrow> bool \<times> world" where
  "create_script env script_name config w =
     (let failed = (\<lambda>e w'. (False,
                      print (garbled_cross_mark @ '' Failed to create '' @ script_name @ '': ''
                               @ exn_str e) w'))
      in
      case getitem config ''description'' of
        Inl e \<Rightarrow> failed e w
      | Inr desc \<Rightarrow>
          (case getitem config ''args'' of
             Inl e \<Rightarrow> failed e w
           | Inr args \<Rightarrow>
               (case write_text env script_name (base_script_format desc args) w of
                  (Inl e, w1) \<Rightarrow> failed e w1
                | (Inr u, w1) \<Rightarrow>
                    (True, print (garbled_ok_mark @ '' Created '' @ script_name) w1))))"

fun create_scripts_loop ::
  "env \<Rightarrow> (string \<times> (string \<times> string) list) list \<Rightarrow> string list \<Rightarrow> world
     \<Rightarrow> string list \<times> world" where
  "create_scripts_loop env [] created_scripts w = (created_scripts, w)"
| "create_scripts_loop env ((script_name, config) # rest) created_scripts w =
     (case create_script env script_name config w of
        (True, w1) \<Rightarrow> create_scripts_loop env rest (created_scripts @ [script_name]) w1
      | (False, w1) \<Rightarrow> create_scripts_loop env rest created_scripts w1)"

definition create_precision_test_scripts :: "env \<Rightarrow> world \<Rightarrow> string list \<times> world" where
  "create_precision_test_scripts env w =
     create_scripts_loop env scripts []
       (print (nl @ ''=== Creating Precision Test Scripts ==='') w)"

section \<open>Observing a run\<close>

text \<open>What a run added to the effects and to the output of the world it started in.\<close>

definition new_effects :: "world \<Rightarrow> world \<Rightarrow> effect list" where
  "new_effects w w' = drop (length (effects w)) (effects w')"

definition new_out :: "world \<Rightarrow> world \<Rightarrow> string list" where
  "new_out w w' = drop (length (out w)) (out w')"

section \<open>Concrete hosts\<close>

definition torch_gpu :: torch where
  "torch_gpu = \<lparr>torch_version = ''2.6.0+cu121'', cuda_available = True, cuda_version = ''12.1'',
     device_name = ''NVIDIA GeForce RTX 3080'', total_memory_gb = ''10.0''\<rparr>"

definition torch_cpu :: torch where
  "torch_cpu = \<lparr>torch_version = ''2.6.0+cpu'', cuda_available = False, cuda_version = ''None'',
     device_name = '''', total_memory_gb = ''''\<rparr>"

text \<open>
  A host on which every command succeeds, every import works, no file is refused and no
  VAE file is present. Its locale is UTF-8, so that a text is read and written as the bytes
  it is. Its JSON codec knows two documents only, which is all the examples need.
\<close>

definition host_ok :: env where
  "host_ok =
     \<lparr>sys_executable = ''python'',
      sys_version = ''3.13.0'',
      run_process = (\<lambda>es args. None),
      import_torch = (\<lambda>es. Inr torch_gpu),
      torch_ops = (\<lambda>es op. None),
      import_module = (\<lambda>es m. Inr ''1.0''),
      open_error = (\<lambda>es path writing. None),
      locale_decode = Inr,
      locale_encode = Inr,
      json_loads = (\<lambda>s. if s = ''{}'' then Inr (JDict [])
                        else if s = ''{\"a\": 1}'' then Inr (JDict [(''a'', JInt 1)])
                        else Inl (ValueError ''Expecting value'')),
      json_dumps = (\<lambda>j. case j of JDict d \<Rightarrow> ''{'' @ join '','' (map fst d) @ ''}'' | _ \<Rightarrow> ''?''),
      py_str = (\<lambda>j. ''?''),
      vae_dir_exists = (\<lambda>es. False),
      vae_glob = (\<lambda>es pat. []),
      path_exists = (\<lambda>es p. False),
      mkdir_error = (\<lambda>es p. None),
      download_error = (\<lambda>es u p. None),
      site_packages = Inr ''/usr/lib/python3/site-packages'',
      openclip_list_models = (\<lambda>es. Inr 3)\<rparr>"

definition empty_world :: world where
  "empty_world = \<lparr>files = (\<lambda>p. None), effects = [], out = []\<rparr>"

definition old_world :: world where
  "old_world = \<lparr>files = [''webui_env.bat'' \<mapsto> ''@echo old'', ''webui_vae_fixed.bat'' \<mapsto> ''rem old''],
     effects = [], out = []\<rparr>"


definition cfg_world :: world where
  "cfg_world = \<lparr>files = [ui_config_file \<mapsto> ''{\"a\": 1}'', ''notes.txt'' \<mapsto> ''keep''],
     effects = [], out = []\<rparr>"

text \<open>A host that refuses to open any file for writing.\<close>

definition host_readonly :: env where
  "host_readonly =
     host_ok\<lparr>open_error :=
       (\<lambda>es path writing. if writing then Some (OSError ''Permission denied'') else None)\<rparr>"

text \<open>
  What an in-place patch may do to the files, from the world \<open>w\<close> before the call to the
  world \<open>w'\<close> after it: nothing; or write the original content of the target to the backup
  and stop; or write that backup first and the new content of the target second.
\<close>

definition backup_before_patch :: "string \<Rightarrow> string \<Rightarrow> world \<Rightarrow> world \<Rightarrow> bool" where
  "backup_before_patch target backup w w' =
     ((new_effects w w' = [] \<and> files w' = files w)
      \<or> (\<exists>c. files w target = Some c \<and> new_effects w w' = [Write backup c]
             \<and> files w' = (files w)(backup \<mapsto> c))
      \<or> (\<exists>c c'. files w target = Some c
             \<and> new_effects w w' = [Write backup c, Write target c']
             \<and> files w' = (files w)(backup \<mapsto> c, target \<mapsto> c')))"

definition sgm_world :: world where
  "sgm_world =
     \<lparr>files = [sgm_encoder_file \<mapsto> text_of_lines [''import torch'', ''import open_clip'']],
      effects = [], out = []\<rparr>"

definition gradio_world :: world where
  "gradio_world =
     \<lparr>files = [extensions_file \<mapsto> text_of_lines [''import gradio as gr'', gradio_old_line]],
      effects = [], out = []\<rparr>"

definition launch_world :: world where
  "launch_world =
     \<lparr>files = [launch_utils_path \<mapsto> text_of_lines [''import os'', old_openclip]],
      effects = [], out = []\<rparr>"

text \<open>A run only ever appends to the effects and to the output.\<close>

definition extends :: "world \<Rightarrow> world \<Rightarrow> bool" where
  "extends w w' = ((\<exists>es. effects w' = effects w @ es) \<and> (\<exists>os. out w' = out w @ os))"

text \<open>
  One attempt of \<open>install_cuda_pytorch\<close> succeeds on a host whose effects so far are \<open>es\<close>
  when the install command exits with status 0 and, after it, CUDA is available and the
  small tensor computation of \<open>verify_cuda\<close> goes through.
\<close>

definition cuda_works :: "env \<Rightarrow> effect list \<Rightarrow> bool" where
  "cuda_works env es =
     (case import_torch env es of
        Inl e \<Rightarrow> False
      | Inr t \<Rightarrow> cuda_available t \<and> torch_ops env es RandAdd = None)"

definition install_attempt_ok :: "env \<Rightarrow> effect list \<Rightarrow> cuda_config \<Rightarrow> bool" where
  "install_attempt_ok env es config =
     (run_process env es (install_command env config) = None
      \<and> cuda_works env (es @ [Run (install_command env config)]))"

text \<open>A pip failure that is a non-zero exit status, the only one the loops handle.\<close>

fun is_called_process_error :: "exn \<Rightarrow> bool" where
  "is_called_process_error (CalledProcessError err s) = True"
| "is_called_process_error e = False"

text \<open>The install commands of a list of configs, as effects, in list order.\<close>

definition install_runs :: "env \<Rightarrow> cuda_config list \<Rightarrow> effect list" where
  "install_runs env cs = map (\<lambda>c. Run (install_command env c)) cs"

text \<open>The line by which \<open>install_cuda_pytorch\<close> attributes its success to a config.\<close>

definition success_line :: "cuda_config \<Rightarrow> string" where
  "success_line c = ok_mark @ '' CUDA verification successful with '' @ upper (version c) @ ''!''"

text \<open>The uninstall commands of a list of packages, as effects, in list order.\<close>

definition uninstall_runs :: "env \<Rightarrow> string list \<Rightarrow> effect list" where
  "uninstall_runs env ps = map (\<lambda>p. Run (uninstall_command env p)) ps"

text \<open>
  The status line of \<open>uninstall_current_pytorch\<close> for one package, on a host whose effects
  so far are \<open>es\<close>: green when the command exits with status 0, a warning otherwise.
\<close>

definition uninstall_status :: "env \<Rightarrow> effect list \<Rightarrow> string \<Rightarrow> string" where
  "uninstall_status env es package =
     (case run_process env es (uninstall_command env package) of
        None \<Rightarrow> ok_mark @ '' '' @ package @ '' uninstalled''
      | Some e \<Rightarrow> warn_mark @ ''  '' @ package @ '' not found or already uninstalled'')"

text \<open>A host on which a pip command either succeeds or exits with a non-zero status.\<close>

definition soft_pip :: "env \<Rightarrow> bool" where
  "soft_pip env = (\<forall>es args e. run_process env es args = Some e \<longrightarrow> is_called_process_error e)"

text \<open>The first line that \<open>configure_vae_in_ui_config\<close> prints, for any VAE name.\<close>

definition is_configure_banner :: "string \<Rightarrow> bool" where
  "is_configure_banner l = startswith l (nl @ ''=== Configuring VAE: '')"

text \<open>
  A run from \<open>w\<close> to \<open>w'\<close> that did not go through \<open>configure_vae_in_ui_config\<close>: it printed
  no banner of that function, wrote nothing to \<open>ui-config.json\<close> and left that file as it
  was.
\<close>

definition leaves_config :: "world \<Rightarrow> world \<Rightarrow> bool" where
  "leaves_config w w' =
     ((\<exists>os. out w' = out w @ os \<and> (\<forall>l \<in> set os. \<not> is_configure_banner l))
      \<and> (\<exists>es. effects w' = effects w @ es \<and> (\<forall>c. Write ui_config_file c \<notin> set es))
      \<and> files w' ui_config_file = files w ui_config_file)"

text \<open>The VAE files that \<open>check_available_vaes\<close> finds on a host whose effects so far are \<open>es\<close>.\<close>

definition found_vaes :: "env \<Rightarrow> effect list \<Rightarrow> string list" where
  "found_vaes env es =
     (if vae_dir_exists env es
      then concat (map (\<lambda>ext. vae_glob env es (''*'' @ ext)) [''.pt'', ''.ckpt'', ''.safetensors''])
      else [])"

text \<open>A host and a world in which a VAE is already configured in \<open>ui-config.json\<close>.\<close>

definition host_configured :: env where
  "host_configured =
     host_ok\<lparr>json_loads := (\<lambda>s. Inr (JDict [(txt2img_key, JStr ''vae.pt'')]))\<rparr>"

definition configured_world :: world where
  "configured_world =
     \<lparr>files = [ui_config_file \<mapsto> ''{\"txt2img/Preferred VAE/value\": \"vae.pt\"}''],
      effects = [], out = []\<rparr>"

text \<open>Hosts for the examples of the main functions.\<close>

definition host_offline :: env where
  "host_offline = host_ok\<lparr>download_error := (\<lambda>es u p. Some (OSError ''Connection refused''))\<rparr>"

definition host_with_vae :: env where
  "host_with_vae =
     host_ok\<lparr>vae_dir_exists := (\<lambda>es. True),
             vae_glob := (\<lambda>es pat. if pat = ''*.safetensors'' then [''my.safetensors''] else [])\<rparr>"

definition host_cpu :: env where
  "host_cpu = host_ok\<lparr>import_torch := (\<lambda>es. Inr torch_cpu)\<rparr>"

definition host_no_torch :: env where
  "host_no_torch = host_ok\<lparr>import_torch := (\<lambda>es. Inl (ImportError ''No module named torch''))\<rparr>"

text \<open>A CPU-only host on which every pip command exits with status 1.\<close>

definition host_pip_broken :: env where
  "host_pip_broken =
     host_cpu\<lparr>run_process :=
       (\<lambda>es args. Some (CalledProcessError ''ERROR: No matching distribution found''
                       ''returned non-zero exit status 1''))\<rparr>"

text \<open>A host without a \<open>models\<close> directory: \<open>models/VAE\<close> cannot be created.\<close>

definition host_no_models :: env where
  "host_no_models =
     host_ok\<lparr>mkdir_error := (\<lambda>es p. Some (OSError ''No such file or directory''))\<rparr>"

text \<open>
  The effects of one strategy of \<open>try_xformers_alternatives\<close>: the uninstall of xformers
  that opens it and, when that call returned (\<open>b\<close>), the install command of the strategy.
\<close>

definition attempt_effects :: "env \<Rightarrow> bool \<times> string \<times> string \<Rightarrow> effect list" where
  "attempt_effects env a =
     (case a of (b, strategy_name, install_cmd) \<Rightarrow>
        Run (xformers_uninstall_command env)
        # (if b then [Run (xformers_install_command env install_cmd)] else []))"

text \<open>The strategies before the first \<open>skip\<close> entry: those that install something.\<close>

definition install_strategies :: "(string \<times> string) list \<Rightarrow> (string \<times> string) list" where
  "install_strategies ss = takeWhile (\<lambda>s. snd s \<noteq> ''skip'') ss"

text \<open>The status lines that report a failed strategy.\<close>

definition failed_lines :: "string list \<Rightarrow> string list" where
  "failed_lines os = filter (\<lambda>l. startswith l ''FAILED: '') os"

text \<open>A host on which a process cannot be started, and one on which xformers installs but cannot be imported.\<close>

definition host_no_spawn :: env where
  "host_no_spawn =
     host_ok\<lparr>run_process := (\<lambda>es args. Some (OSError ''[Errno 12] Cannot allocate memory''))\<rparr>"

definition host_bad_xformers :: env where
  "host_bad_xformers =
     host_ok\<lparr>import_module :=
       (\<lambda>es m. if m = ''xformers'' then Inl (ImportError ''DLL load failed'') else Inr ''1.0'')\<rparr>"


text \<open>A strategy that fails hands over to the next one, with one \<open>FAILED\<close> line printed.\<close>

definition hands_over ::
  "env \<Rightarrow> string \<times> string \<Rightarrow> (string \<times> string) list \<Rightarrow> world \<Rightarrow> bool" where
  "hands_over env s rest w =
     (\<exists>b w''. strategies_loop env (s # rest) w = strategies_loop env rest w''
        \<and> effects w'' = effects w @ attempt_effects env (b, s)
        \<and> files w'' = files w
        \<and> (\<exists>os. out w'' = out w @ os \<and> length (failed_lines os) = 1))"

section \<open>A host whose locale is cp1252\<close>

text \<open>
  The codec that text-mode I/O uses on a Windows host with a Western European locale.
  Every byte below \<open>0x80\<close> and from \<open>0xA0\<close> on is the code point of the same number, the
  bytes between are those of the table, and five bytes have no character. A Python \<open>str\<close> being
  held as its UTF-8 bytes, decoding gives the UTF-8 of the code points.
\<close>

definition utf8_encode :: "nat \<Rightarrow> string" where
  "utf8_encode cp =
     (if cp < 0x80 then [char_of cp]
      else if cp < 0x800 then [char_of (0xC0 + cp div 64), char_of (0x80 + cp mod 64)]
      else if cp < 0x10000
      then [char_of (0xE0 + cp div 4096), char_of (0x80 + cp div 64 mod 64),
            char_of (0x80 + cp mod 64)]
      else [char_of (0xF0 + cp div 262144), char_of (0x80 + cp div 4096 mod 64),
            char_of (0x80 + cp div 64 mod 64), char_of (0x80 + cp mod 64)])"

definition cp1252_table :: "(nat \<times> nat) list" where
  "cp1252_table =
     [(0x80, 0x20AC), (0x82, 0x201A), (0x83, 0x0192), (0x84, 0x201E), (0x85, 0x2026),
      (0x86, 0x2020), (0x87, 0x2021), (0x88, 0x02C6), (0x89, 0x2030), (0x8A, 0x0160),
      (0x8B, 0x2039), (0x8C, 0x0152), (0x8E, 0x017D), (0x91, 0x2018), (0x92, 0x2019),
      (0x93, 0x201C), (0x94, 0x201D), (0x95, 0x2022), (0x96, 0x2013), (0x97, 0x2014),
      (0x98, 0x02DC), (0x99, 0x2122), (0x9A, 0x0161), (0x9B, 0x203A), (0x9C, 0x0153),
      (0x9E, 0x017E), (0x9F, 0x0178)]"

definition cp1252_code_point :: "nat \<Rightarrow> nat option" where
  "cp1252_code_point b = (if b < 0x80 \<or> 0xA0 \<le> b then Some b else map_of cp1252_table b)"

fun cp1252_decode :: "string \<Rightarrow> exn + string" where
  "cp1252_decode [] = Inr []"
| "cp1252_decode (c # cs) =
     (case cp1252_code_point (of_char c) of
        None \<Rightarrow> Inl (ValueError ''character maps to <undefined>'')
      | Some cp \<Rightarrow>
          (case cp1252_decode cs of
             Inl e \<Rightarrow> Inl e
           | Inr s \<Rightarrow> Inr (utf8_encode cp @ s)))"

text \<open>The code points of a text, read off its UTF-8 bytes.\<close>

definition continuation :: "string \<Rightarrow> nat" where
  "continuation bs = foldl (\<lambda>n c. n * 64 + (of_char c - 0x80)) 0 bs"

fun code_points :: "string \<Rightarrow> nat list" where
  "code_points [] = []"
| "code_points (a # s) =
     (let x = of_char a :: nat in
      if x < 0xC0 then x # code_points s
      else if x < 0xE0
      then ((x - 0xC0) * 64 + continuation (take 1 s)) # code_points (drop 1 s)
      else if x < 0xF0
      then ((x - 0xE0) * 4096 + continuation (take 2 s)) # code_points (drop 2 s)
      else ((x - 0xF0) * 262144 + continuation (take 3 s)) # code_points (drop 3 s))"

definition cp1252_byte :: "nat \<Rightarrow> nat option" where
  "cp1252_byte cp =
     (if cp < 0x80 \<or> (0xA0 \<le> cp \<and> cp < 0x100) then Some cp
      else map_of (map (\<lambda>(b, c). (c, b)) cp1252_table) cp)"

fun cp1252_encode_points :: "nat list \<Rightarrow> exn + string" where
  "cp1252_encode_points [] = Inr []"
| "cp1252_encode_points (cp # cps) =
     (case cp1252_byte cp of
        None \<Rightarrow> Inl (ValueError ''character maps to <undefined>'')
      | Some b \<Rightarrow>
          (case cp1252_encode_points cps of
             Inl e \<Rightarrow> Inl e
           | Inr s \<Rightarrow> Inr (char_of b # s)))"

definition cp1252_encode :: "string \<Rightarrow> exn + string" where
  "cp1252_encode s = cp1252_encode_points (code_points s)"

text \<open>
  A \<open>ui-config.json\<close> as the WebUI writes it, in UTF-8, with a setting whose value holds
  a letter outside ASCII (\<open>caf\<close> and an e with an acute accent, the bytes \<open>C3 A9\<close>), and
  the same text with that value garbled: the two bytes read as two characters.
\<close>

definition cafe :: string where
  "cafe = ''caf'' @ [CHR 0xC3, CHR 0xA9]"

definition garbled_cafe :: string where
  "garbled_cafe = ''caf'' @ [CHR 0xC3, CHR 0x83, CHR 0xC2, CHR 0xA9]"

definition cafe_config :: string where
  "cafe_config = ''{\"note\": \"'' @ cafe @ ''\"}''"

definition garbled_config :: string where
  "garbled_config = ''{\"note\": \"'' @ garbled_cafe @ ''\"}''"

definition cafe_world :: world where
  "cafe_world = \<lparr>files = [ui_config_file \<mapsto> cafe_config], effects = [], out = []\<rparr>"

text \<open>
  What \<open>json.dump(config, f, indent=4)\<close> writes for the config with the garbled value and
  the two Preferred-VAE keys set to \<open>vae.pt\<close>, and what it would write had the value been
  kept.
\<close>

definition garbled_dump :: string where
  "garbled_dump = join nl
      [''{'',
       ''    \"note\": \"caf'' @ [CHR 0x5C] @ ''u00c3'' @ [CHR 0x5C] @ ''u00a9\",'',
       ''    \"txt2img/Preferred VAE/value\": \"vae.pt\",'',
       ''    \"img2img/Preferred VAE/value\": \"vae.pt\"'',
       ''}'']"

definition kept_dump :: string where
  "kept_dump = join nl
      [''{'',
       ''    \"note\": \"caf'' @ [CHR 0x5C] @ ''u00e9\",'',
       ''    \"txt2img/Preferred VAE/value\": \"vae.pt\",'',
       ''    \"img2img/Preferred VAE/value\": \"vae.pt\"'',
       ''}'']"

text \<open>
  The host: \<open>host_ok\<close> with the cp1252 locale. Its JSON codec knows the documents of
  this section, for which it answers as Python's does.
\<close>

definition cp1252_host_loads :: "string \<Rightarrow> exn + json" where
  "cp1252_host_loads s =
     (if s = cafe_config then Inr (JDict [(''note'', JStr cafe)])
      else if s = garbled_config then Inr (JDict [(''note'', JStr garbled_cafe)])
      else Inl (ValueError ''Expecting value''))"

fun cp1252_host_dumps :: "json \<Rightarrow> string" where
  "cp1252_host_dumps (JDict [(k1, JStr v1), (k2, JStr v2), (k3, JStr v3)]) =
     (if k1 = ''note'' \<and> k2 = txt2img_key \<and> v2 = ''vae.pt'' \<and> k3 = img2img_key \<and> v3 = ''vae.pt''
      then (if v1 = garbled_cafe then garbled_dump else if v1 = cafe then kept_dump else ''?'')
      else ''?'')"
| "cp1252_host_dumps j = ''?''"

definition host_cp1252 :: env where
  "host_cp1252 =
     host_ok\<lparr>locale_decode := cp1252_decode,
             locale_encode := cp1252_encode,
             json_loads := cp1252_host_loads,
             json_dumps := cp1252_host_dumps\<rparr>"

section \<open>Worlds for the patches of fix_image_generation.py\<close>

definition images_original :: string where
  "images_original = text_of_lines [''import os'', '''', ''x = 1'']"

definition images_patched :: string where
  "images_patched = ''import os'' @ cpu_fix @ text_of_lines ['''', '''', ''x = 1'']"

definition images_world :: world where
  "images_world = \<lparr>files = [images_file \<mapsto> images_original], effects = [], out = []\<rparr>"

definition processing_original :: string where
  "processing_original = text_of_lines [''import torch'', old_pattern, ''    return batch'']"

definition processing_patched :: string where
  "processing_patched = text_of_lines [''import torch'', new_pattern, ''    return batch'']"

definition processing_world :: world where
  "processing_world =
     \<lparr>files = [processing_file \<mapsto> processing_original], effects = [], out = []\<rparr>"

text \<open>
  The file \<open>n\<close> of the world \<open>w\<close> holds the rendering of the configuration \<open>c\<close>: the
  template of \<open>create_precision_test_scripts\<close> with the description and the args of \<open>c\<close>.
\<close>

definition rendered :: "(string \<times> string) list \<Rightarrow> world \<Rightarrow> string \<Rightarrow> bool" where
  "rendered c w n =
     (\<exists>d a. map_of c ''description'' = Some d \<and> map_of c ''args'' = Some a
        \<and> files w n = Some (base_script_format d a))"

text \<open>The configuration of \<open>webui_vae_test_fp32.bat\<close> in \<open>scripts\<close>.\<close>

definition fp32_description :: string where
  "fp32_description = ''Full FP32 precision test''"

definition fp32_args :: string where
  "fp32_args = ''--precision full --no-half --no-half-vae --disable-nan-check''"

section \<open>Frame lemmas of the primitives\<close>

lemma effects_print [simp]: "effects (print s w) = effects w"
  by (simp add: print_def)

lemma files_print [simp]: "files (print s w) = files w"
  by (simp add: print_def)

lemma out_print [simp]: "out (print s w) = out w @ [s]"
  by (simp add: print_def)

lemma effects_prints [simp]: "effects (prints ss w) = effects w"
  by (induction ss arbitrary: w) simp_all

lemma files_prints [simp]: "files (prints ss w) = files w"
  by (induction ss arbitrary: w) simp_all

lemma out_prints [simp]: "out (prints ss w) = out w @ ss"
  by (induction ss arbitrary: w) simp_all

lemma new_effects_append [simp]: "effects w' = effects w @ es \<Longrightarrow> new_effects w w' = es"
  by (simp add: new_effects_def)

lemma new_out_append [simp]: "out w' = out w @ os \<Longrightarrow> new_out w w' = os"
  by (simp add: new_out_def)

lemma write_text_ok:
  "write_text env path s w = (Inr u, w') \<Longrightarrow>
     files w' = (files w)(path \<mapsto> s) \<and> effects w' = effects w @ [Write path s] \<and> out w' = out w"
  by (auto simp: write_text_def split: option.splits)

lemma write_text_fail:
  "write_text env path s w = (Inl e, w') \<Longrightarrow>
     w' = w \<and> open_error env (effects w) path True = Some e"
  by (auto simp: write_text_def split: option.splits)

lemma subprocess_run_world:
  "snd (subprocess_run env check args w) = w\<lparr>effects := effects w @ [Run args]\<rparr>"
  by (simp add: subprocess_run_def Let_def split: option.splits exn.splits)

lemma subprocess_run_effects [simp]:
  "effects (snd (subprocess_run env check args w)) = effects w @ [Run args]"
  by (simp add: subprocess_run_world)

lemma subprocess_run_files [simp]:
  "files (snd (subprocess_run env check args w)) = files w"
  by (simp add: subprocess_run_world)

lemma subprocess_run_out [simp]:
  "out (snd (subprocess_run env check args w)) = out w"
  by (simp add: subprocess_run_world)

lemma read_text_print [simp]: "read_text env path (print s w) = read_text env path w"
  by (simp add: read_text_def split: option.splits)

lemma read_text_locale_print [simp]:
  "read_text_locale env path (print s w) = read_text_locale env path w"
  by (simp add: read_text_locale_def)

lemma json_load_print [simp]: "json_load env path (print s w) = json_load env path w"
  by (simp add: json_load_def)

lemma file_exists_print [simp]: "file_exists path (print s w) = file_exists path w"
  by (simp add: file_exists_def)

section \<open>The launcher writers\<close>

lemma fix_script_written:
  "fst (create_vae_fix_launch_script env w) \<Longrightarrow>
     files (snd (create_vae_fix_launch_script env w)) script_filename = Some script_content"
  by (auto simp: create_vae_fix_launch_script_def Let_def split: prod.splits sum.splits dest: write_text_ok)

lemma debug_script_written:
  "fst (create_vae_debug_launch_script env w) \<Longrightarrow>
     files (snd (create_vae_debug_launch_script env w)) ''webui_vae_debug.bat'' = Some debug_script"
  by (auto simp: create_vae_debug_launch_script_def Let_def split: prod.splits sum.splits dest: write_text_ok)

lemma webui_env_written:
  "open_error env (effects w) ''webui_env.bat'' True = None \<Longrightarrow>
     files (update_webui_config env w) ''webui_env.bat'' = Some webui_content"
  by (simp add: update_webui_config_def Let_def write_text_def)

section \<open>Runs only append\<close>

lemma extends_refl [simp]: "extends w w"
  by (simp add: extends_def)

lemma extends_trans: "extends w w' \<Longrightarrow> extends w' w'' \<Longrightarrow> extends w w''"
  by (auto simp: extends_def)

lemma extends_print [simp]: "extends w (print s w)"
  by (simp add: extends_def)

lemma extends_prints [simp]: "extends w (prints ss w)"
  by (simp add: extends_def)

lemma extends_print_after: "extends w w' \<Longrightarrow> extends w (print s w')"
  by (auto simp: extends_def)

lemma extends_prints_after: "extends w w' \<Longrightarrow> extends w (prints ss w')"
  by (auto simp: extends_def)

lemma extends_subprocess_run [simp]: "extends w (snd (subprocess_run env check args w))"
  by (simp add: extends_def)

lemma extends_write_text [simp]: "extends w (snd (write_text env path s w))"
  by (simp add: extends_def write_text_def split: option.splits)

lemma extends_effect [simp]: "extends w (w\<lparr>effects := effects w @ es\<rparr>)"
  by (simp add: extends_def)

lemma new_effects_trans:
  "extends w w' \<Longrightarrow> extends w' w'' \<Longrightarrow> new_effects w w'' = new_effects w w' @ new_effects w' w''"
  by (auto simp: extends_def new_effects_def)

lemma new_out_trans:
  "extends w w' \<Longrightarrow> extends w' w'' \<Longrightarrow> new_out w w'' = new_out w w' @ new_out w' w''"
  by (auto simp: extends_def new_out_def)

lemma new_effects_self [simp]: "new_effects w w = []"
  by (simp add: new_effects_def)

lemma new_out_self [simp]: "new_out w w = []"
  by (simp add: new_out_def)

lemma effects_new: "extends w w' \<Longrightarrow> effects w' = effects w @ new_effects w w'"
  by (auto simp: extends_def new_effects_def)

lemma out_new: "extends w w' \<Longrightarrow> out w' = out w @ new_out w w'"
  by (auto simp: extends_def new_out_def)

section \<open>fix_pytorch_cuda.py: what each function does to the world\<close>

lemma verify_cuda_result: "fst (verify_cuda env w) = cuda_works env (effects w)"
  by (simp add: verify_cuda_def cuda_works_def split: sum.splits option.splits)

lemma verify_cuda_effects [simp]: "effects (snd (verify_cuda env w)) = effects w"
  by (simp add: verify_cuda_def split: sum.splits option.splits)

lemma verify_cuda_files [simp]: "files (snd (verify_cuda env w)) = files w"
  by (simp add: verify_cuda_def split: sum.splits option.splits)

lemma verify_cuda_extends [simp]: "extends w (snd (verify_cuda env w))"
  by (simp add: verify_cuda_def split: sum.splits option.splits)

lemma verify_cuda_true_world: "fst (verify_cuda env w) \<Longrightarrow> snd (verify_cuda env w) = w"
  by (simp add: verify_cuda_def split: sum.splits option.splits if_splits)

lemma test_installation_effects [simp]: "effects (snd (test_installation env w)) = effects w"
  by (simp add: test_installation_def Let_def split: sum.splits option.splits)

lemma test_installation_files [simp]: "files (snd (test_installation env w)) = files w"
  by (simp add: test_installation_def Let_def split: sum.splits option.splits)

lemma test_installation_extends [simp]: "extends w (snd (test_installation env w))"
  by (simp add: test_installation_def Let_def extends_def split: sum.splits option.splits)

lemma check_current_pytorch_effects [simp]:
  "effects (snd (check_current_pytorch env w)) = effects w"
  by (simp add: check_current_pytorch_def Let_def split: sum.splits exn.splits)

lemma check_current_pytorch_files [simp]:
  "files (snd (check_current_pytorch env w)) = files w"
  by (simp add: check_current_pytorch_def Let_def split: sum.splits exn.splits)

lemma check_current_pytorch_extends [simp]: "extends w (snd (check_current_pytorch env w))"
  by (simp add: check_current_pytorch_def Let_def extends_def split: sum.splits exn.splits)

lemma check_current_pytorch_result:
  "fst (check_current_pytorch env w) =
     (case import_torch env (effects w) of
        Inr t \<Rightarrow> Inr True
      | Inl (ImportError m) \<Rightarrow> Inr False
      | Inl e \<Rightarrow> Inl e)"
  by (simp add: check_current_pytorch_def Let_def split: sum.splits exn.splits)

lemma update_webui_config_extends [simp]: "extends w (update_webui_config env w)"
  by (simp add: update_webui_config_def Let_def extends_def write_text_def split: option.splits)

lemma debug_script_flags:
  "contains debug_script ''--precision full''" "contains debug_script ''--medvram''"
  by (simp_all add: debug_script_def text_of_lines_def nl_def)

lemma script_content_flags:
  "contains script_content ''--precision autocast''" "\<not> contains script_content ''--precision full''"
  by (simp_all add: script_content_def text_of_lines_def nl_def)

text \<open>
  Claim C6: a launcher writer overwrites. Whatever the target file held before (or if it
  was not there), after a successful call it holds exactly the template text:
  \<open>update_webui_config\<close> for \<open>webui_env.bat\<close> (success: the file could be opened for
  writing), \<open>create_vae_fix_launch_script\<close> and \<open>create_vae_debug_launch_script\<close> for
  their files (success: the function returns \<open>True\<close>).
\<close>

theorem launcher_overwrites:
  "(open_error env (effects w) ''webui_env.bat'' True = None \<longrightarrow>
      files (update_webui_config env w) ''webui_env.bat'' = Some webui_content)
   \<and> (fst (create_vae_fix_launch_script env w) \<longrightarrow>
      files (snd (create_vae_fix_launch_script env w)) script_filename = Some script_content)
   \<and> (fst (create_vae_debug_launch_script env w) \<longrightarrow>
      files (snd (create_vae_debug_launch_script env w)) ''webui_vae_debug.bat'' = Some debug_script)"
  using fix_script_written debug_script_written webui_env_written by blast

theorem launcher_overwrites_witness:
  "files old_world ''webui_env.bat'' = Some ''@echo old''
   \<and> files old_world script_filename = Some ''rem old''
   \<and> open_error host_ok (effects old_world) ''webui_env.bat'' True = None
   \<and> fst (create_vae_fix_launch_script host_ok old_world)
   \<and> fst (create_vae_debug_launch_script host_ok old_world)
   \<and> files (update_webui_config host_ok old_world) ''webui_env.bat'' = Some webui_content
   \<and> files (snd (create_vae_fix_launch_script host_ok old_world)) script_filename = Some script_content
   \<and> files (snd (create_vae_debug_launch_script host_ok old_world)) ''webui_vae_debug.bat'' = Some debug_script"
proof -
  have a: "open_error host_ok (effects old_world) ''webui_env.bat'' True = None"
    by (simp add: host_ok_def)
  have b: "fst (create_vae_fix_launch_script host_ok old_world)"
    by (simp add: create_vae_fix_launch_script_def write_text_def host_ok_def)
  have c: "fst (create_vae_debug_launch_script host_ok old_world)"
    by (simp add: create_vae_debug_launch_script_def write_text_def host_ok_def)
  have d: "files old_world ''webui_env.bat'' = Some ''@echo old''"
    "files old_world script_filename = Some ''rem old''"
    by (simp_all add: old_world_def script_filename_def)
  show ?thesis
    using launcher_overwrites [of host_ok old_world] a b c d by simp
qed

section \<open>The in-place patches\<close>

lemma read_text_Inr: "read_text env path w = Inr c \<Longrightarrow> files w path = Some c"
  by (auto simp: read_text_def split: option.splits)

lemma read_text_effects [simp]:
  "read_text env path (w\<lparr>out := os\<rparr>) = read_text env path w"
  by (simp add: read_text_def split: option.splits)

lemma write_text_print:
  "write_text env path s (print l w) =
     (fst (write_text env path s w), print l (snd (write_text env path s w)))"
  by (simp add: write_text_def print_def split: option.splits)

text \<open>Two writes in a row, the first to the backup, the second to the target.\<close>

lemma backup_then_patch:
  assumes rd: "files w target = Some c"
    and wa_eq: "effects wa = effects w" "files wa = files w"
    and b: "write_text env backup c wa = (rb, wb)"
    and between: "rb = Inr () \<Longrightarrow> effects wc = effects wb \<and> files wc = files wb"
    and t: "rb = Inr () \<Longrightarrow> write_text env target c' wc = (rt, wd)"
    and final: "effects w' = (if rb = Inr () then effects wd else effects wb)"
      "files w' = (if rb = Inr () then files wd else files wb)"
  shows "backup_before_patch target backup w w'"
proof (cases rb)
  case (Inl e)
  with b have "wb = wa" by (auto dest: write_text_fail)
  with Inl final wa_eq show ?thesis by (simp add: backup_before_patch_def)
next
  case (Inr u)
  then have rb: "rb = Inr ()" by simp
  with b have 2: "files wb = (files wa)(backup \<mapsto> c)" "effects wb = effects wa @ [Write backup c]"
    by (auto dest: write_text_ok)
  from between [OF rb] have 3: "effects wc = effects wb" "files wc = files wb" by simp_all
  from t [OF rb] have 4: "write_text env target c' wc = (rt, wd)" .
  show ?thesis
  proof (cases rt)
    case (Inl e)
    with 4 have "wd = wc" by (auto dest: write_text_fail)
    with rb final wa_eq 2 3 rd show ?thesis by (simp add: backup_before_patch_def)
  next
    case (Inr u')
    with 4 have "files wd = (files wc)(target \<mapsto> c')" "effects wd = effects wc @ [Write target c']"
      by (auto dest: write_text_ok)
    with rb final wa_eq 2 3 rd show ?thesis by (simp add: backup_before_patch_def)
  qed
qed

lemma no_patch: "effects w' = effects w \<Longrightarrow> files w' = files w \<Longrightarrow> backup_before_patch t b w w'"
  by (simp add: backup_before_patch_def)

lemma patch_sgm_backup:
  "backup_before_patch sgm_encoder_file (sgm_encoder_file @ ''.backup'') w
     (snd (patch_sgm_imports env w))"
proof (cases "file_exists sgm_encoder_file w")
  case False
  then show ?thesis by (simp add: patch_sgm_imports_def Let_def no_patch)
next
  case True
  let ?w0 = "print (nl @ ''=== Patching SGM Repository Imports ==='') w"
  show ?thesis
  proof (cases "read_text env sgm_encoder_file w")
    case (Inl e)
    with True show ?thesis by (simp add: patch_sgm_imports_def Let_def no_patch)
  next
    case (Inr c)
    obtain rb w2 where b: "write_text env (sgm_encoder_file @ ''.backup'') c ?w0 = (rb, w2)"
      by (cases "write_text env (sgm_encoder_file @ ''.backup'') c ?w0") auto
    let ?c' = "if contains c old_import then replace c old_import new_import else c"
    let ?w3 = "if contains c old_import
               then print (ok_mark @ '' Patched open_clip import in SGM'')
                      (print (ok_mark @ '' Created backup: '' @ sgm_encoder_file @ ''.backup'') w2)
               else print (warn_mark @ ''  open_clip import not found in expected location'')
                      (print (ok_mark @ '' Created backup: '' @ sgm_encoder_file @ ''.backup'') w2)"
    obtain rt w4 where t: "write_text env sgm_encoder_file ?c' ?w3 = (rt, w4)"
      by (cases "write_text env sgm_encoder_file ?c' ?w3") auto
    show ?thesis
    proof (rule backup_then_patch [where c = c and wa = ?w0 and rb = rb and wb = w2
          and ?c' = ?c' and wc = ?w3 and rt = rt and wd = w4 and env = env])
      show "files w sgm_encoder_file = Some c" using Inr by (rule read_text_Inr)
      show "effects ?w0 = effects w" "files ?w0 = files w" by simp_all
      show "write_text env (sgm_encoder_file @ ''.backup'') c ?w0 = (rb, w2)" by (rule b)
      show "effects ?w3 = effects w2 \<and> files ?w3 = files w2" by simp
      show "write_text env sgm_encoder_file ?c' ?w3 = (rt, w4)" by (rule t)
      show "effects (snd (patch_sgm_imports env w)) = (if rb = Inr () then effects w4 else effects w2)"
        using True Inr b t
        by (cases rb; cases rt; cases "contains c old_import")
           (simp_all add: patch_sgm_imports_def Let_def)
      show "files (snd (patch_sgm_imports env w)) = (if rb = Inr () then files w4 else files w2)"
        using True Inr b t
        by (cases rb; cases rt; cases "contains c old_import")
           (simp_all add: patch_sgm_imports_def Let_def)
    qed
  qed
qed

lemma patch_sgm_success:
  assumes "fst (patch_sgm_imports env w)"
  shows "\<exists>c c'. files w sgm_encoder_file = Some c
           \<and> effects (snd (patch_sgm_imports env w))
               = effects w @ [Write (sgm_encoder_file @ ''.backup'') c, Write sgm_encoder_file c']"
proof (cases "file_exists sgm_encoder_file w")
  case False
  with assms show ?thesis by (simp add: patch_sgm_imports_def Let_def)
next
  case True
  show ?thesis
  proof (cases "read_text env sgm_encoder_file w")
    case (Inl e)
    with True assms show ?thesis by (simp add: patch_sgm_imports_def Let_def)
  next
    case (Inr c)
    then have "files w sgm_encoder_file = Some c" by (rule read_text_Inr)
    with True Inr assms show ?thesis
      by (cases "open_error env (effects w) (sgm_encoder_file @ ''.backup'') True";
          cases "open_error env (effects w @ [Write (sgm_encoder_file @ ''.backup'') c])
                   sgm_encoder_file True";
          cases "contains c old_import")
         (simp_all add: patch_sgm_imports_def Let_def write_text_def)
  qed
qed

lemma patch_gradio_backup:
  "backup_before_patch extensions_file (extensions_file @ ''.gradio_backup'') w
     (snd (patch_gradio_extensions env w))"
proof (cases "file_exists extensions_file w")
  case False
  then show ?thesis by (simp add: patch_gradio_extensions_def Let_def no_patch)
next
  case True
  let ?w0 = "print (nl @ ''=== Patching Gradio Extensions ==='') w"
  show ?thesis
  proof (cases "read_text env extensions_file w")
    case (Inl e)
    with True show ?thesis by (simp add: patch_gradio_extensions_def Let_def no_patch)
  next
    case (Inr c)
    show ?thesis
    proof (cases "contains c ''Handle Gradio version compatibility''")
      case already: True
      with True Inr show ?thesis by (simp add: patch_gradio_extensions_def Let_def no_patch)
    next
      case fresh: False
      show ?thesis
      proof (cases "contains c ''gr.components.IOComponent''")
        case False
        with True Inr fresh show ?thesis
          by (simp add: patch_gradio_extensions_def Let_def no_patch)
      next
        case needs: True
        let ?w1 = "print ''Patching gradio_extensons.py for Gradio compatibility...'' ?w0"
        obtain rb w2 where b: "write_text env (extensions_file @ ''.gradio_backup'') c ?w1 = (rb, w2)"
          by (cases "write_text env (extensions_file @ ''.gradio_backup'') c ?w1") auto
        let ?c' = "replace c gradio_old_line new_lines"
        obtain rt w4 where t: "write_text env extensions_file ?c' w2 = (rt, w4)"
          by (cases "write_text env extensions_file ?c' w2") auto
        show ?thesis
        proof (rule backup_then_patch [where c = c and wa = ?w1 and rb = rb and wb = w2
              and ?c' = ?c' and wc = w2 and rt = rt and wd = w4 and env = env])
          show "files w extensions_file = Some c" using Inr by (rule read_text_Inr)
          show "effects ?w1 = effects w" "files ?w1 = files w" by simp_all
          show "write_text env (extensions_file @ ''.gradio_backup'') c ?w1 = (rb, w2)" by (rule b)
          show "effects w2 = effects w2 \<and> files w2 = files w2" by simp
          show "write_text env extensions_file ?c' w2 = (rt, w4)" by (rule t)
          show "effects (snd (patch_gradio_extensions env w))
                  = (if rb = Inr () then effects w4 else effects w2)"
            using True Inr fresh needs b t
            by (cases rb; cases rt) (simp_all add: patch_gradio_extensions_def Let_def)
          show "files (snd (patch_gradio_extensions env w))
                  = (if rb = Inr () then files w4 else files w2)"
            using True Inr fresh needs b t
            by (cases rb; cases rt) (simp_all add: patch_gradio_extensions_def Let_def)
        qed
      qed
    qed
  qed
qed

lemma modify_webui_backup:
  "backup_before_patch launch_utils_path (launch_utils_path @ ''.backup'') w
     (snd (modify_webui_packages env w))"
proof (cases "file_exists launch_utils_path w")
  case False
  then show ?thesis by (simp add: modify_webui_packages_def Let_def no_patch)
next
  case True
  let ?w0 = "print (nl @ ''=== Modifying WebUI Package Configuration ==='') w"
  show ?thesis
  proof (cases "read_text env launch_utils_path w")
    case (Inl e)
    with True show ?thesis by (simp add: modify_webui_packages_def Let_def no_patch)
  next
    case (Inr c)
    obtain rb w2 where b: "write_text env (launch_utils_path @ ''.backup'') c ?w0 = (rb, w2)"
      by (cases "write_text env (launch_utils_path @ ''.backup'') c ?w0") auto
    let ?c' = "if contains c old_openclip then replace c old_openclip new_openclip else c"
    let ?w3 = "if contains c old_openclip
               then print (ok_mark @ '' Modified open_clip package to use PyPI version'')
                      (print (ok_mark @ '' Created backup: '' @ launch_utils_path @ ''.backup'') w2)
               else print (warn_mark @ ''  open_clip package line not found, manual modification needed'')
                      (print (ok_mark @ '' Created backup: '' @ launch_utils_path @ ''.backup'') w2)"
    obtain rt w4 where t: "write_text env launch_utils_path ?c' ?w3 = (rt, w4)"
      by (cases "write_text env launch_utils_path ?c' ?w3") auto
    show ?thesis
    proof (rule backup_then_patch [where c = c and wa = ?w0 and rb = rb and wb = w2
          and ?c' = ?c' and wc = ?w3 and rt = rt and wd = w4 and env = env])
      show "files w launch_utils_path = Some c" using Inr by (rule read_text_Inr)
      show "effects ?w0 = effects w" "files ?w0 = files w" by simp_all
      show "write_text env (launch_utils_path @ ''.backup'') c ?w0 = (rb, w2)" by (rule b)
      show "effects ?w3 = effects w2 \<and> files ?w3 = files w2" by simp
      show "write_text env launch_utils_path ?c' ?w3 = (rt, w4)" by (rule t)
      show "effects (snd (modify_webui_packages env w)) = (if rb = Inr () then effects w4 else effects w2)"
        using True Inr b t
        by (cases rb; cases rt; cases "contains c old_openclip")
           (simp_all add: modify_webui_packages_def Let_def)
      show "files (snd (modify_webui_packages env w)) = (if rb = Inr () then files w4 else files w2)"
        using True Inr b t
        by (cases rb; cases rt; cases "contains c old_openclip")
           (simp_all add: modify_webui_packages_def Let_def)
    qed
  qed
qed

lemma modify_webui_success:
  assumes "fst (modify_webui_packages env w)"
  shows "\<exists>c c'. files w launch_utils_path = Some c
           \<and> effects (snd (modify_webui_packages env w))
               = effects w @ [Write (launch_utils_path @ ''.backup'') c, Write launch_utils_path c']"
proof (cases "file_exists launch_utils_path w")
  case False
  with assms show ?thesis by (simp add: modify_webui_packages_def Let_def)
next
  case True
  show ?thesis
  proof (cases "read_text env launch_utils_path w")
    case (Inl e)
    with True assms show ?thesis by (simp add: modify_webui_packages_def Let_def)
  next
    case (Inr c)
    then have "files w launch_utils_path = Some c" by (rule read_text_Inr)
    with True Inr assms show ?thesis
      by (cases "open_error env (effects w) (launch_utils_path @ ''.backup'') True";
          cases "open_error env (effects w @ [Write (launch_utils_path @ ''.backup'') c])
                   launch_utils_path True";
          cases "contains c old_openclip")
         (simp_all add: modify_webui_packages_def Let_def write_text_def)
  qed
qed

text \<open>Once the target has been written, the backup holds what the target held before.\<close>

lemma backup_holds_original:
  assumes "backup_before_patch target backup w w'" "backup \<noteq> target"
    "Write target c' \<in> set (new_effects w w')"
  shows "files w' backup = files w target"
  using assms by (auto simp: backup_before_patch_def)
lemma new_effects_from [simp]: "new_effects w (w'\<lparr>effects := effects w @ es\<rparr>) = es"
  by (simp add: new_effects_def)

text \<open>
  The patches of \<open>fix_sgm_openclip.py\<close>, \<open>fix_gradio_compatibility.py\<close> and
  \<open>fix_build_tools.py\<close> back the file up first. \<open>patch_sgm_imports\<close>,
  \<open>patch_gradio_extensions\<close> and \<open>modify_webui_packages\<close> write nothing, or the original
  content to the backup file only, or the original content to the backup file and then
  the new content to the target. So whenever the target has been written, and in particular
  whenever \<open>patch_sgm_imports\<close> or \<open>modify_webui_packages\<close> returns \<open>True\<close>, the backup file
  holds what the target held before the call.
\<close>

lemma patch_backup_first:
  "backup_before_patch sgm_encoder_file (sgm_encoder_file @ ''.backup'') w
     (snd (patch_sgm_imports env w))
   \<and> backup_before_patch extensions_file (extensions_file @ ''.gradio_backup'') w
     (snd (patch_gradio_extensions env w))
   \<and> backup_before_patch launch_utils_path (launch_utils_path @ ''.backup'') w
     (snd (modify_webui_packages env w))
   \<and> (fst (patch_sgm_imports env w) \<longrightarrow>
        files w sgm_encoder_file \<noteq> None
        \<and> files (snd (patch_sgm_imports env w)) (sgm_encoder_file @ ''.backup'')
            = files w sgm_encoder_file)
   \<and> ((\<exists>c'. Write extensions_file c'
              \<in> set (new_effects w (snd (patch_gradio_extensions env w)))) \<longrightarrow>
        files (snd (patch_gradio_extensions env w)) (extensions_file @ ''.gradio_backup'')
          = files w extensions_file)
   \<and> (fst (modify_webui_packages env w) \<longrightarrow>
        files w launch_utils_path \<noteq> None
        \<and> files (snd (modify_webui_packages env w)) (launch_utils_path @ ''.backup'')
            = files w launch_utils_path)"
proof (intro conjI impI)
  show "backup_before_patch sgm_encoder_file (sgm_encoder_file @ ''.backup'') w
          (snd (patch_sgm_imports env w))"
    by (rule patch_sgm_backup)
  show "backup_before_patch extensions_file (extensions_file @ ''.gradio_backup'') w
          (snd (patch_gradio_extensions env w))"
    by (rule patch_gradio_backup)
  show "backup_before_patch launch_utils_path (launch_utils_path @ ''.backup'') w
          (snd (modify_webui_packages env w))"
    by (rule modify_webui_backup)
next
  assume ok: "fst (patch_sgm_imports env w)"
  from patch_sgm_success [OF ok] obtain c c' where
    c: "files w sgm_encoder_file = Some c"
    and e: "effects (snd (patch_sgm_imports env w))
              = effects w @ [Write (sgm_encoder_file @ ''.backup'') c, Write sgm_encoder_file c']"
    by blast
  from c show "files w sgm_encoder_file \<noteq> None" by simp
  from e have mem: "Write sgm_encoder_file c' \<in> set (new_effects w (snd (patch_sgm_imports env w)))"
    by simp
  have ne: "sgm_encoder_file @ ''.backup'' \<noteq> sgm_encoder_file" by simp
  from backup_holds_original [OF patch_sgm_backup ne mem]
  show "files (snd (patch_sgm_imports env w)) (sgm_encoder_file @ ''.backup'')
          = files w sgm_encoder_file" .
next
  assume "\<exists>c'. Write extensions_file c'
            \<in> set (new_effects w (snd (patch_gradio_extensions env w)))"
  then obtain c' where mem:
    "Write extensions_file c' \<in> set (new_effects w (snd (patch_gradio_extensions env w)))"
    by blast
  have ne: "extensions_file @ ''.gradio_backup'' \<noteq> extensions_file" by simp
  from backup_holds_original [OF patch_gradio_backup ne mem]
  show "files (snd (patch_gradio_extensions env w)) (extensions_file @ ''.gradio_backup'')
          = files w extensions_file" .
next
  assume ok: "fst (modify_webui_packages env w)"
  from modify_webui_success [OF ok] obtain c c' where
    c: "files w launch_utils_path = Some c"
    and e: "effects (snd (modify_webui_packages env w))
              = effects w @ [Write (launch_utils_path @ ''.backup'') c, Write launch_utils_path c']"
    by blast
  from c show "files w launch_utils_path \<noteq> None" by simp
  from e have mem: "Write launch_utils_path c'
                 \<in> set (new_effects w (snd (modify_webui_packages env w)))"
    by simp
  have ne: "launch_utils_path @ ''.backup'' \<noteq> launch_utils_path" by simp
  from backup_holds_original [OF modify_webui_backup ne mem]
  show "files (snd (modify_webui_packages env w)) (launch_utils_path @ ''.backup'')
          = files w launch_utils_path" .
qed

lemma sgm_world_patched:
  "patch_sgm_imports host_ok sgm_world =
     (True,
      \<lparr>files = [sgm_encoder_file \<mapsto> text_of_lines [''import torch'', new_import],
                sgm_encoder_file @ ''.backup'' \<mapsto> text_of_lines [''import torch'', ''import open_clip'']],
       effects = [Write (sgm_encoder_file @ ''.backup'')
                    (text_of_lines [''import torch'', ''import open_clip'']),
                  Write sgm_encoder_file (text_of_lines [''import torch'', new_import])],
       out = [nl @ ''=== Patching SGM Repository Imports ==='',
              ok_mark @ '' Created backup: '' @ sgm_encoder_file @ ''.backup'',
              ok_mark @ '' Patched open_clip import in SGM'',
              ok_mark @ '' Patched '' @ sgm_encoder_file]\<rparr>)"
  by (simp add: patch_sgm_imports_def Let_def file_exists_def read_text_def write_text_def
        print_def sgm_world_def host_ok_def text_of_lines_def nl_def old_import_def replace_def
        sgm_encoder_file_def fun_upd_twist)
lemma gradio_world_patched:
  "patch_gradio_extensions host_ok gradio_world =
     (True,
      \<lparr>files = [extensions_file \<mapsto> text_of_lines [''import gradio as gr'', new_lines],
                extensions_file @ ''.gradio_backup''
                  \<mapsto> text_of_lines [''import gradio as gr'', gradio_old_line]],
       effects = [Write (extensions_file @ ''.gradio_backup'')
                    (text_of_lines [''import gradio as gr'', gradio_old_line]),
                  Write extensions_file (text_of_lines [''import gradio as gr'', new_lines])],
       out = [nl @ ''=== Patching Gradio Extensions ==='',
              ''Patching gradio_extensons.py for Gradio compatibility...'',
              ok_mark @ '' Patched '' @ extensions_file]\<rparr>)"
  by (simp add: patch_gradio_extensions_def Let_def file_exists_def read_text_def write_text_def
        print_def gradio_world_def host_ok_def text_of_lines_def nl_def gradio_old_line_def
        replace_def extensions_file_def fun_upd_twist)

lemma launch_world_patched:
  "modify_webui_packages host_ok launch_world =
     (True,
      \<lparr>files = [launch_utils_path \<mapsto> text_of_lines [''import os'', new_openclip],
                launch_utils_path @ ''.backup'' \<mapsto> text_of_lines [''import os'', old_openclip]],
       effects = [Write (launch_utils_path @ ''.backup'') (text_of_lines [''import os'', old_openclip]),
                  Write launch_utils_path (text_of_lines [''import os'', new_openclip])],
       out = [nl @ ''=== Modifying WebUI Package Configuration ==='',
              ok_mark @ '' Created backup: '' @ launch_utils_path @ ''.backup'',
              ok_mark @ '' Modified open_clip package to use PyPI version'',
              ok_mark @ '' Modified '' @ launch_utils_path]\<rparr>)"
  by (simp add: modify_webui_packages_def Let_def file_exists_def read_text_def write_text_def
        print_def launch_world_def host_ok_def text_of_lines_def nl_def old_openclip_def
        replace_def launch_utils_path_def fun_upd_twist)

lemma patch_backup_first_example:
  "fst (patch_sgm_imports host_ok sgm_world)
   \<and> (\<exists>c'. Write extensions_file c'
          \<in> set (new_effects gradio_world (snd (patch_gradio_extensions host_ok gradio_world))))
   \<and> fst (modify_webui_packages host_ok launch_world)
   \<and> files sgm_world sgm_encoder_file \<noteq> None
   \<and> files (snd (patch_sgm_imports host_ok sgm_world)) (sgm_encoder_file @ ''.backup'')
       = files sgm_world sgm_encoder_file
   \<and> files (snd (patch_gradio_extensions host_ok gradio_world)) (extensions_file @ ''.gradio_backup'')
       = files gradio_world extensions_file
   \<and> files launch_world launch_utils_path \<noteq> None
   \<and> files (snd (modify_webui_packages host_ok launch_world)) (launch_utils_path @ ''.backup'')
       = files launch_world launch_utils_path"
proof -
  have a: "fst (patch_sgm_imports host_ok sgm_world)"
    by (simp add: sgm_world_patched)
  have b: "\<exists>c'. Write extensions_file c'
          \<in> set (new_effects gradio_world (snd (patch_gradio_extensions host_ok gradio_world)))"
    unfolding gradio_world_patched new_effects_def by (simp add: gradio_world_def)
  have c: "fst (modify_webui_packages host_ok launch_world)"
    by (simp add: launch_world_patched)
  from patch_backup_first [of sgm_world host_ok] patch_backup_first [of gradio_world host_ok]
       patch_backup_first [of launch_world host_ok] a b c
  show ?thesis by blast
qed

lemma map_of_dict_set: "map_of (dict_set k v d) = (map_of d)(k \<mapsto> v)"
  by (induction d) (auto simp: fun_eq_iff)

lemma keys_dict_set: "fst ` set (dict_set k v d) = insert k (fst ` set d)"
  by (simp add: dom_map_of_conv_image_fst [symmetric] map_of_dict_set)

lemma read_current_config_print [simp]:
  "read_current_config env (print s w) = read_current_config env w"
  by (simp add: read_current_config_def)

lemma read_current_config_source:
  "read_current_config env w = Inr j \<Longrightarrow>
     (case files w ui_config_file of None \<Rightarrow> j = JDict []
      | Some s \<Rightarrow> (\<exists>t. locale_decode env s = Inr t \<and> json_loads env t = Inr j))"
  by (auto simp: read_current_config_def file_exists_def json_load_def read_text_locale_def
           read_text_def split: option.splits sum.splits if_splits)

text \<open>The four ways \<open>configure_vae_in_ui_config\<close> can end.\<close>

lemma configure_read_failed:
  "read_current_config env w = Inl e \<Longrightarrow>
     configure_vae_in_ui_config env v w =
       (False, print (cross_mark @ '' Failed to configure VAE: '' @ exn_str e)
                 (print (nl @ ''=== Configuring VAE: '' @ v @ '' ==='') w))"
  by (simp add: configure_vae_in_ui_config_def Let_def)

lemma configure_not_dict:
  "read_current_config env w = Inr j \<Longrightarrow> \<forall>d. j \<noteq> JDict d \<Longrightarrow>
     \<not> fst (configure_vae_in_ui_config env v w)
     \<and> files (snd (configure_vae_in_ui_config env v w)) = files w
     \<and> effects (snd (configure_vae_in_ui_config env v w)) = effects w"
  by (cases j) (simp_all add: configure_vae_in_ui_config_def Let_def)

lemma configure_write_refused:
  "read_current_config env w = Inr (JDict d) \<Longrightarrow>
   open_error env (effects w) ui_config_file True = Some e \<Longrightarrow>
     configure_vae_in_ui_config env v w =
       (False, print (cross_mark @ '' Failed to configure VAE: '' @ exn_str e)
                 (print (nl @ ''=== Configuring VAE: '' @ v @ '' ==='') w))"
  by (simp add: configure_vae_in_ui_config_def Let_def write_text_def)

lemma configure_written:
  "read_current_config env w = Inr (JDict d) \<Longrightarrow>
   open_error env (effects w) ui_config_file True = None \<Longrightarrow>
     configure_vae_in_ui_config env v w =
       (True,
        print (ok_mark @ '' Configured VAE in ui-config.json: '' @ v)
          ((print (nl @ ''=== Configuring VAE: '' @ v @ '' ==='') w)
             \<lparr>files := (files w)(ui_config_file \<mapsto> json_dumps env
                  (JDict (dict_set img2img_key (JStr v) (dict_set txt2img_key (JStr v) d)))),
              effects := effects w @ [Write ui_config_file (json_dumps env
                  (JDict (dict_set img2img_key (JStr v) (dict_set txt2img_key (JStr v) d))))]\<rparr>))"
  by (simp add: configure_vae_in_ui_config_def Let_def write_text_def)

lemma configure_cases:
  obtains (read_failed) e where "read_current_config env w = Inl e"
  | (not_dict) j where "read_current_config env w = Inr j" "\<forall>d. j \<noteq> JDict d"
  | (refused) d e where "read_current_config env w = Inr (JDict d)"
      "open_error env (effects w) ui_config_file True = Some e"
  | (written) d where "read_current_config env w = Inr (JDict d)"
      "open_error env (effects w) ui_config_file True = None"
proof (cases "read_current_config env w")
  case (Inl e)
  then show ?thesis by (rule read_failed)
next
  case (Inr j)
  show ?thesis
  proof (cases "\<exists>d. j = JDict d")
    case True
    then obtain d where "j = JDict d" by blast
    with Inr show ?thesis
      by (cases "open_error env (effects w) ui_config_file True") (auto intro: refused written)
  next
    case False
    with Inr show ?thesis by (auto intro: not_dict)
  qed
qed

lemma configure_other_files:
  "p \<noteq> ui_config_file \<Longrightarrow> files (snd (configure_vae_in_ui_config env v w)) p = files w p"
  by (cases rule: configure_cases [of env w])
     (simp_all add: configure_read_failed configure_not_dict configure_write_refused
        configure_written)

lemma configure_failed_files:
  "\<not> fst (configure_vae_in_ui_config env v w) \<Longrightarrow>
     files (snd (configure_vae_in_ui_config env v w)) = files w"
  by (cases rule: configure_cases [of env w])
     (simp_all add: configure_read_failed configure_not_dict configure_write_refused
        configure_written)

lemma configure_succeeded:
  assumes "fst (configure_vae_in_ui_config env v w)"
  shows "\<exists>d. read_current_config env w = Inr (JDict d)
           \<and> files (snd (configure_vae_in_ui_config env v w)) ui_config_file
              = Some (json_dumps env
                  (JDict (dict_set img2img_key (JStr v) (dict_set txt2img_key (JStr v) d))))"
  using assms
  by (cases rule: configure_cases [of env w])
     (simp_all add: configure_read_failed configure_not_dict configure_write_refused
        configure_written)

text \<open>
  The frame of \<open>configure_vae_in_ui_config\<close> with respect to the dict that \<open>json.load\<close>
  returned. No file other than \<open>ui-config.json\<close> changes; a failed call changes no file; a
  successful call writes the dump of a dict \<open>d'\<close> that maps the two Preferred-VAE keys to
  the given name and every other key to what the dict \<open>d\<close> mapped it to, with no further
  key, where \<open>d\<close> is what the parser made of the bytes of the file as the locale's codec
  decoded them. If the file was not there, \<open>d\<close> is empty, so \<open>d'\<close> has exactly the two keys.
\<close>

lemma configure_vae_frame:
  "(\<forall>p. p \<noteq> ui_config_file \<longrightarrow> files (snd (configure_vae_in_ui_config env v w)) p = files w p)
   \<and> (\<not> fst (configure_vae_in_ui_config env v w) \<longrightarrow>
        files (snd (configure_vae_in_ui_config env v w)) = files w)
   \<and> (fst (configure_vae_in_ui_config env v w) \<longrightarrow>
        (\<exists>d d'.
           (case files w ui_config_file of
              None \<Rightarrow> d = []
            | Some s \<Rightarrow> (\<exists>t. locale_decode env s = Inr t \<and> json_loads env t = Inr (JDict d)))
         \<and> files (snd (configure_vae_in_ui_config env v w)) ui_config_file
             = Some (json_dumps env (JDict d'))
         \<and> (\<forall>k. map_of d' k
               = (if k = txt2img_key \<or> k = img2img_key then Some (JStr v) else map_of d k))
         \<and> fst ` set d' = fst ` set d \<union> {txt2img_key, img2img_key}))"
proof (intro conjI allI impI)
  fix p assume "p \<noteq> ui_config_file"
  then show "files (snd (configure_vae_in_ui_config env v w)) p = files w p"
    by (rule configure_other_files)
next
  assume "\<not> fst (configure_vae_in_ui_config env v w)"
  then show "files (snd (configure_vae_in_ui_config env v w)) = files w"
    by (rule configure_failed_files)
next
  assume ok: "fst (configure_vae_in_ui_config env v w)"
  from configure_succeeded [OF ok] obtain d where
    ld: "read_current_config env w = Inr (JDict d)"
    and wr: "files (snd (configure_vae_in_ui_config env v w)) ui_config_file
          = Some (json_dumps env
              (JDict (dict_set img2img_key (JStr v) (dict_set txt2img_key (JStr v) d))))"
    by blast
  let ?d' = "dict_set img2img_key (JStr v) (dict_set txt2img_key (JStr v) d)"
  have src: "case files w ui_config_file of None \<Rightarrow> d = []
             | Some s \<Rightarrow> (\<exists>t. locale_decode env s = Inr t \<and> json_loads env t = Inr (JDict d))"
    using read_current_config_source [OF ld] by (simp split: option.splits)
  have m: "\<forall>k. map_of ?d' k
             = (if k = txt2img_key \<or> k = img2img_key then Some (JStr v) else map_of d k)"
    by (simp add: map_of_dict_set)
  have k: "fst ` set ?d' = fst ` set d \<union> {txt2img_key, img2img_key}"
    by (auto simp: keys_dict_set)
  from src wr m k
  show "\<exists>d d'.
           (case files w ui_config_file of
              None \<Rightarrow> d = []
            | Some s \<Rightarrow> (\<exists>t. locale_decode env s = Inr t \<and> json_loads env t = Inr (JDict d)))
         \<and> files (snd (configure_vae_in_ui_config env v w)) ui_config_file
             = Some (json_dumps env (JDict d'))
         \<and> (\<forall>k. map_of d' k
               = (if k = txt2img_key \<or> k = img2img_key then Some (JStr v) else map_of d k))
         \<and> fst ` set d' = fst ` set d \<union> {txt2img_key, img2img_key}"
    by blast
qed
lemma cfg_world_read:
  "read_current_config host_ok cfg_world = Inr (JDict [(''a'', JInt 1)])"
  "read_current_config host_readonly cfg_world = Inr (JDict [(''a'', JInt 1)])"
  by (simp_all add: read_current_config_def file_exists_def json_load_def read_text_locale_def
        read_text_def cfg_world_def host_ok_def host_readonly_def ui_config_file_def)

lemma configure_vae_frame_example:
  "fst (configure_vae_in_ui_config host_ok ''vae.pt'' cfg_world)
   \<and> ''notes.txt'' \<noteq> ui_config_file
   \<and> files (snd (configure_vae_in_ui_config host_ok ''vae.pt'' cfg_world)) ''notes.txt''
       = files cfg_world ''notes.txt''
   \<and> (\<exists>d d'.
         (case files cfg_world ui_config_file of
            None \<Rightarrow> d = []
          | Some s \<Rightarrow> (\<exists>t. locale_decode host_ok s = Inr t \<and> json_loads host_ok t = Inr (JDict d)))
       \<and> files (snd (configure_vae_in_ui_config host_ok ''vae.pt'' cfg_world)) ui_config_file
           = Some (json_dumps host_ok (JDict d'))
       \<and> (\<forall>k. map_of d' k
             = (if k = txt2img_key \<or> k = img2img_key then Some (JStr ''vae.pt'') else map_of d k))
       \<and> fst ` set d' = fst ` set d \<union> {txt2img_key, img2img_key})
   \<and> \<not> fst (configure_vae_in_ui_config host_readonly ''vae.pt'' cfg_world)
   \<and> files (snd (configure_vae_in_ui_config host_readonly ''vae.pt'' cfg_world)) = files cfg_world"
proof -
  have oe: "open_error host_ok (effects cfg_world) ui_config_file True = None"
    by (simp add: host_ok_def)
  have a: "fst (configure_vae_in_ui_config host_ok ''vae.pt'' cfg_world)"
    by (simp add: configure_written [OF cfg_world_read(1) oe])
  have oe': "open_error host_readonly (effects cfg_world) ui_config_file True
               = Some (OSError ''Permission denied'')"
    by (simp add: host_readonly_def host_ok_def)
  have b: "\<not> fst (configure_vae_in_ui_config host_readonly ''vae.pt'' cfg_world)"
    by (simp add: configure_write_refused [OF cfg_world_read(2) oe'])
  have c: "''notes.txt'' \<noteq> ui_config_file"
    by (simp add: ui_config_file_def)
  from configure_vae_frame [of host_ok "''vae.pt''" cfg_world]
       configure_vae_frame [of host_readonly "''vae.pt''" cfg_world] a b c
  show ?thesis by blast
qed

section \<open>The install loop of fix_pytorch_cuda.py\<close>

lemma subprocess_run_check:
  "subprocess_run env True args w =
     ((case run_process env (effects w) args of None \<Rightarrow> Inr () | Some e \<Rightarrow> Inl e),
      w\<lparr>effects := effects w @ [Run args]\<rparr>)"
  by (simp add: subprocess_run_def Let_def split: option.splits exn.splits)

lemma extends_run_after: "extends w w' \<Longrightarrow> extends w (w'\<lparr>effects := effects w' @ es\<rparr>)"
  by (auto simp: extends_def)

lemma install_loop_ok:
  assumes "install_attempt_ok env (effects w) c"
  shows "fst (install_loop env (c # cs) w) = Inr True"
    and "effects (snd (install_loop env (c # cs) w)) = effects w @ [Run (install_command env c)]"
    and "files (snd (install_loop env (c # cs) w)) = files w"
    and "extends w (snd (install_loop env (c # cs) w))"
    and "out (snd (install_loop env (c # cs) w)) \<noteq> []"
    and "last (out (snd (install_loop env (c # cs) w)))
           = ok_mark @ '' CUDA verification successful with '' @ upper (version c) @ ''!''"
proof -
  let ?w1 = "prints [nl @ cycle_mark @ '' Trying '' @ description c @ ''...'',
                     ''Command: '' @ join '' '' (install_command env c)] w"
  let ?w3 = "print (ok_mark @ '' Installation successful!'')
               (?w1\<lparr>effects := effects ?w1 @ [Run (install_command env c)]\<rparr>)"
  from assms have run: "run_process env (effects w) (install_command env c) = None"
    and cw: "cuda_works env (effects w @ [Run (install_command env c)])"
    by (simp_all add: install_attempt_ok_def)
  from cw have v: "fst (verify_cuda env ?w3)" by (simp add: verify_cuda_result)
  then have v': "verify_cuda env ?w3 = (True, ?w3)"
    using verify_cuda_true_world [of env ?w3] by (cases "verify_cuda env ?w3") simp
  have eq: "install_loop env (c # cs) w =
      (Inr True, print (ok_mark @ '' CUDA verification successful with '' @ upper (version c) @ ''!'') ?w3)"
    using run v' by (simp add: subprocess_run_check Let_def del: prints.simps)
  show "fst (install_loop env (c # cs) w) = Inr True"
    and "effects (snd (install_loop env (c # cs) w)) = effects w @ [Run (install_command env c)]"
    and "files (snd (install_loop env (c # cs) w)) = files w"
    and "extends w (snd (install_loop env (c # cs) w))"
    and "out (snd (install_loop env (c # cs) w)) \<noteq> []"
    and "last (out (snd (install_loop env (c # cs) w)))
           = ok_mark @ '' CUDA verification successful with '' @ upper (version c) @ ''!''"
    unfolding eq by (simp_all add: extends_def)
qed

lemma install_loop_next:
  assumes "\<not> install_attempt_ok env (effects w) c"
    and "case run_process env (effects w) (install_command env c) of
           None \<Rightarrow> True | Some e \<Rightarrow> is_called_process_error e"
  shows "\<exists>w''. install_loop env (c # cs) w = install_loop env cs w''
           \<and> effects w'' = effects w @ [Run (install_command env c)]
           \<and> files w'' = files w \<and> extends w w''"
proof (cases "run_process env (effects w) (install_command env c)")
  case None
  let ?w1 = "prints [nl @ cycle_mark @ '' Trying '' @ description c @ ''...'',
                     ''Command: '' @ join '' '' (install_command env c)] w"
  let ?w3 = "print (ok_mark @ '' Installation successful!'')
               (?w1\<lparr>effects := effects ?w1 @ [Run (install_command env c)]\<rparr>)"
  from None assms(1) have "\<not> cuda_works env (effects w @ [Run (install_command env c)])"
    by (simp add: install_attempt_ok_def)
  then have v: "\<not> fst (verify_cuda env ?w3)" by (simp add: verify_cuda_result)
  define w4 where "w4 = snd (verify_cuda env ?w3)"
  have v': "verify_cuda env ?w3 = (False, w4)"
    using v by (simp add: w4_def prod_eq_iff)
  have e4: "effects w4 = effects ?w3" "files w4 = files ?w3" "extends ?w3 w4"
    by (simp_all add: w4_def)
  let ?w'' = "print (warn_mark @ ''  CUDA not working with '' @ upper (version c)
                       @ '', trying next...'') w4"
  have "install_loop env (c # cs) w = install_loop env cs ?w''"
    using None v' by (simp add: subprocess_run_check Let_def del: prints.simps)
  moreover have "effects ?w'' = effects w @ [Run (install_command env c)]" "files ?w'' = files w"
    using e4 by simp_all
  moreover have "extends w ?w3" by (simp add: extends_def)
  then have "extends w ?w''"
    using e4(3) by (blast intro: extends_trans extends_print_after)
  ultimately show ?thesis by blast
next
  case (Some e)
  with assms(2) obtain err s where e: "e = CalledProcessError err s"
    by (cases e) simp_all
  let ?w1 = "prints [nl @ cycle_mark @ '' Trying '' @ description c @ ''...'',
                     ''Command: '' @ join '' '' (install_command env c)] w"
  let ?w'' = "prints [cross_mark @ '' Installation failed with '' @ upper (version c),
                      ''Error: '' @ (if err \<noteq> [] then err else s)]
                (?w1\<lparr>effects := effects ?w1 @ [Run (install_command env c)]\<rparr>)"
  have "install_loop env (c # cs) w = install_loop env cs ?w''"
    using Some e by (simp add: subprocess_run_check Let_def del: prints.simps)
  moreover have "effects ?w'' = effects w @ [Run (install_command env c)]" "files ?w'' = files w"
    by simp_all
  moreover have "extends w ?w''" by (simp add: extends_def)
  ultimately show ?thesis by blast
qed

lemma install_loop_raise:
  assumes "run_process env (effects w) (install_command env c) = Some e"
    and "\<not> is_called_process_error e"
  shows "fst (install_loop env (c # cs) w) = Inl e"
    and "effects (snd (install_loop env (c # cs) w)) = effects w @ [Run (install_command env c)]"
    and "files (snd (install_loop env (c # cs) w)) = files w"
    and "extends w (snd (install_loop env (c # cs) w))"
  using assms
  by (cases e; simp add: subprocess_run_check Let_def extends_def)+
lemma install_runs_simps [simp]:
  "install_runs env [] = []"
  "install_runs env (c # cs) = Run (install_command env c) # install_runs env cs"
  by (simp_all add: install_runs_def)

lemma install_loop_spec:
  "\<exists>k \<le> length cs.
      effects (snd (install_loop env cs w)) = effects w @ install_runs env (take k cs)
    \<and> files (snd (install_loop env cs w)) = files w
    \<and> extends w (snd (install_loop env cs w))
    \<and> (\<forall>j. Suc j < k \<longrightarrow>
          \<not> install_attempt_ok env (effects w @ install_runs env (take j cs)) (cs ! j))
    \<and> (fst (install_loop env cs w) = Inr True \<longrightarrow>
          0 < k
          \<and> install_attempt_ok env (effects w @ install_runs env (take (k - 1) cs)) (cs ! (k - 1))
          \<and> out (snd (install_loop env cs w)) \<noteq> []
          \<and> last (out (snd (install_loop env cs w))) = success_line (cs ! (k - 1)))
    \<and> (fst (install_loop env cs w) = Inr False \<longrightarrow>
          k = length cs
          \<and> (\<forall>j < k. \<not> install_attempt_ok env (effects w @ install_runs env (take j cs)) (cs ! j)))
    \<and> (\<forall>e. fst (install_loop env cs w) = Inl e \<longrightarrow>
          0 < k
          \<and> run_process env (effects w @ install_runs env (take (k - 1) cs))
               (install_command env (cs ! (k - 1))) = Some e
          \<and> \<not> is_called_process_error e)"
proof (induction cs arbitrary: w)
  case Nil
  show ?case by simp
next
  case (Cons c cs)
  let ?r = "install_loop env (c # cs) w"
  consider (ok) "install_attempt_ok env (effects w) c"
    | (soft) "\<not> install_attempt_ok env (effects w) c"
        "case run_process env (effects w) (install_command env c) of
           None \<Rightarrow> True | Some e \<Rightarrow> is_called_process_error e"
    | (raise) e where "run_process env (effects w) (install_command env c) = Some e"
        "\<not> is_called_process_error e"
    by (cases "run_process env (effects w) (install_command env c)") auto
  then show ?case
  proof cases
    case ok
    note facts = install_loop_ok [OF ok, of cs]
    show ?thesis
      by (rule exI [of _ 1]) (simp add: facts ok success_line_def del: install_loop.simps)
  next
    case (raise e)
    note facts = install_loop_raise [OF raise, of cs]
    show ?thesis
      by (rule exI [of _ 1]) (simp add: facts raise del: install_loop.simps)
  next
    case soft
    from install_loop_next [OF soft, of cs] obtain w'' where
      step: "install_loop env (c # cs) w = install_loop env cs w''"
      and eff: "effects w'' = effects w @ [Run (install_command env c)]"
      and fil: "files w'' = files w"
      and ext: "extends w w''"
      by blast
    from Cons.IH [of w''] obtain k where
      k: "k \<le> length cs"
      and ke: "effects (snd (install_loop env cs w'')) = effects w'' @ install_runs env (take k cs)"
      and kf: "files (snd (install_loop env cs w'')) = files w''"
      and kx: "extends w'' (snd (install_loop env cs w''))"
      and kfail: "\<forall>j. Suc j < k \<longrightarrow>
          \<not> install_attempt_ok env (effects w'' @ install_runs env (take j cs)) (cs ! j)"
      and ktrue: "fst (install_loop env cs w'') = Inr True \<longrightarrow>
          0 < k
          \<and> install_attempt_ok env (effects w'' @ install_runs env (take (k - 1) cs)) (cs ! (k - 1))
          \<and> out (snd (install_loop env cs w'')) \<noteq> []
          \<and> last (out (snd (install_loop env cs w''))) = success_line (cs ! (k - 1))"
      and kfalse: "fst (install_loop env cs w'') = Inr False \<longrightarrow>
          k = length cs
          \<and> (\<forall>j < k. \<not> install_attempt_ok env (effects w'' @ install_runs env (take j cs)) (cs ! j))"
      and kraise: "\<forall>e. fst (install_loop env cs w'') = Inl e \<longrightarrow>
          0 < k
          \<and> run_process env (effects w'' @ install_runs env (take (k - 1) cs))
               (install_command env (cs ! (k - 1))) = Some e
          \<and> \<not> is_called_process_error e"
      by blast
    have shift: "\<And>j. effects w'' @ install_runs env (take j cs)
                   = effects w @ install_runs env (take (Suc j) (c # cs))"
      by (simp add: eff)
    have a: "Suc k \<le> length (c # cs)" using k by simp
    have b: "effects (snd ?r) = effects w @ install_runs env (take (Suc k) (c # cs))"
      unfolding step ke shift ..
    have c: "files (snd ?r) = files w" unfolding step kf fil ..
    have d: "extends w (snd ?r)" unfolding step using ext kx by (rule extends_trans)
    have e: "\<forall>j. Suc j < Suc k \<longrightarrow>
          \<not> install_attempt_ok env (effects w @ install_runs env (take j (c # cs))) ((c # cs) ! j)"
    proof (intro allI impI)
      fix j assume j: "Suc j < Suc k"
      show "\<not> install_attempt_ok env (effects w @ install_runs env (take j (c # cs))) ((c # cs) ! j)"
      proof (cases j)
        case 0
        with soft(1) show ?thesis by simp
      next
        case (Suc i)
        with j have "Suc i < k" by simp
        with kfail have "\<not> install_attempt_ok env (effects w'' @ install_runs env (take i cs)) (cs ! i)"
          by blast
        then show ?thesis unfolding shift Suc by simp
      qed
    qed
    have f: "fst ?r = Inr True \<longrightarrow>
          0 < Suc k
          \<and> install_attempt_ok env (effects w @ install_runs env (take (Suc k - 1) (c # cs)))
               ((c # cs) ! (Suc k - 1))
          \<and> out (snd ?r) \<noteq> []
          \<and> last (out (snd ?r)) = success_line ((c # cs) ! (Suc k - 1))"
    proof
      assume "fst ?r = Inr True"
      then have t: "fst (install_loop env cs w'') = Inr True" unfolding step .
      with ktrue have k0: "0 < k"
        and ok: "install_attempt_ok env (effects w'' @ install_runs env (take (k - 1) cs)) (cs ! (k - 1))"
        and o: "out (snd (install_loop env cs w'')) \<noteq> []"
          "last (out (snd (install_loop env cs w''))) = success_line (cs ! (k - 1))"
        by blast+
      from k0 obtain i where i: "k = Suc i" by (cases k) auto
      from ok o show "0 < Suc k
          \<and> install_attempt_ok env (effects w @ install_runs env (take (Suc k - 1) (c # cs)))
               ((c # cs) ! (Suc k - 1))
          \<and> out (snd ?r) \<noteq> []
          \<and> last (out (snd ?r)) = success_line ((c # cs) ! (Suc k - 1))"
        unfolding step shift i by simp
    qed
    have g: "fst ?r = Inr False \<longrightarrow>
          Suc k = length (c # cs)
          \<and> (\<forall>j < Suc k. \<not> install_attempt_ok env
                 (effects w @ install_runs env (take j (c # cs))) ((c # cs) ! j))"
    proof
      assume "fst ?r = Inr False"
      then have t: "fst (install_loop env cs w'') = Inr False" unfolding step .
      with kfalse have kl: "k = length cs"
        and all: "\<forall>j < k. \<not> install_attempt_ok env (effects w'' @ install_runs env (take j cs)) (cs ! j)"
        by blast+
      have "\<forall>j < Suc k. \<not> install_attempt_ok env
                 (effects w @ install_runs env (take j (c # cs))) ((c # cs) ! j)"
      proof (intro allI impI)
        fix j assume j: "j < Suc k"
        show "\<not> install_attempt_ok env (effects w @ install_runs env (take j (c # cs))) ((c # cs) ! j)"
        proof (cases j)
          case 0
          with soft(1) show ?thesis by simp
        next
          case (Suc i)
          with j have "i < k" by simp
          with all have "\<not> install_attempt_ok env (effects w'' @ install_runs env (take i cs)) (cs ! i)"
            by blast
          then show ?thesis unfolding shift Suc by simp
        qed
      qed
      with kl show "Suc k = length (c # cs)
          \<and> (\<forall>j < Suc k. \<not> install_attempt_ok env
                 (effects w @ install_runs env (take j (c # cs))) ((c # cs) ! j))"
        by simp
    qed
    have h: "\<forall>e. fst ?r = Inl e \<longrightarrow>
          0 < Suc k
          \<and> run_process env (effects w @ install_runs env (take (Suc k - 1) (c # cs)))
               (install_command env ((c # cs) ! (Suc k - 1))) = Some e
          \<and> \<not> is_called_process_error e"
    proof (intro allI impI)
      fix e assume "fst ?r = Inl e"
      then have t: "fst (install_loop env cs w'') = Inl e" unfolding step .
      with kraise have k0: "0 < k"
        and r: "run_process env (effects w'' @ install_runs env (take (k - 1) cs))
               (install_command env (cs ! (k - 1))) = Some e"
        and n: "\<not> is_called_process_error e"
        by blast+
      from k0 obtain i where i: "k = Suc i" by (cases k) auto
      from r n show "0 < Suc k
          \<and> run_process env (effects w @ install_runs env (take (Suc k - 1) (c # cs)))
               (install_command env ((c # cs) ! (Suc k - 1))) = Some e
          \<and> \<not> is_called_process_error e"
        unfolding shift i by simp
    qed
    from a b c d e f g h show ?thesis by blast
  qed
qed
section \<open>The uninstall loop of fix_pytorch_cuda.py\<close>

lemma uninstall_runs_simps [simp]:
  "uninstall_runs env [] = []"
  "uninstall_runs env (p # ps) = Run (uninstall_command env p) # uninstall_runs env ps"
  by (simp_all add: uninstall_runs_def)

lemma uninstall_loop_soft:
  assumes "case run_process env (effects w) (uninstall_command env p) of
             None \<Rightarrow> True | Some e \<Rightarrow> is_called_process_error e"
  shows "\<exists>w''. uninstall_loop env (p # ps) w = uninstall_loop env ps w''
           \<and> effects w'' = effects w @ [Run (uninstall_command env p)]
           \<and> files w'' = files w
           \<and> out w'' = out w @ [''Uninstalling '' @ p @ ''...'', uninstall_status env (effects w) p]"
proof (cases "run_process env (effects w) (uninstall_command env p)")
  case None
  let ?w'' = "print (ok_mark @ '' '' @ p @ '' uninstalled'')
                ((print (''Uninstalling '' @ p @ ''...'') w)
                   \<lparr>effects := effects w @ [Run (uninstall_command env p)]\<rparr>)"
  have "uninstall_loop env (p # ps) w = uninstall_loop env ps ?w''"
    using None by (simp add: subprocess_run_check Let_def)
  moreover have "effects ?w'' = effects w @ [Run (uninstall_command env p)]" "files ?w'' = files w"
    "out ?w'' = out w @ [''Uninstalling '' @ p @ ''...'', uninstall_status env (effects w) p]"
    using None by (simp_all add: uninstall_status_def)
  ultimately show ?thesis by blast
next
  case (Some e)
  with assms obtain err s where e: "e = CalledProcessError err s"
    by (cases e) simp_all
  let ?w'' = "print (warn_mark @ ''  '' @ p @ '' not found or already uninstalled'')
                ((print (''Uninstalling '' @ p @ ''...'') w)
                   \<lparr>effects := effects w @ [Run (uninstall_command env p)]\<rparr>)"
  have "uninstall_loop env (p # ps) w = uninstall_loop env ps ?w''"
    using Some e by (simp add: subprocess_run_check Let_def)
  moreover have "effects ?w'' = effects w @ [Run (uninstall_command env p)]" "files ?w'' = files w"
    "out ?w'' = out w @ [''Uninstalling '' @ p @ ''...'', uninstall_status env (effects w) p]"
    using Some by (simp_all add: uninstall_status_def)
  ultimately show ?thesis by blast
qed

lemma uninstall_loop_raise:
  assumes "run_process env (effects w) (uninstall_command env p) = Some e"
    and "\<not> is_called_process_error e"
  shows "fst (uninstall_loop env (p # ps) w) = Inl e"
    and "effects (snd (uninstall_loop env (p # ps) w)) = effects w @ [Run (uninstall_command env p)]"
    and "files (snd (uninstall_loop env (p # ps) w)) = files w"
    and "extends w (snd (uninstall_loop env (p # ps) w))"
  using assms
  by (cases e; simp add: subprocess_run_check Let_def extends_def)+

lemma uninstall_loop_spec:
  "\<exists>k \<le> length ps.
      effects (snd (uninstall_loop env ps w)) = effects w @ uninstall_runs env (take k ps)
    \<and> files (snd (uninstall_loop env ps w)) = files w
    \<and> extends w (snd (uninstall_loop env ps w))
    \<and> (ps \<noteq> [] \<longrightarrow> 0 < k)
    \<and> (fst (uninstall_loop env ps w) = Inr () \<longrightarrow> k = length ps)
    \<and> (\<forall>e. fst (uninstall_loop env ps w) = Inl e \<longrightarrow>
          0 < k
          \<and> run_process env (effects w @ uninstall_runs env (take (k - 1) ps))
               (uninstall_command env (ps ! (k - 1))) = Some e
          \<and> \<not> is_called_process_error e)
    \<and> (\<forall>j. Suc j < k \<or> (j < k \<and> fst (uninstall_loop env ps w) = Inr ()) \<longrightarrow>
          uninstall_status env (effects w @ uninstall_runs env (take j ps)) (ps ! j)
            \<in> set (new_out w (snd (uninstall_loop env ps w))))"
proof (induction ps arbitrary: w)
  case Nil
  show ?case by simp
next
  case (Cons p ps)
  let ?r = "uninstall_loop env (p # ps) w"
  consider (soft) "case run_process env (effects w) (uninstall_command env p) of
           None \<Rightarrow> True | Some e \<Rightarrow> is_called_process_error e"
    | (raise) e where "run_process env (effects w) (uninstall_command env p) = Some e"
        "\<not> is_called_process_error e"
    by (cases "run_process env (effects w) (uninstall_command env p)") auto
  then show ?case
  proof cases
    case (raise e)
    note facts = uninstall_loop_raise [OF raise, of ps]
    show ?thesis
      by (rule exI [of _ 1]) (simp add: facts raise del: uninstall_loop.simps)
  next
    case soft
    from uninstall_loop_soft [OF soft, of ps] obtain w'' where
      step: "uninstall_loop env (p # ps) w = uninstall_loop env ps w''"
      and eff: "effects w'' = effects w @ [Run (uninstall_command env p)]"
      and fil: "files w'' = files w"
      and ou: "out w'' = out w @ [''Uninstalling '' @ p @ ''...'', uninstall_status env (effects w) p]"
      by blast
    have ext: "extends w w''" using eff ou by (simp add: extends_def)
    from Cons.IH [of w''] obtain k where
      k: "k \<le> length ps"
      and ke: "effects (snd (uninstall_loop env ps w'')) = effects w'' @ uninstall_runs env (take k ps)"
      and kf: "files (snd (uninstall_loop env ps w'')) = files w''"
      and kx: "extends w'' (snd (uninstall_loop env ps w''))"
      and kall: "fst (uninstall_loop env ps w'') = Inr () \<longrightarrow> k = length ps"
      and kraise: "\<forall>e. fst (uninstall_loop env ps w'') = Inl e \<longrightarrow>
          0 < k
          \<and> run_process env (effects w'' @ uninstall_runs env (take (k - 1) ps))
               (uninstall_command env (ps ! (k - 1))) = Some e
          \<and> \<not> is_called_process_error e"
      and kstat: "\<forall>j. Suc j < k \<or> (j < k \<and> fst (uninstall_loop env ps w'') = Inr ()) \<longrightarrow>
          uninstall_status env (effects w'' @ uninstall_runs env (take j ps)) (ps ! j)
            \<in> set (new_out w'' (snd (uninstall_loop env ps w'')))"
      by blast
    have shift: "\<And>j. effects w'' @ uninstall_runs env (take j ps)
                   = effects w @ uninstall_runs env (take (Suc j) (p # ps))"
      by (simp add: eff)
    have no: "new_out w (snd ?r)
                = [''Uninstalling '' @ p @ ''...'', uninstall_status env (effects w) p]
                  @ new_out w'' (snd (uninstall_loop env ps w''))"
      unfolding step using new_out_trans [OF ext kx] ou by simp
    have a: "Suc k \<le> length (p # ps)" using k by simp
    have b: "effects (snd ?r) = effects w @ uninstall_runs env (take (Suc k) (p # ps))"
      unfolding step ke shift ..
    have c: "files (snd ?r) = files w" unfolding step kf fil ..
    have d: "extends w (snd ?r)" unfolding step using ext kx by (rule extends_trans)
    have e: "fst ?r = Inr () \<longrightarrow> Suc k = length (p # ps)"
      unfolding step using kall by simp
    have f: "\<forall>e. fst ?r = Inl e \<longrightarrow>
          0 < Suc k
          \<and> run_process env (effects w @ uninstall_runs env (take (Suc k - 1) (p # ps)))
               (uninstall_command env ((p # ps) ! (Suc k - 1))) = Some e
          \<and> \<not> is_called_process_error e"
    proof (intro allI impI)
      fix e assume "fst ?r = Inl e"
      then have t: "fst (uninstall_loop env ps w'') = Inl e" unfolding step .
      with kraise have k0: "0 < k"
        and r: "run_process env (effects w'' @ uninstall_runs env (take (k - 1) ps))
               (uninstall_command env (ps ! (k - 1))) = Some e"
        and n: "\<not> is_called_process_error e"
        by blast+
      from k0 obtain i where i: "k = Suc i" by (cases k) auto
      from r n show "0 < Suc k
          \<and> run_process env (effects w @ uninstall_runs env (take (Suc k - 1) (p # ps)))
               (uninstall_command env ((p # ps) ! (Suc k - 1))) = Some e
          \<and> \<not> is_called_process_error e"
        unfolding shift i by simp
    qed
    have g: "\<forall>j. Suc j < Suc k \<or> (j < Suc k \<and> fst ?r = Inr ()) \<longrightarrow>
          uninstall_status env (effects w @ uninstall_runs env (take j (p # ps))) ((p # ps) ! j)
            \<in> set (new_out w (snd ?r))"
    proof (intro allI impI)
      fix j assume j: "Suc j < Suc k \<or> (j < Suc k \<and> fst ?r = Inr ())"
      show "uninstall_status env (effects w @ uninstall_runs env (take j (p # ps))) ((p # ps) ! j)
            \<in> set (new_out w (snd ?r))"
      proof (cases j)
        case 0
        then show ?thesis unfolding no by simp
      next
        case (Suc i)
        with j have "Suc i < k \<or> (i < k \<and> fst (uninstall_loop env ps w'') = Inr ())"
          unfolding step by auto
        with kstat have "uninstall_status env (effects w'' @ uninstall_runs env (take i ps)) (ps ! i)
            \<in> set (new_out w'' (snd (uninstall_loop env ps w'')))"
          by blast
        then show ?thesis unfolding shift Suc no by simp
      qed
    qed
    from a b c d e f g show ?thesis by (intro exI [of _ "Suc k"]) simp
  qed
qed
section \<open>The main function of fix_pytorch_cuda.py\<close>

lemma uninstall_current_pytorch_spec:
  "\<exists>k \<le> length packages_to_remove. 0 < k
    \<and> effects (snd (uninstall_current_pytorch env w))
         = effects w @ uninstall_runs env (take k packages_to_remove)
    \<and> files (snd (uninstall_current_pytorch env w)) = files w
    \<and> extends w (snd (uninstall_current_pytorch env w))
    \<and> (fst (uninstall_current_pytorch env w) = Inr () \<longrightarrow> k = length packages_to_remove)
    \<and> (\<forall>e. fst (uninstall_current_pytorch env w) = Inl e \<longrightarrow>
          run_process env (effects w @ uninstall_runs env (take (k - 1) packages_to_remove))
               (uninstall_command env (packages_to_remove ! (k - 1))) = Some e
          \<and> \<not> is_called_process_error e)
    \<and> (\<forall>j. Suc j < k \<or> (j < k \<and> fst (uninstall_current_pytorch env w) = Inr ()) \<longrightarrow>
          uninstall_status env (effects w @ uninstall_runs env (take j packages_to_remove))
              (packages_to_remove ! j)
            \<in> set (new_out w (snd (uninstall_current_pytorch env w))))"
proof -
  let ?w0 = "print (nl @ ''=== Uninstalling Current PyTorch ==='') w"
  let ?r = "uninstall_loop env packages_to_remove ?w0"
  from uninstall_loop_spec [of packages_to_remove env ?w0] obtain k where
    k: "k \<le> length packages_to_remove"
    and ke: "effects (snd ?r) = effects ?w0 @ uninstall_runs env (take k packages_to_remove)"
    and kf: "files (snd ?r) = files ?w0"
    and kx: "extends ?w0 (snd ?r)"
    and k0: "packages_to_remove \<noteq> [] \<longrightarrow> 0 < k"
    and kall: "fst ?r = Inr () \<longrightarrow> k = length packages_to_remove"
    and kraise: "\<forall>e. fst ?r = Inl e \<longrightarrow>
          0 < k
          \<and> run_process env (effects ?w0 @ uninstall_runs env (take (k - 1) packages_to_remove))
               (uninstall_command env (packages_to_remove ! (k - 1))) = Some e
          \<and> \<not> is_called_process_error e"
    and kstat: "\<forall>j. Suc j < k \<or> (j < k \<and> fst ?r = Inr ()) \<longrightarrow>
          uninstall_status env (effects ?w0 @ uninstall_runs env (take j packages_to_remove))
              (packages_to_remove ! j)
            \<in> set (new_out ?w0 (snd ?r))"
    by blast
  have x: "extends w (snd ?r)"
    using extends_print kx by (rule extends_trans)
  have no: "new_out w (snd ?r) = [nl @ ''=== Uninstalling Current PyTorch ===''] @ new_out ?w0 (snd ?r)"
    using new_out_trans [OF extends_print kx] by simp
  have pos: "0 < k" using k0 by (simp add: packages_to_remove_def)
  from k pos ke kf x kall kraise kstat no show ?thesis
    unfolding uninstall_current_pytorch_def by (intro exI [of _ k]) simp
qed

lemma install_cuda_pytorch_spec:
  "\<exists>k \<le> length cuda_configs. 0 < k
    \<and> effects (snd (install_cuda_pytorch env w)) = effects w @ install_runs env (take k cuda_configs)
    \<and> files (snd (install_cuda_pytorch env w)) = files w
    \<and> extends w (snd (install_cuda_pytorch env w))
    \<and> (\<forall>j. Suc j < k \<longrightarrow>
          \<not> install_attempt_ok env (effects w @ install_runs env (take j cuda_configs))
               (cuda_configs ! j))
    \<and> (fst (install_cuda_pytorch env w) = Inr True \<longrightarrow>
          install_attempt_ok env (effects w @ install_runs env (take (k - 1) cuda_configs))
             (cuda_configs ! (k - 1))
          \<and> out (snd (install_cuda_pytorch env w)) \<noteq> []
          \<and> last (out (snd (install_cuda_pytorch env w))) = success_line (cuda_configs ! (k - 1)))
    \<and> (fst (install_cuda_pytorch env w) = Inr False \<longrightarrow>
          k = length cuda_configs
          \<and> (\<forall>j < k. \<not> install_attempt_ok env
                 (effects w @ install_runs env (take j cuda_configs)) (cuda_configs ! j)))
    \<and> (\<forall>e. fst (install_cuda_pytorch env w) = Inl e \<longrightarrow>
          run_process env (effects w @ install_runs env (take (k - 1) cuda_configs))
               (install_command env (cuda_configs ! (k - 1))) = Some e
          \<and> \<not> is_called_process_error e)"
proof -
  let ?w0 = "print (nl @ ''=== Installing CUDA-enabled PyTorch 2.6.0 ==='') w"
  let ?r = "install_loop env cuda_configs ?w0"
  from install_loop_spec [of cuda_configs env ?w0] obtain k where
    k: "k \<le> length cuda_configs"
    and ke: "effects (snd ?r) = effects ?w0 @ install_runs env (take k cuda_configs)"
    and kf: "files (snd ?r) = files ?w0"
    and kx: "extends ?w0 (snd ?r)"
    and kfail: "\<forall>j. Suc j < k \<longrightarrow>
          \<not> install_attempt_ok env (effects ?w0 @ install_runs env (take j cuda_configs))
               (cuda_configs ! j)"
    and ktrue: "fst ?r = Inr True \<longrightarrow>
          0 < k
          \<and> install_attempt_ok env (effects ?w0 @ install_runs env (take (k - 1) cuda_configs))
               (cuda_configs ! (k - 1))
          \<and> out (snd ?r) \<noteq> []
          \<and> last (out (snd ?r)) = success_line (cuda_configs ! (k - 1))"
    and kfalse: "fst ?r = Inr False \<longrightarrow>
          k = length cuda_configs
          \<and> (\<forall>j < k. \<not> install_attempt_ok env
                (effects ?w0 @ install_runs env (take j cuda_configs)) (cuda_configs ! j))"
    and kraise: "\<forall>e. fst ?r = Inl e \<longrightarrow>
          0 < k
          \<and> run_process env (effects ?w0 @ install_runs env (take (k - 1) cuda_configs))
               (install_command env (cuda_configs ! (k - 1))) = Some e
          \<and> \<not> is_called_process_error e"
    by blast
  have x: "extends w (snd ?r)"
    using extends_print kx by (rule extends_trans)
  have pos: "0 < k"
  proof (cases "fst ?r")
    case (Inl e)
    with kraise show ?thesis by blast
  next
    case (Inr b)
    with ktrue kfalse show ?thesis by (cases b) (auto simp: cuda_configs_def)
  qed
  from k pos ke kf x kfail ktrue kfalse kraise show ?thesis
    unfolding install_cuda_pytorch_def by (intro exI [of _ k]) simp
qed

lemma uninstall_no_raise:
  assumes "soft_pip env"
  shows "fst (uninstall_current_pytorch env w) = Inr ()"
proof (cases "fst (uninstall_current_pytorch env w)")
  case (Inl e)
  with uninstall_current_pytorch_spec [of env w] obtain es args where
    "run_process env es args = Some e" "\<not> is_called_process_error e"
    by blast
  with assms show ?thesis by (auto simp: soft_pip_def)
next
  case (Inr u)
  then show ?thesis by simp
qed

lemma install_no_raise:
  assumes "soft_pip env"
  shows "\<exists>b. fst (install_cuda_pytorch env w) = Inr b"
proof (cases "fst (install_cuda_pytorch env w)")
  case (Inl e)
  with install_cuda_pytorch_spec [of env w] obtain es args where
    "run_process env es args = Some e" "\<not> is_called_process_error e"
    by blast
  with assms show ?thesis by (auto simp: soft_pip_def)
next
  case (Inr b)
  then show ?thesis by blast
qed

lemma fix_process_completes:
  assumes "soft_pip env"
  shows "fst (fix_process env w) = Inr ()"
    and "\<exists>pre. out (snd (fix_process env w)) = pre @ next_steps"
proof -
  let ?w0 = "print (nl @ wrench_mark @ '' CUDA not available. Starting fix process...'') w"
  obtain w1 where u: "uninstall_current_pytorch env ?w0 = (Inr (), w1)"
    using uninstall_no_raise [OF assms, of ?w0]
    by (cases "uninstall_current_pytorch env ?w0") auto
  obtain b w2 where i: "install_cuda_pytorch env w1 = (Inr b, w2)"
    using install_no_raise [OF assms, of w1]
    by (cases "install_cuda_pytorch env w1") auto
  show "fst (fix_process env w) = Inr ()"
    using u i by (cases b) (simp_all add: fix_process_def Let_def split: prod.splits)
  show "\<exists>pre. out (snd (fix_process env w)) = pre @ next_steps"
    using u i by (cases b) (simp_all add: fix_process_def Let_def split: prod.splits)
qed
lemma main_check_installed:
  assumes "import_torch env (effects w) = Inr t"
  shows "\<exists>w1. check_current_pytorch env
                 (prints [''PyTorch CUDA Fix for Python 3.13'', rule50,
                          ''Checking current PyTorch installation...''] w) = (Inr True, w1)
           \<and> effects w1 = effects w \<and> files w1 = files w \<and> extends w w1"
proof -
  let ?w = "prints [''PyTorch CUDA Fix for Python 3.13'', rule50,
                    ''Checking current PyTorch installation...''] w"
  define w1 where "w1 = snd (check_current_pytorch env ?w)"
  have "fst (check_current_pytorch env ?w) = Inr True"
    using assms by (simp add: check_current_pytorch_result)
  then have "check_current_pytorch env ?w = (Inr True, w1)"
    by (simp add: w1_def prod_eq_iff)
  moreover have "effects w1 = effects w" "files w1 = files w"
    by (simp_all add: w1_def)
  moreover have "extends w w1"
    unfolding w1_def using extends_prints check_current_pytorch_extends by (rule extends_trans)
  ultimately show ?thesis by blast
qed

lemma main_cuda_already_working:
  assumes "import_torch env (effects w) = Inr t" "cuda_available t"
  shows "fst (fix_pytorch_cuda_main env w) = Inr ()"
    and "effects (snd (fix_pytorch_cuda_main env w)) = effects w"
    and "files (snd (fix_pytorch_cuda_main env w)) = files w"
proof -
  from main_check_installed [OF assms(1)] obtain w1 where
    c: "check_current_pytorch env
          (prints [''PyTorch CUDA Fix for Python 3.13'', rule50,
                   ''Checking current PyTorch installation...''] w) = (Inr True, w1)"
    and e: "effects w1 = effects w" and f: "files w1 = files w"
    by blast
  have eq: "fix_pytorch_cuda_main env w =
      (Inr (), snd (test_installation env
                     (print (ok_mark @ '' CUDA is already working! No fix needed.'') w1)))"
    using assms c e by (simp add: fix_pytorch_cuda_main_def Let_def del: prints.simps)
  show "fst (fix_pytorch_cuda_main env w) = Inr ()"
    and "effects (snd (fix_pytorch_cuda_main env w)) = effects w"
    and "files (snd (fix_pytorch_cuda_main env w)) = files w"
    unfolding eq by (simp_all add: e f)
qed

lemma main_starts_fix:
  assumes "import_torch env (effects w) = Inr t" "\<not> cuda_available t"
  shows "\<exists>w1. fix_pytorch_cuda_main env w = fix_process env w1
           \<and> effects w1 = effects w \<and> files w1 = files w \<and> extends w w1"
proof -
  from main_check_installed [OF assms(1)] obtain w1 where
    c: "check_current_pytorch env
          (prints [''PyTorch CUDA Fix for Python 3.13'', rule50,
                   ''Checking current PyTorch installation...''] w) = (Inr True, w1)"
    and e: "effects w1 = effects w" and f: "files w1 = files w" and x: "extends w w1"
    by blast
  have "fix_pytorch_cuda_main env w = fix_process env w1"
    using assms c e by (simp add: fix_pytorch_cuda_main_def Let_def del: prints.simps)
  with e f x show ?thesis by blast
qed

lemma main_pytorch_missing:
  assumes "import_torch env (effects w) = Inl (ImportError m)"
  shows "fst (fix_pytorch_cuda_main env w) = Inr ()"
    and "effects (snd (fix_pytorch_cuda_main env w)) = effects w"
    and "last (out (snd (fix_pytorch_cuda_main env w)))
           = cross_mark @ '' PyTorch not found. Please run the main fix script first.''"
  using assms
  by (simp_all add: fix_pytorch_cuda_main_def check_current_pytorch_def Let_def)

lemma uninstall_has_effect: "new_effects w (snd (uninstall_current_pytorch env w)) \<noteq> []"
proof -
  from uninstall_current_pytorch_spec [of env w] obtain k where
    "0 < k" "k \<le> length packages_to_remove"
    "effects (snd (uninstall_current_pytorch env w))
       = effects w @ uninstall_runs env (take k packages_to_remove)"
    by blast
  then show ?thesis by (cases k) (simp_all add: packages_to_remove_def)
qed

lemma install_has_effect: "new_effects w (snd (install_cuda_pytorch env w)) \<noteq> []"
proof -
  from install_cuda_pytorch_spec [of env w] obtain k where
    "0 < k" "k \<le> length cuda_configs"
    "effects (snd (install_cuda_pytorch env w))
       = effects w @ install_runs env (take k cuda_configs)"
    by blast
  then show ?thesis by (cases k) (simp_all add: cuda_configs_def)
qed

section \<open>fix_grey_images.py: what each function does to the world\<close>

lemma rule50_unfold:
  "rule50 = CHR ''='' # CHR ''='' # CHR ''='' # CHR ''='' # replicate 46 (CHR ''='')"
  by (simp add: rule50_def numeral_eq_Suc)

lemma not_banner_marks [simp]:
  "\<not> is_configure_banner (ok_mark @ x)"
  "\<not> is_configure_banner (cross_mark @ x)"
  "\<not> is_configure_banner (warn_mark @ x)"
  "\<not> is_configure_banner (nl @ ok_mark @ x)"
  "\<not> is_configure_banner (nl @ cross_mark @ x)"
  "\<not> is_configure_banner (nl @ cycle_mark @ x)"
  "\<not> is_configure_banner (nl @ rule50)"
  "\<not> is_configure_banner rule50"
  by (simp_all add: is_configure_banner_def nl_def ok_mark_def cross_mark_def warn_mark_def
        cycle_mark_def rule50_unfold)

lemma leaves_config_refl [simp]: "leaves_config w w"
  by (simp add: leaves_config_def)

lemma leaves_config_trans:
  "leaves_config w w' \<Longrightarrow> leaves_config w' w'' \<Longrightarrow> leaves_config w w''"
  unfolding leaves_config_def by (elim conjE exE) (simp, blast)

lemma leaves_config_print:
  "\<not> is_configure_banner s \<Longrightarrow> leaves_config w (print s w)"
  by (simp add: leaves_config_def)

lemma leaves_config_prints:
  "\<forall>s \<in> set ss. \<not> is_configure_banner s \<Longrightarrow> leaves_config w (prints ss w)"
  by (simp add: leaves_config_def)

lemma leaves_config_print_after:
  "leaves_config w w' \<Longrightarrow> \<not> is_configure_banner s \<Longrightarrow> leaves_config w (print s w')"
  by (blast intro: leaves_config_trans leaves_config_print)

lemma leaves_config_prints_after:
  "leaves_config w w' \<Longrightarrow> \<forall>s \<in> set ss. \<not> is_configure_banner s \<Longrightarrow>
     leaves_config w (prints ss w')"
  by (blast intro: leaves_config_trans leaves_config_prints)

lemma leaves_config_extends: "leaves_config w w' \<Longrightarrow> extends w w'"
  by (auto simp: leaves_config_def extends_def)

lemma check_current_vae_config_effects [simp]:
  "effects (snd (check_current_vae_config env w)) = effects w"
  by (simp add: check_current_vae_config_def Let_def split: sum.splits)

lemma check_current_vae_config_files [simp]:
  "files (snd (check_current_vae_config env w)) = files w"
  by (simp add: check_current_vae_config_def Let_def split: sum.splits)

lemma check_current_vae_config_leaves:
  "leaves_config w (snd (check_current_vae_config env w))"
  by (simp add: check_current_vae_config_def Let_def leaves_config_def is_configure_banner_def
        nl_def cross_mark_def ok_mark_def split: sum.splits)

lemma check_available_vaes_result:
  "fst (check_available_vaes env w) = found_vaes env (effects w)"
  by (simp add: check_available_vaes_def found_vaes_def Let_def)

lemma check_available_vaes_effects [simp]:
  "effects (snd (check_available_vaes env w)) = effects w"
  by (simp add: check_available_vaes_def Let_def)

lemma check_available_vaes_files [simp]:
  "files (snd (check_available_vaes env w)) = files w"
  by (simp add: check_available_vaes_def Let_def)

lemma check_available_vaes_leaves:
  "leaves_config w (snd (check_available_vaes env w))"
  by (auto simp: check_available_vaes_def Let_def leaves_config_def is_configure_banner_def
        nl_def cross_mark_def ok_mark_def)

lemma test_vae_configuration_effects [simp]:
  "effects (snd (test_vae_configuration env w)) = effects w"
  by (simp add: test_vae_configuration_def Let_def split: sum.splits option.splits)

lemma test_vae_configuration_files [simp]:
  "files (snd (test_vae_configuration env w)) = files w"
  by (simp add: test_vae_configuration_def Let_def split: sum.splits option.splits)

lemma test_vae_configuration_leaves:
  "leaves_config w (snd (test_vae_configuration env w))"
  by (simp add: test_vae_configuration_def Let_def leaves_config_def is_configure_banner_def
        nl_def cross_mark_def ok_mark_def split: sum.splits option.splits)

lemma create_vae_fix_launch_script_leaves:
  "leaves_config w (snd (create_vae_fix_launch_script env w))"
  by (simp add: create_vae_fix_launch_script_def Let_def leaves_config_def is_configure_banner_def
        write_text_def nl_def cross_mark_def ok_mark_def script_filename_def ui_config_file_def
        split: option.splits)
lemma path_name_vae_path: "path_name vae_path = vae_filename"
  by (simp add: path_name_def vae_path_def path_join_def vae_filename_def)

lemma vae_path_nonempty: "vae_path \<noteq> []"
  by (simp add: vae_path_def path_join_def)

text \<open>The four ways \<open>download_recommended_vae\<close> can end.\<close>

lemma download_mkdir_failed:
  assumes "mkdir_error env (effects w) ''models/VAE'' = Some e"
  shows "fst (download_recommended_vae env w) = Inl e"
  using assms by (simp add: download_recommended_vae_def Let_def)

lemma download_already_there:
  assumes "mkdir_error env (effects w) ''models/VAE'' = None"
    and "path_exists env (effects w @ [Mkdir ''models/VAE'']) vae_path"
  shows "fst (download_recommended_vae env w) = Inr (Some vae_path)"
    and "effects (snd (download_recommended_vae env w)) = effects w @ [Mkdir ''models/VAE'']"
  using assms by (simp_all add: download_recommended_vae_def Let_def)

lemma download_succeeded:
  assumes "mkdir_error env (effects w) ''models/VAE'' = None"
    and "\<not> path_exists env (effects w @ [Mkdir ''models/VAE'']) vae_path"
    and "download_error env (effects w @ [Mkdir ''models/VAE'']) vae_url vae_path = None"
  shows "fst (download_recommended_vae env w) = Inr (Some vae_path)"
    and "effects (snd (download_recommended_vae env w))
           = effects w @ [Mkdir ''models/VAE'', Download vae_url vae_path]"
  using assms by (simp_all add: download_recommended_vae_def Let_def)

lemma download_failed:
  assumes "mkdir_error env (effects w) ''models/VAE'' = None"
    and "\<not> path_exists env (effects w @ [Mkdir ''models/VAE'']) vae_path"
    and "download_error env (effects w @ [Mkdir ''models/VAE'']) vae_url vae_path = Some e"
  shows "fst (download_recommended_vae env w) = Inr None"
    and "effects (snd (download_recommended_vae env w))
           = effects w @ [Mkdir ''models/VAE'', Download vae_url vae_path]"
    and "out (snd (download_recommended_vae env w))
           = out w @ [nl @ ''=== Downloading Recommended VAE ==='',
                      ''Downloading VAE: '' @ vae_filename,
                      ''This may take a few minutes...'',
                      nl @ cross_mark @ '' Failed to download VAE: '' @ exn_str e]"
  using assms by (simp_all add: download_recommended_vae_def Let_def)

lemma download_files [simp]: "files (snd (download_recommended_vae env w)) = files w"
  by (simp add: download_recommended_vae_def Let_def split: option.splits)

lemma download_result_path:
  "fst (download_recommended_vae env w) = Inr (Some p) \<Longrightarrow> p = vae_path"
  by (simp add: download_recommended_vae_def Let_def split: option.splits if_splits)

lemma download_leaves: "leaves_config w (snd (download_recommended_vae env w))"
  by (simp add: download_recommended_vae_def Let_def leaves_config_def is_configure_banner_def
        nl_def cross_mark_def ok_mark_def split: option.splits)

lemma grey_apply_summary: "\<exists>pre. out (grey_apply env b v w) = pre @ grey_summary v"
  by (simp add: grey_apply_def Let_def)

lemma grey_summary_no_banner: "\<forall>l \<in> set (grey_summary v). \<not> is_configure_banner l"
  by (simp add: grey_summary_def) (simp add: is_configure_banner_def nl_def)

lemma grey_apply_configured_leaves: "leaves_config w (grey_apply env True v w)"
proof -
  let ?w2 = "snd (create_vae_fix_launch_script env w)"
  let ?w3 = "snd (test_vae_configuration env ?w2)"
  have "leaves_config w ?w3"
    using create_vae_fix_launch_script_leaves test_vae_configuration_leaves
    by (rule leaves_config_trans)
  then have "leaves_config w (prints (grey_summary v) ?w3)"
    using grey_summary_no_banner by (rule leaves_config_prints_after)
  then show ?thesis by (simp add: grey_apply_def Let_def)
qed

text \<open>\<open>main\<close> up to the point where it knows whether a VAE file is there.\<close>

lemma grey_main_start:
  "\<exists>w2. leaves_config w w2 \<and> effects w2 = effects w \<and> files w2 = files w
     \<and> fix_grey_images_main env w =
        (let vae_configured =
               fst (check_current_vae_config env
                      (prints [''Grey Image Fix for Stable Diffusion WebUI'', rule50] w))
         in case found_vaes env (effects w) of
              [] \<Rightarrow>
                (let w3 = print (nl @ cycle_mark
                                   @ '' No VAE files found. Downloading recommended VAE...'') w2
                 in case download_recommended_vae env w3 of
                      (Inl e, w4) \<Rightarrow> (Inl e, w4)
                    | (Inr downloaded, w4) \<Rightarrow>
                        (case downloaded of
                           Some p \<Rightarrow>
                             (if p \<noteq> []
                              then (Inr (), grey_apply env vae_configured (path_name p) w4)
                              else (Inr (),
                                    print (cross_mark
                                      @ '' Failed to download VAE. Please download manually.'') w4))
                         | None \<Rightarrow>
                             (Inr (),
                              print (cross_mark
                                @ '' Failed to download VAE. Please download manually.'') w4)))
            | vae_name # others \<Rightarrow>
                (Inr (),
                 grey_apply env vae_configured vae_name
                   (print (nl @ ok_mark @ '' Using existing VAE: '' @ vae_name) w2)))"
proof -
  let ?wp = "prints [''Grey Image Fix for Stable Diffusion WebUI'', rule50] w"
  let ?w1 = "snd (check_current_vae_config env ?wp)"
  let ?w2 = "snd (check_available_vaes env ?w1)"
  have "leaves_config w ?wp"
    by (rule leaves_config_prints) (simp, simp add: is_configure_banner_def nl_def)
  then have "leaves_config w ?w1"
    using check_current_vae_config_leaves by (rule leaves_config_trans)
  then have l: "leaves_config w ?w2"
    using check_available_vaes_leaves by (rule leaves_config_trans)
  have e: "effects ?w2 = effects w" "files ?w2 = files w" by simp_all
  have f: "fst (check_available_vaes env ?w1) = found_vaes env (effects w)"
    by (simp add: check_available_vaes_result)
  have "fix_grey_images_main env w =
        (let vae_configured = fst (check_current_vae_config env ?wp)
         in case found_vaes env (effects w) of
              [] \<Rightarrow>
                (let w3 = print (nl @ cycle_mark
                                   @ '' No VAE files found. Downloading recommended VAE...'') ?w2
                 in case download_recommended_vae env w3 of
                      (Inl e, w4) \<Rightarrow> (Inl e, w4)
                    | (Inr downloaded, w4) \<Rightarrow>
                        (case downloaded of
                           Some p \<Rightarrow>
                             (if p \<noteq> []
                              then (Inr (), grey_apply env vae_configured (path_name p) w4)
                              else (Inr (),
                                    print (cross_mark
                                      @ '' Failed to download VAE. Please download manually.'') w4))
                         | None \<Rightarrow>
                             (Inr (),
                              print (cross_mark
                                @ '' Failed to download VAE. Please download manually.'') w4)))
            | vae_name # others \<Rightarrow>
                (Inr (),
                 grey_apply env vae_configured vae_name
                   (print (nl @ ok_mark @ '' Using existing VAE: '' @ vae_name) ?w2)))"
    unfolding fix_grey_images_main_def Let_def f [symmetric]
    by (simp only: split_beta)
  with l e show ?thesis by blast
qed

lemma configure_not_dict_out:
  "read_current_config env w = Inr j \<Longrightarrow> \<forall>d. j \<noteq> JDict d \<Longrightarrow>
     \<exists>rest. out (snd (configure_vae_in_ui_config env v w))
            = out w @ (nl @ ''=== Configuring VAE: '' @ v @ '' ==='') # rest"
  by (cases j) (simp_all add: configure_vae_in_ui_config_def Let_def)

lemma configure_prints_banner:
  "\<exists>rest. out (snd (configure_vae_in_ui_config env v w))
            = out w @ (nl @ ''=== Configuring VAE: '' @ v @ '' ==='') # rest"
proof (cases rule: configure_cases [of env w])
  case (read_failed e)
  then show ?thesis by (simp add: configure_read_failed)
next
  case (not_dict j)
  then show ?thesis by (rule configure_not_dict_out)
next
  case (refused d e)
  then show ?thesis by (simp add: configure_write_refused)
next
  case (written d)
  then show ?thesis by (simp add: configure_written)
qed

lemma configure_banner_is_banner: "is_configure_banner (nl @ ''=== Configuring VAE: '' @ v @ '' ==='')"
  by (simp add: is_configure_banner_def nl_def)

lemma grey_main_configured_leaves:
  assumes "fst (check_current_vae_config env
                  (prints [''Grey Image Fix for Stable Diffusion WebUI'', rule50] w))"
  shows "leaves_config w (snd (fix_grey_images_main env w))"
proof -
  from grey_main_start [of w env] obtain w2 where
    l: "leaves_config w w2"
    and m0: "fix_grey_images_main env w =
        (let vae_configured =
               fst (check_current_vae_config env
                      (prints [''Grey Image Fix for Stable Diffusion WebUI'', rule50] w))
         in case found_vaes env (effects w) of
              [] \<Rightarrow>
                (let w3 = print (nl @ cycle_mark
                                   @ '' No VAE files found. Downloading recommended VAE...'') w2
                 in case download_recommended_vae env w3 of
                      (Inl e, w4) \<Rightarrow> (Inl e, w4)
                    | (Inr downloaded, w4) \<Rightarrow>
                        (case downloaded of
                           Some p \<Rightarrow>
                             (if p \<noteq> []
                              then (Inr (), grey_apply env vae_configured (path_name p) w4)
                              else (Inr (),
                                    print (cross_mark
                                      @ '' Failed to download VAE. Please download manually.'') w4))
                         | None \<Rightarrow>
                             (Inr (),
                              print (cross_mark
                                @ '' Failed to download VAE. Please download manually.'') w4)))
            | vae_name # others \<Rightarrow>
                (Inr (),
                 grey_apply env vae_configured vae_name
                   (print (nl @ ok_mark @ '' Using existing VAE: '' @ vae_name) w2)))"
    by blast
  have b: "fst (check_current_vae_config env
                  (prints [''Grey Image Fix for Stable Diffusion WebUI'', rule50] w)) = True"
    using assms by simp
  note m = m0 [unfolded Let_def b]
  show ?thesis
  proof (cases "found_vaes env (effects w)")
    case (Cons v vs)
    have "leaves_config w (print (nl @ ok_mark @ '' Using existing VAE: '' @ v) w2)"
      using l by (rule leaves_config_print_after) simp
    then have "leaves_config w
                 (grey_apply env True v (print (nl @ ok_mark @ '' Using existing VAE: '' @ v) w2))"
      using grey_apply_configured_leaves by (rule leaves_config_trans)
    then show ?thesis unfolding m Cons by simp
  next
    case Nil
    let ?w3 = "print (nl @ cycle_mark @ '' No VAE files found. Downloading recommended VAE...'') w2"
    let ?w4 = "snd (download_recommended_vae env ?w3)"
    have "leaves_config w ?w3" using l by (rule leaves_config_print_after) simp
    then have l4: "leaves_config w ?w4" using download_leaves by (rule leaves_config_trans)
    have l5: "leaves_config w
                (print (cross_mark @ '' Failed to download VAE. Please download manually.'') ?w4)"
      using l4 by (rule leaves_config_print_after) simp
    have l6: "\<And>v. leaves_config w (grey_apply env True v ?w4)"
      using l4 grey_apply_configured_leaves by (rule leaves_config_trans)
    show ?thesis
      unfolding m Nil using l4 l5 l6
      by (cases "download_recommended_vae env ?w3")
         (auto simp: Let_def split: sum.splits option.splits)
  qed
qed

text \<open>
  Claim C3: a guarded fix is not applied when its guard says it is not needed.
  In \<open>fix_pytorch_cuda.main\<close>, when PyTorch imports and \<open>torch.cuda.is_available()\<close> is
  true, the run has no effect on the host at all; \<open>uninstall_current_pytorch\<close> and
  \<open>install_cuda_pytorch\<close> each start at least one pip command whenever they are called, so
  neither was called. In \<open>fix_grey_images.main\<close>, when \<open>check_current_vae_config\<close> returned
  \<open>True\<close>, the run prints no banner of \<open>configure_vae_in_ui_config\<close> (which that function
  prints first, whenever it is called), writes nothing to \<open>ui-config.json\<close> and leaves the
  file as it was.
\<close>

theorem guards_respected:
  "(import_torch env (effects w) = Inr t \<and> cuda_available t \<longrightarrow>
      fst (fix_pytorch_cuda_main env w) = Inr ()
      \<and> new_effects w (snd (fix_pytorch_cuda_main env w)) = []
      \<and> files (snd (fix_pytorch_cuda_main env w)) = files w)
   \<and> new_effects w (snd (uninstall_current_pytorch env w)) \<noteq> []
   \<and> new_effects w (snd (install_cuda_pytorch env w)) \<noteq> []
   \<and> (fst (check_current_vae_config env
              (prints [''Grey Image Fix for Stable Diffusion WebUI'', rule50] w)) \<longrightarrow>
        leaves_config w (snd (fix_grey_images_main env w)))
   \<and> is_configure_banner (hd (new_out w (snd (configure_vae_in_ui_config env v w))))"
proof (intro conjI impI)
  assume "import_torch env (effects w) = Inr t \<and> cuda_available t"
  then have a: "import_torch env (effects w) = Inr t" and b: "cuda_available t" by simp_all
  show "fst (fix_pytorch_cuda_main env w) = Inr ()"
    by (rule main_cuda_already_working [OF a b])
  show "new_effects w (snd (fix_pytorch_cuda_main env w)) = []"
    by (simp add: new_effects_def main_cuda_already_working [OF a b])
  show "files (snd (fix_pytorch_cuda_main env w)) = files w"
    by (rule main_cuda_already_working [OF a b])
next
  show "new_effects w (snd (uninstall_current_pytorch env w)) \<noteq> []"
    by (rule uninstall_has_effect)
  show "new_effects w (snd (install_cuda_pytorch env w)) \<noteq> []"
    by (rule install_has_effect)
next
  assume "fst (check_current_vae_config env
                 (prints [''Grey Image Fix for Stable Diffusion WebUI'', rule50] w))"
  then show "leaves_config w (snd (fix_grey_images_main env w))"
    by (rule grey_main_configured_leaves)
next
  from configure_prints_banner [of env v w] obtain rest where
    "out (snd (configure_vae_in_ui_config env v w))
       = out w @ (nl @ ''=== Configuring VAE: '' @ v @ '' ==='') # rest"
    by blast
  then have "new_out w (snd (configure_vae_in_ui_config env v w))
               = (nl @ ''=== Configuring VAE: '' @ v @ '' ==='') # rest"
    by (rule new_out_append)
  then show "is_configure_banner (hd (new_out w (snd (configure_vae_in_ui_config env v w))))"
    by (simp add: is_configure_banner_def nl_def)
qed

lemma configured_world_check:
  "fst (check_current_vae_config host_configured
          (prints [''Grey Image Fix for Stable Diffusion WebUI'', rule50] configured_world))"
  by (simp add: check_current_vae_config_def Let_def file_exists_def json_load_def
        read_text_locale_def read_text_def host_configured_def host_ok_def configured_world_def ui_config_file_def txt2img_key_def
        img2img_key_def)

theorem guards_respected_witness:
  "import_torch host_ok (effects empty_world) = Inr torch_gpu \<and> cuda_available torch_gpu
   \<and> fst (fix_pytorch_cuda_main host_ok empty_world) = Inr ()
   \<and> new_effects empty_world (snd (fix_pytorch_cuda_main host_ok empty_world)) = []
   \<and> files (snd (fix_pytorch_cuda_main host_ok empty_world)) = files empty_world
   \<and> fst (check_current_vae_config host_configured
             (prints [''Grey Image Fix for Stable Diffusion WebUI'', rule50] configured_world))
   \<and> leaves_config configured_world (snd (fix_grey_images_main host_configured configured_world))"
proof -
  have a: "import_torch host_ok (effects empty_world) = Inr torch_gpu \<and> cuda_available torch_gpu"
    by (simp add: host_ok_def torch_gpu_def)
  from guards_respected [of host_ok empty_world torch_gpu]
       guards_respected [of host_configured configured_world] a configured_world_check
  show ?thesis by blast
qed

section \<open>How the main functions end\<close>

lemma exit_code_Inr: "fst r = Inr u \<Longrightarrow> exit_code r = 0"
  by (simp add: exit_code_def)

lemma grey_main_existing_vae:
  assumes "found_vaes env (effects w) = v # vs"
  shows "fst (fix_grey_images_main env w) = Inr ()"
    and "\<exists>pre. out (snd (fix_grey_images_main env w)) = pre @ grey_summary v"
proof -
  from grey_main_start [of w env] obtain w2 b where
    m: "fix_grey_images_main env w =
          (Inr (), grey_apply env b v (print (nl @ ok_mark @ '' Using existing VAE: '' @ v) w2))"
    unfolding assms Let_def by auto
  show "fst (fix_grey_images_main env w) = Inr ()" unfolding m by simp
  show "\<exists>pre. out (snd (fix_grey_images_main env w)) = pre @ grey_summary v"
    unfolding m snd_conv by (rule grey_apply_summary)
qed

lemma grey_main_no_vae:
  assumes "found_vaes env (effects w) = []"
  shows "\<exists>w3. effects w3 = effects w \<and> files w3 = files w \<and>
     (\<exists>b. fix_grey_images_main env w =
        (case download_recommended_vae env w3 of
           (Inl e, w4) \<Rightarrow> (Inl e, w4)
         | (Inr downloaded, w4) \<Rightarrow>
             (case downloaded of
                Some p \<Rightarrow>
                  (if p \<noteq> []
                   then (Inr (), grey_apply env b (path_name p) w4)
                   else (Inr (),
                         print (cross_mark
                           @ '' Failed to download VAE. Please download manually.'') w4))
              | None \<Rightarrow>
                  (Inr (),
                   print (cross_mark
                     @ '' Failed to download VAE. Please download manually.'') w4))))"
proof -
  from grey_main_start [of w env] obtain w2 where
    e: "effects w2 = effects w" "files w2 = files w"
    and m: "fix_grey_images_main env w =
        (case download_recommended_vae env
                (print (nl @ cycle_mark
                          @ '' No VAE files found. Downloading recommended VAE...'') w2) of
           (Inl e, w4) \<Rightarrow> (Inl e, w4)
         | (Inr downloaded, w4) \<Rightarrow>
             (case downloaded of
                Some p \<Rightarrow>
                  (if p \<noteq> []
                   then (Inr (),
                         grey_apply env
                           (fst (check_current_vae_config env
                              (prints [''Grey Image Fix for Stable Diffusion WebUI'', rule50] w)))
                           (path_name p) w4)
                   else (Inr (),
                         print (cross_mark
                           @ '' Failed to download VAE. Please download manually.'') w4))
              | None \<Rightarrow>
                  (Inr (),
                   print (cross_mark
                     @ '' Failed to download VAE. Please download manually.'') w4)))"
    unfolding assms Let_def list.case by blast
  let ?w3 = "print (nl @ cycle_mark @ '' No VAE files found. Downloading recommended VAE...'') w2"
  have "effects ?w3 = effects w" "files ?w3 = files w" using e by simp_all
  with m show ?thesis by blast
qed

lemma grey_main_downloaded:
  assumes "found_vaes env (effects w) = []"
    and "mkdir_error env (effects w) ''models/VAE'' = None"
    and "path_exists env (effects w @ [Mkdir ''models/VAE'']) vae_path
         \<or> download_error env (effects w @ [Mkdir ''models/VAE'']) vae_url vae_path = None"
  shows "fst (fix_grey_images_main env w) = Inr ()"
    and "\<exists>pre. out (snd (fix_grey_images_main env w)) = pre @ grey_summary vae_filename"
proof -
  from grey_main_no_vae [OF assms(1)] obtain w3 b where
    e: "effects w3 = effects w"
    and m: "fix_grey_images_main env w =
        (case download_recommended_vae env w3 of
           (Inl e, w4) \<Rightarrow> (Inl e, w4)
         | (Inr downloaded, w4) \<Rightarrow>
             (case downloaded of
                Some p \<Rightarrow>
                  (if p \<noteq> []
                   then (Inr (), grey_apply env b (path_name p) w4)
                   else (Inr (),
                         print (cross_mark
                           @ '' Failed to download VAE. Please download manually.'') w4))
              | None \<Rightarrow>
                  (Inr (),
                   print (cross_mark
                     @ '' Failed to download VAE. Please download manually.'') w4)))"
    by blast
  have d: "fst (download_recommended_vae env w3) = Inr (Some vae_path)"
  proof (cases "path_exists env (effects w @ [Mkdir ''models/VAE'']) vae_path")
    case True
    with assms(2) e show ?thesis by (simp add: download_already_there)
  next
    case False
    with assms(2,3) e show ?thesis by (simp add: download_succeeded)
  qed
  define w4 where "w4 = snd (download_recommended_vae env w3)"
  have d': "download_recommended_vae env w3 = (Inr (Some vae_path), w4)"
    using d by (simp add: w4_def prod_eq_iff)
  have m': "fix_grey_images_main env w = (Inr (), grey_apply env b vae_filename w4)"
    unfolding m d' by (simp add: vae_path_nonempty path_name_vae_path)
  show "fst (fix_grey_images_main env w) = Inr ()" unfolding m' by simp
  show "\<exists>pre. out (snd (fix_grey_images_main env w)) = pre @ grey_summary vae_filename"
    unfolding m' snd_conv by (rule grey_apply_summary)
qed

lemma grey_main_download_failed:
  assumes "found_vaes env (effects w) = []"
    and "mkdir_error env (effects w) ''models/VAE'' = None"
    and "\<not> path_exists env (effects w @ [Mkdir ''models/VAE'']) vae_path"
    and "download_error env (effects w @ [Mkdir ''models/VAE'']) vae_url vae_path = Some e"
  shows "fst (fix_grey_images_main env w) = Inr ()"
    and "last (out (snd (fix_grey_images_main env w)))
           = cross_mark @ '' Failed to download VAE. Please download manually.''"
    and "effects (snd (fix_grey_images_main env w))
           = effects w @ [Mkdir ''models/VAE'', Download vae_url vae_path]"
    and "files (snd (fix_grey_images_main env w)) = files w"
proof -
  from grey_main_no_vae [OF assms(1)] obtain w3 b where
    e: "effects w3 = effects w" "files w3 = files w"
    and m: "fix_grey_images_main env w =
        (case download_recommended_vae env w3 of
           (Inl e, w4) \<Rightarrow> (Inl e, w4)
         | (Inr downloaded, w4) \<Rightarrow>
             (case downloaded of
                Some p \<Rightarrow>
                  (if p \<noteq> []
                   then (Inr (), grey_apply env b (path_name p) w4)
                   else (Inr (),
                         print (cross_mark
                           @ '' Failed to download VAE. Please download manually.'') w4))
              | None \<Rightarrow>
                  (Inr (),
                   print (cross_mark
                     @ '' Failed to download VAE. Please download manually.'') w4)))"
    by blast
  have d: "fst (download_recommended_vae env w3) = Inr None"
    and de: "effects (snd (download_recommended_vae env w3))
               = effects w @ [Mkdir ''models/VAE'', Download vae_url vae_path]"
    using assms(2,3,4) e by (simp_all add: download_failed)
  define w4 where "w4 = snd (download_recommended_vae env w3)"
  have d': "download_recommended_vae env w3 = (Inr None, w4)"
    using d by (simp add: w4_def prod_eq_iff)
  have m': "fix_grey_images_main env w =
     (Inr (), print (cross_mark @ '' Failed to download VAE. Please download manually.'') w4)"
    unfolding m d' by simp
  show "fst (fix_grey_images_main env w) = Inr ()" unfolding m' by simp
  show "last (out (snd (fix_grey_images_main env w)))
           = cross_mark @ '' Failed to download VAE. Please download manually.''"
    unfolding m' by simp
  show "effects (snd (fix_grey_images_main env w))
           = effects w @ [Mkdir ''models/VAE'', Download vae_url vae_path]"
    unfolding m' using de by (simp add: w4_def)
  show "files (snd (fix_grey_images_main env w)) = files w"
    unfolding m' using e by (simp add: w4_def)
qed

lemma grey_main_mkdir_failed:
  assumes "found_vaes env (effects w) = []"
    and "mkdir_error env (effects w) ''models/VAE'' = Some e"
  shows "fst (fix_grey_images_main env w) = Inl e"
    and "effects (snd (fix_grey_images_main env w)) = effects w @ [Mkdir ''models/VAE'']"
    and "files (snd (fix_grey_images_main env w)) = files w"
proof -
  from grey_main_no_vae [OF assms(1)] obtain w3 b where
    e: "effects w3 = effects w" "files w3 = files w"
    and m: "fix_grey_images_main env w =
        (case download_recommended_vae env w3 of
           (Inl e, w4) \<Rightarrow> (Inl e, w4)
         | (Inr downloaded, w4) \<Rightarrow>
             (case downloaded of
                Some p \<Rightarrow>
                  (if p \<noteq> []
                   then (Inr (), grey_apply env b (path_name p) w4)
                   else (Inr (),
                         print (cross_mark
                           @ '' Failed to download VAE. Please download manually.'') w4))
              | None \<Rightarrow>
                  (Inr (),
                   print (cross_mark
                     @ '' Failed to download VAE. Please download manually.'') w4)))"
    by blast
  have d: "download_recommended_vae env w3 =
             (Inl e, (print (nl @ ''=== Downloading Recommended VAE ==='') w3)
                       \<lparr>effects := effects w @ [Mkdir ''models/VAE'']\<rparr>)"
    using assms(2) e by (simp add: download_recommended_vae_def Let_def)
  show "fst (fix_grey_images_main env w) = Inl e" unfolding m d by simp
  show "effects (snd (fix_grey_images_main env w)) = effects w @ [Mkdir ''models/VAE'']"
    unfolding m d by simp
  show "files (snd (fix_grey_images_main env w)) = files w"
    unfolding m d using e by simp
qed

lemma no_models_run:
  "found_vaes host_no_models (effects empty_world) = []"
  "mkdir_error host_no_models (effects empty_world) ''models/VAE''
     = Some (OSError ''No such file or directory'')"
  by (simp_all add: found_vaes_def host_no_models_def host_ok_def)

lemma pytorch_main_fix_completes:
  assumes "import_torch env (effects w) = Inr t" "\<not> cuda_available t" "soft_pip env"
  shows "fst (fix_pytorch_cuda_main env w) = Inr ()"
    and "\<exists>pre. out (snd (fix_pytorch_cuda_main env w)) = pre @ next_steps"
proof -
  from main_starts_fix [OF assms(1,2)] obtain w1 where
    m: "fix_pytorch_cuda_main env w = fix_process env w1"
    by blast
  show "fst (fix_pytorch_cuda_main env w) = Inr ()"
    unfolding m by (rule fix_process_completes [OF assms(3)])
  show "\<exists>pre. out (snd (fix_pytorch_cuda_main env w)) = pre @ next_steps"
    unfolding m by (rule fix_process_completes [OF assms(3)])
qed
lemma offline_run:
  "fix_grey_images_main host_offline empty_world =
     (Inr (),
      \<lparr>files = (\<lambda>p. None),
       effects = [Mkdir ''models/VAE'', Download vae_url vae_path],
       out = [''Grey Image Fix for Stable Diffusion WebUI'',
              rule50,
              ''=== Checking Current VAE Configuration ==='',
              cross_mark @ '' ui-config.json not found'',
              nl @ ''=== Checking Available VAE Files ==='',
              cross_mark @ '' No VAE files found in models/VAE/'',
              nl @ cycle_mark @ '' No VAE files found. Downloading recommended VAE...'',
              nl @ ''=== Downloading Recommended VAE ==='',
              ''Downloading VAE: '' @ vae_filename,
              ''This may take a few minutes...'',
              nl @ cross_mark @ '' Failed to download VAE: Connection refused'',
              cross_mark @ '' Failed to download VAE. Please download manually.'']\<rparr>)"
  by (simp add: fix_grey_images_main_def check_current_vae_config_def check_available_vaes_def
        download_recommended_vae_def Let_def file_exists_def print_def host_offline_def
        host_ok_def empty_world_def)



lemma soft_pip_broken: "soft_pip host_pip_broken"
  by (simp add: soft_pip_def host_pip_broken_def host_cpu_def host_ok_def)


section \<open>The encoding of ui-config.json\<close>


lemma cafe_decoded: "cp1252_decode cafe_config = Inr garbled_config"
  by code_simp

lemma cafe_world_read:
  "read_current_config host_cp1252 cafe_world = Inr (JDict [(''note'', JStr garbled_cafe)])"
  by (simp add: read_current_config_def file_exists_def json_load_def read_text_locale_def
        read_text_def cafe_world_def host_cp1252_def host_ok_def cafe_decoded
        cp1252_host_loads_def)
     (simp add: cafe_config_def garbled_config_def cafe_def garbled_cafe_def)

text \<open>
  Claim C10 does not hold of the source on a host whose locale is not UTF-8.
  \<open>configure_vae_in_ui_config\<close> opens \<open>ui-config.json\<close> with no \<open>encoding\<close>
  (\<open>fix_grey_images.py\<close>, lines 128 and 138), while the file is UTF-8, as
  \<open>diagnose_vae_issue.py\<close>, line 60, reads it. On the cp1252 host, with a config whose
  key \<open>note\<close> maps to \<open>caf\<close> followed by an accented e, the call succeeds and writes a
  config in which \<open>note\<close> maps to a different text, of six characters instead of four: a
  key other than the two Preferred-VAE keys has lost its value.
\<close>

theorem configure_vae_garbles_value:
  "files cafe_world ui_config_file = Some cafe_config
   \<and> json_loads host_cp1252 cafe_config = Inr (JDict [(''note'', JStr cafe)])
   \<and> fst (configure_vae_in_ui_config host_cp1252 ''vae.pt'' cafe_world)
   \<and> files (snd (configure_vae_in_ui_config host_cp1252 ''vae.pt'' cafe_world)) ui_config_file
       = Some (json_dumps host_cp1252
                 (JDict [(''note'', JStr garbled_cafe), (txt2img_key, JStr ''vae.pt''),
                         (img2img_key, JStr ''vae.pt'')]))
   \<and> json_dumps host_cp1252
         (JDict [(''note'', JStr garbled_cafe), (txt2img_key, JStr ''vae.pt''),
                 (img2img_key, JStr ''vae.pt'')]) = garbled_dump
   \<and> json_dumps host_cp1252
         (JDict [(''note'', JStr cafe), (txt2img_key, JStr ''vae.pt''),
                 (img2img_key, JStr ''vae.pt'')]) = kept_dump
   \<and> garbled_dump \<noteq> kept_dump
   \<and> garbled_cafe \<noteq> cafe
   \<and> code_points cafe = [0x63, 0x61, 0x66, 0xE9]
   \<and> code_points garbled_cafe = [0x63, 0x61, 0x66, 0xC3, 0xA9]"
proof -
  have oe: "open_error host_cp1252 (effects cafe_world) ui_config_file True = None"
    by (simp add: host_cp1252_def host_ok_def)
  have d: "dict_set img2img_key (JStr ''vae.pt'')
             (dict_set txt2img_key (JStr ''vae.pt'') [(''note'', JStr garbled_cafe)])
           = [(''note'', JStr garbled_cafe), (txt2img_key, JStr ''vae.pt''),
              (img2img_key, JStr ''vae.pt'')]"
    by (simp add: txt2img_key_def img2img_key_def)
  have a: "files cafe_world ui_config_file = Some cafe_config"
    by (simp add: cafe_world_def)
  have b: "json_loads host_cp1252 cafe_config = Inr (JDict [(''note'', JStr cafe)])"
    by (simp add: host_cp1252_def cp1252_host_loads_def)
  have c: "fst (configure_vae_in_ui_config host_cp1252 ''vae.pt'' cafe_world)"
    by (simp add: configure_written [OF cafe_world_read oe])
  have e: "files (snd (configure_vae_in_ui_config host_cp1252 ''vae.pt'' cafe_world)) ui_config_file
       = Some (json_dumps host_cp1252
                 (JDict [(''note'', JStr garbled_cafe), (txt2img_key, JStr ''vae.pt''),
                         (img2img_key, JStr ''vae.pt'')]))"
    by (simp add: configure_written [OF cafe_world_read oe] d del: dict_set.simps)
  have f: "json_dumps host_cp1252
         (JDict [(''note'', JStr garbled_cafe), (txt2img_key, JStr ''vae.pt''),
                 (img2img_key, JStr ''vae.pt'')]) = garbled_dump"
    "json_dumps host_cp1252
         (JDict [(''note'', JStr cafe), (txt2img_key, JStr ''vae.pt''),
                 (img2img_key, JStr ''vae.pt'')]) = kept_dump"
    by (simp_all add: host_cp1252_def garbled_cafe_def cafe_def)
  have g: "garbled_dump \<noteq> kept_dump" "garbled_cafe \<noteq> cafe"
    by (simp_all add: garbled_dump_def kept_dump_def garbled_cafe_def cafe_def)
  have h: "code_points cafe = [0x63, 0x61, 0x66, 0xE9]"
    "code_points garbled_cafe = [0x63, 0x61, 0x66, 0xC3, 0xA9]"
    by (simp_all add: cafe_def garbled_cafe_def continuation_def)
  from a b c e f g h show ?thesis by simp
qed

section \<open>The backups of fix_image_generation.py\<close>

text \<open>
  Whenever \<open>patch_webui_images_module\<close> changes \<open>modules/images.py\<close>, the backup file holds
  the new text of the target, on every host and in every world.
\<close>

lemma images_backup_is_target:
  assumes "files (snd (patch_webui_images_module env w)) images_file \<noteq> files w images_file"
  shows "files (snd (patch_webui_images_module env w)) (images_file @ ''.cpu_fix_backup'')
           = files (snd (patch_webui_images_module env w)) images_file"
  using assms
  by (auto simp: patch_webui_images_module_def Let_def write_text_def print_def
           split: if_splits sum.splits option.splits prod.splits)

lemma images_world_run:
  "fst (patch_webui_images_module host_ok images_world)"
  "effects (snd (patch_webui_images_module host_ok images_world))
     = [Write (images_file @ ''.cpu_fix_backup'') images_patched, Write images_file images_patched]"
  "out (snd (patch_webui_images_module host_ok images_world))
     = [nl @ ''=== Patching WebUI Images Module ==='',
        ok_mark @ '' Added CPU image processing fix to images.py'']"
  "files (snd (patch_webui_images_module host_ok images_world)) images_file = Some images_patched"
  "files (snd (patch_webui_images_module host_ok images_world)) (images_file @ ''.cpu_fix_backup'')
     = Some images_patched"
  by code_simp+

lemma processing_world_run:
  "fst (patch_webui_image_processing host_ok processing_world)"
  "effects (snd (patch_webui_image_processing host_ok processing_world))
     = [Write (processing_file @ ''.image_gen_backup'') processing_patched,
        Write processing_file processing_patched]"
  "out (snd (patch_webui_image_processing host_ok processing_world))
     = [nl @ ''=== Patching WebUI Image Processing ==='',
        ok_mark @ '' Applied decode_latent_batch patch'',
        ok_mark @ '' Applied 1 patches to modules/processing.py'']"
  "files (snd (patch_webui_image_processing host_ok processing_world)) processing_file
     = Some processing_patched"
  "files (snd (patch_webui_image_processing host_ok processing_world))
     (processing_file @ ''.image_gen_backup'') = Some processing_patched"
  by code_simp+

lemma image_texts_differ:
  "images_patched \<noteq> images_original" "processing_patched \<noteq> processing_original"
  by code_simp+

text \<open>
  Claim C9 does not hold of the two patches of \<open>fix_image_generation.py\<close>. Under the
  comment \<open># Create backup\<close>, \<open>patch_webui_images_module\<close> and
  \<open>patch_webui_image_processing\<close> write the variable \<open>content\<close> to the backup file after
  they have modified it. On a host where nothing fails, with a \<open>modules/images.py\<close> of three
  lines and a \<open>modules/processing.py\<close> that holds the function header to replace, each
  patch returns \<open>True\<close> having written the patched text twice, first to the backup file,
  then to the target: the backup file does not hold what the target held before the call,
  which is written nowhere.
\<close>

theorem image_patch_backup_not_original:
  "files images_world images_file = Some images_original
   \<and> fst (patch_webui_images_module host_ok images_world)
   \<and> new_effects images_world (snd (patch_webui_images_module host_ok images_world))
       = [Write (images_file @ ''.cpu_fix_backup'') images_patched,
          Write images_file images_patched]
   \<and> files (snd (patch_webui_images_module host_ok images_world))
         (images_file @ ''.cpu_fix_backup'') = Some images_patched
   \<and> images_patched \<noteq> images_original
   \<and> files processing_world processing_file = Some processing_original
   \<and> fst (patch_webui_image_processing host_ok processing_world)
   \<and> new_effects processing_world (snd (patch_webui_image_processing host_ok processing_world))
       = [Write (processing_file @ ''.image_gen_backup'') processing_patched,
          Write processing_file processing_patched]
   \<and> files (snd (patch_webui_image_processing host_ok processing_world))
         (processing_file @ ''.image_gen_backup'') = Some processing_patched
   \<and> processing_patched \<noteq> processing_original"
proof -
  have a: "files images_world images_file = Some images_original"
    "files processing_world processing_file = Some processing_original"
    by (simp_all add: images_world_def processing_world_def)
  have b: "effects images_world = []" "effects processing_world = []"
    by (simp_all add: images_world_def processing_world_def)
  from a b images_world_run processing_world_run image_texts_differ
  show ?thesis by (simp add: new_effects_def)
qed

section \<open>The launchers rendered from a configuration\<close>

lemma startswith_append_self [simp]: "startswith (p @ ys) p"
  by (induction p) simp_all

lemma startswith_appendI: "startswith xs p \<Longrightarrow> startswith (xs @ ys) p"
  by (induction xs p rule: startswith.induct) simp_all

lemma contains_Nil [simp]: "contains s []"
  by (cases s) simp_all

lemma contains_prefix [simp]: "contains (p @ ys) p"
proof (cases "p @ ys")
  case Nil
  then show ?thesis by simp
next
  case (Cons c cs)
  have "startswith (p @ ys) p" by simp
  then show ?thesis unfolding Cons by simp
qed

lemma contains_appendI1: "contains xs p \<Longrightarrow> contains (xs @ ys) p"
proof (induction xs)
  case Nil
  then show ?case by (cases p) simp_all
next
  case (Cons c cs)
  then show ?case using startswith_appendI [of "c # cs" p ys] by auto
qed

lemma contains_appendI2: "contains ys p \<Longrightarrow> contains (xs @ ys) p"
  by (induction xs) simp_all

text \<open>The rendering, cut at its first \<open>{description}\<close> and at its first \<open>{args}\<close>.\<close>

lemma base_script_format_split:
  "base_script_format d a =
     (''@echo off'' @ nl @ ''echo '') @ d @ nl
     @ text_of_lines
         [''echo ========================'',
          ''echo.'',
          '''',
          ''REM GPU environment variables'',
          ''set PYTORCH_CUDA_ALLOC_CONF=max_split_size_mb:512'',
          ''set CUDA_LAUNCH_BLOCKING=0'',
          '''',
          ''REM Base arguments'',
          ''set COMMANDLINE_ARGS=--skip-python-version-check --skip-install'',
          ''set COMMANDLINE_ARGS=%COMMANDLINE_ARGS% --opt-split-attention --medvram'',
          '''',
          ''REM Precision-specific arguments'']
     @ ''set COMMANDLINE_ARGS=%COMMANDLINE_ARGS% '' @ a @ nl
     @ text_of_lines
         ['''',
          ''echo Configuration: '' @ d,
          ''echo Arguments: '' @ a,
          ''echo.'',
          ''echo Expected: Should fix noise/static issues'',
          ''echo.'',
          '''',
          ''call webui.bat %*'']"
  by (simp add: base_script_format_def text_of_lines_def)

lemma rendering_contains_inputs:
  "contains (base_script_format d a) d" "contains (base_script_format d a) a"
  unfolding base_script_format_split
  by (intro contains_appendI2 contains_prefix)+

lemma rendering_contains_base_flags:
  "contains (base_script_format d a) ''--skip-python-version-check --skip-install''"
  "contains (base_script_format d a) ''--opt-split-attention --medvram''"
  unfolding base_script_format_split
  by (rule contains_appendI2, rule contains_appendI2, rule contains_appendI2,
      rule contains_appendI1, simp add: text_of_lines_def nl_def)+

text \<open>One launcher: what \<open>create_script\<close> does to the files.\<close>

lemma create_script_other:
  "p \<noteq> n \<Longrightarrow> files (snd (create_script env n c w)) p = files w p"
  by (simp add: create_script_def Let_def getitem_def write_text_def
           split: option.splits sum.splits prod.splits)

lemma create_script_ok:
  "fst (create_script env n c w) \<Longrightarrow>
     \<exists>d a. map_of c ''description'' = Some d \<and> map_of c ''args'' = Some a
       \<and> files (snd (create_script env n c w)) n = Some (base_script_format d a)"
  by (auto simp: create_script_def Let_def getitem_def write_text_def
           split: option.splits sum.splits prod.splits)

lemma create_scripts_loop_spec:
  "distinct (map fst ss) \<Longrightarrow>
     (\<exists>new. fst (create_scripts_loop env ss acc w) = acc @ new
        \<and> set new \<subseteq> fst ` set ss
        \<and> (\<forall>n c. (n, c) \<in> set ss \<and> n \<in> set new \<longrightarrow>
              rendered c (snd (create_scripts_loop env ss acc w)) n))
     \<and> (\<forall>p. p \<notin> fst ` set ss \<longrightarrow>
           files (snd (create_scripts_loop env ss acc w)) p = files w p)"
proof (induction ss arbitrary: acc w)
  case Nil
  then show ?case by simp
next
  case (Cons s rest)
  obtain n c where s: "s = (n, c)" by (cases s)
  obtain b w1 where cs: "create_script env n c w = (b, w1)" by (cases "create_script env n c w")
  from Cons.prems s have nn: "n \<notin> fst ` set rest" and dr: "distinct (map fst rest)"
    by auto
  let ?acc = "if b then acc @ [n] else acc"
  have step: "create_scripts_loop env (s # rest) acc w = create_scripts_loop env rest ?acc w1"
    unfolding s using cs by (cases b) simp_all
  from Cons.IH [OF dr, of ?acc w1] obtain new where
    f: "fst (create_scripts_loop env rest ?acc w1) = ?acc @ new"
    and sub: "set new \<subseteq> fst ` set rest"
    and rn: "\<forall>n c. (n, c) \<in> set rest \<and> n \<in> set new \<longrightarrow>
              rendered c (snd (create_scripts_loop env rest ?acc w1)) n"
    and oth: "\<forall>p. p \<notin> fst ` set rest \<longrightarrow>
           files (snd (create_scripts_loop env rest ?acc w1)) p = files w1 p"
    by blast
  have w1o: "\<And>p. p \<noteq> n \<Longrightarrow> files w1 p = files w p"
    using create_script_other [of _ n env c w] cs by simp
  have keep: "files (snd (create_scripts_loop env rest ?acc w1)) n = files w1 n"
    using oth nn by blast
  have uniq: "\<And>c'. (n, c') \<in> set (s # rest) \<Longrightarrow> c' = c"
    using nn s by (auto simp: image_iff)
  let ?new = "if b then n # new else new"
  have a1: "fst (create_scripts_loop env (s # rest) acc w) = acc @ ?new"
    unfolding step f by simp
  have a2: "set ?new \<subseteq> fst ` set (s # rest)"
    using sub s by auto
  have a3: "\<forall>n' c'. (n', c') \<in> set (s # rest) \<and> n' \<in> set ?new \<longrightarrow>
              rendered c' (snd (create_scripts_loop env (s # rest) acc w)) n'"
  proof (intro allI impI)
    fix n' c' assume h: "(n', c') \<in> set (s # rest) \<and> n' \<in> set ?new"
    show "rendered c' (snd (create_scripts_loop env (s # rest) acc w)) n'"
    proof (cases "n' = n")
      case True
      with h uniq have c': "c' = c" by blast
      from h True sub nn have b: "b" by (auto split: if_splits)
      from create_script_ok [of env n c w] cs b
      have "rendered c w1 n" by (simp add: rendered_def)
      then show ?thesis unfolding step True c' using keep by (simp add: rendered_def)
    next
      case False
      with h s have "(n', c') \<in> set rest" "n' \<in> set new" by (auto split: if_splits)
      with rn show ?thesis unfolding step by blast
    qed
  qed
  have a4: "\<forall>p. p \<notin> fst ` set (s # rest) \<longrightarrow>
           files (snd (create_scripts_loop env (s # rest) acc w)) p = files w p"
    unfolding step using oth w1o s by auto
  from a1 a2 a3 a4 show ?case by blast
qed

lemma scripts_distinct: "distinct (map fst scripts)"
  by (simp add: scripts_def)

lemma precision_scripts_rendered:
  assumes "(n, c) \<in> set scripts"
    and "n \<in> set (fst (create_precision_test_scripts env w))"
  shows "rendered c (snd (create_precision_test_scripts env w)) n"
  using create_scripts_loop_spec [OF scripts_distinct, of env "[]"
          "print (nl @ ''=== Creating Precision Test Scripts ==='') w"] assms
  unfolding create_precision_test_scripts_def by auto

lemma precision_scripts_names:
  "n \<in> set (fst (create_precision_test_scripts env w)) \<Longrightarrow> n \<in> fst ` set scripts"
  using create_scripts_loop_spec [OF scripts_distinct, of env "[]"
          "print (nl @ ''=== Creating Precision Test Scripts ==='') w"]
  unfolding create_precision_test_scripts_def by auto

lemma fp32_config:
  "map_of scripts ''webui_vae_test_fp32.bat''
     = Some [(''description'', fp32_description), (''args'', fp32_args)]"
  by (simp add: scripts_def fp32_description_def fp32_args_def)

lemma fp32_created:
  "''webui_vae_test_fp32.bat'' \<in> set (fst (create_precision_test_scripts host_ok empty_world))"
  "''webui_vae_test_fp32.bat'' \<in> set (fst (create_precision_test_scripts host_ok old_world))"
  by code_simp+

lemma fp32_written:
  "files (snd (create_precision_test_scripts host_ok empty_world)) ''webui_vae_test_fp32.bat''
     = Some (base_script_format fp32_description fp32_args)"
  by code_simp



end
